theory Spec2Isabelle
  imports Complex_Main "HOL-Library.Char_ord" "HOL-Library.List_Lexorder" "HOL-Library.Log_Nat"
begin

section \<open>Normaliser\<close>

subsection \<open>local\_utils.normalize\_phone\_number\<close>

text \<open>
  \<^verbatim>\<open>RE_NON_DIGIT = re.compile(r'\D')\<close>: the characters the pattern keeps are the decimal
  digits. Strings are \<open>char list\<close>, so the digits are the ten ASCII ones.
\<close>

definition is_digit :: "char \<Rightarrow> bool" where
  "is_digit c = (c \<in> set ''0123456789'')"

text \<open>
  \<^verbatim>\<open>
  def normalize_phone_number(phone_number):
      if not phone_number: return ""
      digits = RE_NON_DIGIT.sub('', phone_number)
      if len(digits) == 11 and digits.startswith('1'):
          return digits[1:]
      return digits
  \<close>
\<close>

definition normalize_phone_number :: "string \<Rightarrow> string" where
  "normalize_phone_number phone_number =
     (if phone_number = [] then []
      else let digits = filter is_digit phone_number
           in if length digits = 11 \<and> take 1 digits = ''1'' then drop 1 digits else digits)"

subsection \<open>etl\_messages.\_clean\_guid\<close>

text \<open>
  Python's \<^verbatim>\<open>s.split(sep, 1)\<close> for a one-character separator: at most one cut, at the
  first occurrence of the separator.
\<close>

definition split_once :: "char \<Rightarrow> string \<Rightarrow> string list" where
  "split_once sep s =
     (if sep \<in> set s
      then [takeWhile (\<lambda>c. c \<noteq> sep) s, drop 1 (dropWhile (\<lambda>c. c \<noteq> sep) s)]
      else [s])"

text \<open>
  \<^verbatim>\<open>
  def _clean_guid(guid):
      if guid:
          if '/' in guid: return guid.split('/', 1)[-1]
          if ':' in guid: return guid.split(':', 1)[-1]
      return guid
  \<close>
  The argument may be \<^verbatim>\<open>None\<close> (a NULL column), which is returned as it is.
\<close>

definition clean_guid :: "string option \<Rightarrow> string option" where
  "clean_guid guid =
     (case guid of
        None \<Rightarrow> None
      | Some g \<Rightarrow>
          if g \<noteq> [] then
            (if CHR ''/'' \<in> set g then Some (last (split_once (CHR ''/'') g))
             else if CHR '':'' \<in> set g then Some (last (split_once (CHR '':'') g))
             else Some g)
          else Some g)"

text \<open>
  The reading of the specification: the part of the string after the last occurrence of
  either separator.
\<close>

definition after_last_separator :: "string \<Rightarrow> string" where
  "after_last_separator s = rev (takeWhile (\<lambda>c. c \<noteq> CHR ''/'' \<and> c \<noteq> CHR '':'') (rev s))"

section \<open>Timestamp decoder\<close>

subsection \<open>live\_sync.extractors.to\_nanos\<close>

text \<open>
  \<^verbatim>\<open>
  def to_nanos(raw: int) -> int:
      if not isinstance(raw, int): ... return raw
      if raw > 1e16: return raw
      if raw > 1e13: return raw * 1_000
      if raw > 1e10: return raw * 1_000_000
      return raw * 1_000_000_000
  \<close>
  The argument is a Python integer, so the guard at the top never fires; the float
  literals \<^verbatim>\<open>1e16\<close>, \<^verbatim>\<open>1e13\<close> and \<^verbatim>\<open>1e10\<close> are exact powers of ten.
\<close>

definition to_nanos :: "int \<Rightarrow> int" where
  "to_nanos raw =
     (if raw > 10 ^ 16 then raw
      else if raw > 10 ^ 13 then raw * 1000
      else if raw > 10 ^ 10 then raw * 1000000
      else raw * 1000000000)"

subsection \<open>Floating point and \<^verbatim>\<open>timedelta\<close>\<close>

text \<open>
  The decoder computes in Python floats, IEEE 754 binary64 with rounding to nearest, ties
  to even. \<open>float_round x\<close> is the float nearest to the rational \<open>x\<close>: with
  \<open>e = float_exponent x\<close> the integer such that \<open>2\<^sup>e \<le> \<bar>x\<bar> < 2\<^sup>e\<^sup>+\<^sup>1\<close>, the floats around
  \<open>x\<close> are the multiples of \<open>2\<^sup>e\<^sup>-\<^sup>5\<^sup>2\<close>. The values of the decoder lie far inside the
  normal range of the format (a Python integer too large for a float raises
  \<^verbatim>\<open>OverflowError\<close>, which the decoder answers like a date out of range), so that
  subnormal numbers and infinities are left out. \<open>float(ts)\<close> is \<open>float_round\<close> of the
  integer, and a float division is \<open>float_round\<close> of the exact quotient.
\<close>

definition round_half_even :: "rat \<Rightarrow> int" where
  "round_half_even x =
     (let n = \<lfloor>x\<rfloor>; d = x - of_int n
      in if d < 1 / 2 then n else if d > 1 / 2 then n + 1 else if even n then n else n + 1)"

definition float_exponent :: "rat \<Rightarrow> int" where
  "float_exponent x =
     (if \<bar>x\<bar> \<ge> 1 then bitlen \<lfloor>\<bar>x\<bar>\<rfloor> - 1 else - bitlen (\<lceil>1 / \<bar>x\<bar>\<rceil> - 1))"

definition float_round :: "rat \<Rightarrow> rat" where
  "float_round x =
     (if x = 0 then 0
      else let ulp = 2 powi (float_exponent x - 52)
           in of_int (round_half_even (x / ulp)) * ulp)"

text \<open>
  \<^verbatim>\<open>timedelta(seconds=ts_sec)\<close> for a float: the whole seconds count a million
  microseconds each, and the fraction, times \<^verbatim>\<open>1e6\<close> in floating point, is rounded to a
  whole number of microseconds, ties to even. The result is the number of microseconds of
  the \<^verbatim>\<open>timedelta\<close>.
\<close>

definition timedelta_microseconds :: "rat \<Rightarrow> int" where
  "timedelta_microseconds seconds =
     (let intpart = (if seconds \<ge> 0 then \<lfloor>seconds\<rfloor> else \<lceil>seconds\<rceil>);
          fracpart = seconds - of_int intpart
      in if fracpart = 0 then intpart * 1000000
         else intpart * 1000000 + round_half_even (float_round (1000000 * fracpart)))"

subsection \<open>etl\_messages.\_convert\_apple\_timestamp\<close>

text \<open>
  An instant is its offset from the source epoch 2001-01-01T00:00:00Z in seconds, a
  rational number; the instants of \<^verbatim>\<open>datetime\<close> are the whole numbers of microseconds
  from 0001-01-01T00:00:00 to 9999-12-31T23:59:59.999999. A sum outside this range raises
  \<^verbatim>\<open>OverflowError\<close>, which the function turns into \<^verbatim>\<open>None\<close>.
\<close>

definition datetime_min_microseconds :: int where
  "datetime_min_microseconds = - 63113904000000000"

definition datetime_max_microseconds :: int where
  "datetime_max_microseconds = 252423993599999999"

text \<open>
  \<^verbatim>\<open>
  def _convert_apple_timestamp(apple_timestamp):
      try:
          if apple_timestamp is None: return None
          ts = int(apple_timestamp)
          if ts <= 1_000_000_0000:            ts_sec = float(ts)
          elif ts <= 10_000_000_000_000_000:  ts_sec = float(ts) / 1_000_000.0
          else:                               ts_sec = float(ts) / 1_000_000_000.0
          return datetime(2001, 1, 1, tzinfo=timezone.utc) + timedelta(seconds=ts_sec)
      except (ValueError, TypeError, OverflowError): return None
  \<close>
\<close>

definition convert_apple_timestamp :: "int option \<Rightarrow> rat option" where
  "convert_apple_timestamp apple_timestamp =
     (case apple_timestamp of
        None \<Rightarrow> None
      | Some ts \<Rightarrow>
          let ts_sec = (if ts \<le> 10000000000 then float_round (of_int ts)
                        else if ts \<le> 10000000000000000
                             then float_round (float_round (of_int ts) / 1000000)
                        else float_round (float_round (of_int ts) / 1000000000));
              us = timedelta_microseconds ts_sec
          in if datetime_min_microseconds \<le> us \<and> us \<le> datetime_max_microseconds
             then Some (of_int us / 1000000) else None)"


section \<open>Extractor\<close>

text \<open>
  The exceptions of the Python run time that the modelled code can raise.
\<close>

datatype py_error = TypeError | IntegrityError

text \<open>
  The built-in \<^verbatim>\<open>print\<close> takes the keyword arguments \<^verbatim>\<open>sep\<close>, \<^verbatim>\<open>end\<close>,
  \<^verbatim>\<open>file\<close> and \<^verbatim>\<open>flush\<close>; any other keyword raises \<^verbatim>\<open>TypeError\<close>. The argument
  of the model is the list of the keywords of a call.
\<close>

definition py_print :: "string list \<Rightarrow> py_error + unit" where
  "py_print kwargs =
     (if set kwargs \<subseteq> {''sep'', ''end'', ''file'', ''flush''} then Inr () else Inl TypeError)"

text \<open>
  A row of the message query of \<^verbatim>\<open>fetch_new_messages\<close> (the join of \<^verbatim>\<open>message\<close>,
  \<^verbatim>\<open>chat_message_join\<close>, \<^verbatim>\<open>chat\<close> and \<^verbatim>\<open>handle\<close>), a dictionary in the source.
  \<open>None\<close> is a NULL column or an absent key. The text columns (\<^verbatim>\<open>text\<close>,
  \<^verbatim>\<open>attributedBody\<close>, \<^verbatim>\<open>service\<close>, \<^verbatim>\<open>reply_to_guid\<close>) are carried through the sync
  unchanged and take part in no decision; they are left out.
\<close>

record src_row =
  r_message_id :: int
  r_guid :: "string option"
  r_date :: "int option"
  r_is_from_me :: bool
  r_sender_identifier :: "string option"
  r_chat_id :: "int option"
  r_chat_participants :: "string option"
  r_associated_message_type :: "int option"
  r_associated_message_guid :: "string option"

record src_attachment =
  a_rowid :: int
  a_guid :: "string option"
  a_message_guid :: "string option"

text \<open>
  What the source database answers to a query: \<^verbatim>\<open>sqlite3.connect\<close> may raise, the
  query may raise (both \<^verbatim>\<open>sqlite3.Error\<close>), or the joined table is read.
\<close>

datatype 'r source_db = ConnectFails | QueryFails | Rows "'r list"

datatype connection = Connection

text \<open>
  \<^verbatim>\<open>LIVE_DB_CONNECTION\<close> is a module-level variable, \<^verbatim>\<open>None\<close> or the cached
  connection.
  \<^verbatim>\<open>
  def get_chat_db_connection():
      global LIVE_DB_CONNECTION
      if LIVE_DB_CONNECTION is None:
          LIVE_DB_CONNECTION = sqlite3.connect(get_live_chat_db_path(), timeout=1.0)
      return LIVE_DB_CONNECTION
  \<close>
  \<open>Inl ()\<close> stands for the \<^verbatim>\<open>sqlite3.Error\<close> of a failed connect.
\<close>

definition get_chat_db_connection ::
  "'r source_db \<Rightarrow> connection option \<Rightarrow> (unit + connection) \<times> connection option" where
  "get_chat_db_connection src LIVE_DB_CONNECTION =
     (case LIVE_DB_CONNECTION of
        Some c \<Rightarrow> (Inr c, Some c)
      | None \<Rightarrow> (case src of
                   ConnectFails \<Rightarrow> (Inl (), None)
                 | _ \<Rightarrow> (Inr Connection, Some Connection)))"

text \<open>
  The handler of \<^verbatim>\<open>sqlite3.Error\<close>, the same text in \<^verbatim>\<open>fetch_new_messages\<close> and
  \<^verbatim>\<open>fetch_new_attachments\<close>:
  \<^verbatim>\<open>
  except sqlite3.Error as e:
      print(f"ERROR: Error fetching new messages by ROWID: {e}", exc_info=True)
      global LIVE_DB_CONNECTION
      try:
          if LIVE_DB_CONNECTION: LIVE_DB_CONNECTION.close()
      except: pass
      LIVE_DB_CONNECTION = None
      return [], last_rowid
  \<close>
  An exception raised inside the handler leaves the function.
\<close>

definition sqlite_error_handler ::
  "connection option \<Rightarrow> int \<Rightarrow> (py_error + 'r list \<times> int) \<times> connection option" where
  "sqlite_error_handler LIVE_DB_CONNECTION last_rowid =
     (case py_print [''exc_info''] of
        Inl e \<Rightarrow> (Inl e, LIVE_DB_CONNECTION)
      | Inr _ \<Rightarrow> (Inr ([], last_rowid), None))"

text \<open>
  \<^verbatim>\<open>
  def fetch_new_messages(last_rowid, last_apple_epoch=None):
      query = "SELECT ... WHERE m.ROWID > ? ORDER BY m.ROWID ASC"
      try:
          conn = get_chat_db_connection()
          cursor = conn.cursor()
          cursor.execute(query, (last_rowid,))
          messages = [dict(row) for row in cursor.fetchall()]
          max_rowid = max([m['message_id'] for m in messages]) if messages else last_rowid
          for m in messages:
              if 'date' in m and m['date'] is not None:
                  try: m['date'] = to_nanos(int(m['date']))
                  except (ValueError, TypeError) as e: print(...)
          if messages: print(...)
          return messages, max_rowid
      except sqlite3.Error as e:
          ...
  \<close>
  The \<^verbatim>\<open>date\<close> column holds integers, so \<^verbatim>\<open>int\<close> does not raise.
\<close>

definition fetch_new_messages ::
  "src_row source_db \<Rightarrow> connection option \<Rightarrow> int
   \<Rightarrow> (py_error + src_row list \<times> int) \<times> connection option" where
  "fetch_new_messages src LIVE_DB_CONNECTION last_rowid =
     (case get_chat_db_connection src LIVE_DB_CONNECTION of
        (Inl _, conn) \<Rightarrow> sqlite_error_handler conn last_rowid
      | (Inr _, conn) \<Rightarrow>
          (case src of
             Rows tbl \<Rightarrow>
               let messages = sort_key r_message_id (filter (\<lambda>m. r_message_id m > last_rowid) tbl);
                   max_rowid = (if messages \<noteq> [] then Max (set (map r_message_id messages))
                                else last_rowid);
                   messages = map (\<lambda>m. m\<lparr>r_date := map_option to_nanos (r_date m)\<rparr>) messages
               in (Inr (messages, max_rowid), conn)
           | _ \<Rightarrow> sqlite_error_handler conn last_rowid))"

text \<open>
  \<^verbatim>\<open>
  def fetch_new_attachments(last_rowid):
      query = "SELECT ... WHERE a.ROWID > ? ORDER BY a.ROWID ASC"
      try:
          conn = get_chat_db_connection()
          cursor = conn.cursor()
          cursor.execute(query, (last_rowid,))
          attachments = [dict(row) for row in cursor.fetchall()]
          max_rowid = max([a['ROWID'] for a in attachments]) if attachments else last_rowid
          if attachments: print(...)
          return attachments, max_rowid
      except sqlite3.Error as e:
          ...
  \<close>
\<close>

definition fetch_new_attachments ::
  "src_attachment source_db \<Rightarrow> connection option \<Rightarrow> int
   \<Rightarrow> (py_error + src_attachment list \<times> int) \<times> connection option" where
  "fetch_new_attachments src LIVE_DB_CONNECTION last_rowid =
     (case get_chat_db_connection src LIVE_DB_CONNECTION of
        (Inl _, conn) \<Rightarrow> sqlite_error_handler conn last_rowid
      | (Inr _, conn) \<Rightarrow>
          (case src of
             Rows tbl \<Rightarrow>
               let attachments = sort_key a_rowid (filter (\<lambda>a. a_rowid a > last_rowid) tbl);
                   max_rowid = (if attachments \<noteq> [] then Max (set (map a_rowid attachments))
                                else last_rowid)
               in (Inr (attachments, max_rowid), conn)
           | _ \<Rightarrow> sqlite_error_handler conn last_rowid))"

section \<open>Internal store\<close>

text \<open>
  An instant is its offset from the source epoch in seconds (the value the decoder
  returns); the difference of two instants is a \<^verbatim>\<open>timedelta\<close>, and
  \<^verbatim>\<open>total_seconds()\<close> of it is that difference.
\<close>

type_synonym instant = rat

definition total_seconds :: "rat \<Rightarrow> rat" where
  "total_seconds d = d"

text \<open>
  The rows of the tables \<^verbatim>\<open>messages\<close> and \<^verbatim>\<open>conversations\<close> of
  \<^verbatim>\<open>local_session_manager.SCHEMA\<close>, with the columns the engines read or write. Row ids
  are \<^verbatim>\<open>INTEGER PRIMARY KEY AUTOINCREMENT\<close>.
\<close>

record message =
  msg_id :: nat
  msg_chat_id :: nat
  msg_sender_id :: "nat option"
  msg_conversation_id :: "nat option"
  msg_timestamp :: "instant option"
  msg_is_from_me :: bool
  msg_message_type :: "int option"
  msg_guid :: string

record conversation =
  c_id :: nat
  c_chat_id :: nat
  c_initiator_id :: "nat option"
  c_start_time :: instant
  c_end_time :: instant
  c_message_count :: nat
  c_gap_threshold :: int

section \<open>Conversation engine\<close>

subsection \<open>etl\_conversations.\_split\_into\_conversations\<close>

text \<open>
  The message dictionaries that \<^verbatim>\<open>extract_conversations\<close> and
  \<^verbatim>\<open>etl_conversations_fresh_split_compare\<close> build from the rows of \<^verbatim>\<open>messages\<close>; the
  timestamp has gone through \<^verbatim>\<open>strptime\<close>, so it is never \<^verbatim>\<open>None\<close>.
\<close>

record msg =
  m_id :: nat
  m_chat_id :: nat
  m_sender_id :: "nat option"
  m_timestamp :: instant

text \<open>A conversation block, the dictionary that the split appends to its result.\<close>

record block =
  b_messages :: "msg list"
  b_start_time :: instant
  b_end_time :: instant
  b_chat_id :: nat

text \<open>
  \<^verbatim>\<open>
  for msg in messages:
      msg_time = msg['timestamp']
      if start_time is None:
          start_time = msg_time; current_msgs = [msg]; last_time = msg_time
          continue
      time_gap = (msg_time - last_time).total_seconds()
      if time_gap > gap_threshold:
          if current_msgs:
              conversations.append({'messages': current_msgs, 'start_time': start_time,
                                    'end_time': last_time, 'chat_id': msg['chat_id']})
          start_time = msg_time
          current_msgs = []
      current_msgs.append(msg)
      last_time = msg_time
  \<close>
  \<open>split_loop\<close> is the loop from the second message on: \<^verbatim>\<open>start_time\<close> is
  \<^verbatim>\<open>None\<close> exactly at the first message.
\<close>

fun split_loop ::
  "int \<Rightarrow> msg list \<Rightarrow> block list \<Rightarrow> msg list \<Rightarrow> instant \<Rightarrow> instant
   \<Rightarrow> block list \<times> msg list \<times> instant \<times> instant" where
  "split_loop gap_threshold [] conversations current_msgs start_time last_time =
     (conversations, current_msgs, start_time, last_time)"
| "split_loop gap_threshold (msg # rest) conversations current_msgs start_time last_time =
     (let msg_time = m_timestamp msg;
          time_gap = total_seconds (msg_time - last_time)
      in if time_gap > of_int gap_threshold
         then split_loop gap_threshold rest
                (if current_msgs \<noteq> []
                 then conversations @ [\<lparr>b_messages = current_msgs, b_start_time = start_time,
                                         b_end_time = last_time, b_chat_id = m_chat_id msg\<rparr>]
                 else conversations)
                [msg] msg_time msg_time
         else split_loop gap_threshold rest conversations (current_msgs @ [msg])
                start_time msg_time)"

text \<open>
  \<^verbatim>\<open>
  def _split_into_conversations(messages, gap_threshold=1800):
      if not messages: return []
      conversations = []; current_msgs = []; start_time = None; last_time = None
      for msg in messages: ...
      if current_msgs:
          conversations.append({'messages': current_msgs, 'start_time': start_time,
                                'end_time': last_time, 'chat_id': messages[0]['chat_id']})
      return conversations
  \<close>
\<close>

definition split_into_conversations :: "msg list \<Rightarrow> int \<Rightarrow> block list" where
  "split_into_conversations messages gap_threshold =
     (case messages of
        [] \<Rightarrow> []
      | first # rest \<Rightarrow>
          (case split_loop gap_threshold rest [] [first] (m_timestamp first) (m_timestamp first) of
             (conversations, current_msgs, start_time, last_time) \<Rightarrow>
               if current_msgs \<noteq> []
               then conversations @ [\<lparr>b_messages = current_msgs, b_start_time = start_time,
                                       b_end_time = last_time, b_chat_id = m_chat_id first\<rparr>]
               else conversations))"

subsection \<open>etl\_conversations.transform\_conversations\<close>

text \<open>The dictionaries that \<^verbatim>\<open>transform_conversations\<close> hands to the load.\<close>

record segment =
  s_chat_id :: nat
  s_initiator_id :: "nat option"
  s_start_time :: instant
  s_end_time :: instant
  s_message_count :: nat
  s_participant_ids :: "nat set"
  s_message_ids :: "nat list"
  s_gap_threshold :: int

text \<open>
  \<^verbatim>\<open>
  def transform_conversations(raw_conversations, gap_threshold):
      transformed = []
      for conv in raw_conversations:
          msgs = conv['messages']
          if not msgs: continue
          initiator_msg = next((m for m in msgs if m['sender_id'] is not None), None)
          if not initiator_msg: continue
          participant_ids = {m['sender_id'] for m in msgs if m['sender_id'] is not None}
          if not participant_ids: continue
          transformed.append({'chat_id': conv['chat_id'],
              'initiator_id': initiator_msg['sender_id'],
              'start_time': conv['start_time'], 'end_time': conv['end_time'],
              'message_count': len(msgs), 'participant_ids': list(participant_ids),
              'message_ids': [m['id'] for m in msgs], 'gap_threshold': gap_threshold})
      return transformed
  \<close>
\<close>

fun transform_conversations :: "block list \<Rightarrow> int \<Rightarrow> segment list" where
  "transform_conversations [] gap_threshold = []"
| "transform_conversations (conv # rest) gap_threshold =
     (let msgs = b_messages conv
      in if msgs = [] then transform_conversations rest gap_threshold
         else (case find (\<lambda>m. m_sender_id m \<noteq> None) msgs of
                 None \<Rightarrow> transform_conversations rest gap_threshold
               | Some initiator_msg \<Rightarrow>
                   let participant_ids = set (List.map_filter m_sender_id msgs)
                   in if participant_ids = {} then transform_conversations rest gap_threshold
                      else \<lparr>s_chat_id = b_chat_id conv,
                            s_initiator_id = m_sender_id initiator_msg,
                            s_start_time = b_start_time conv,
                            s_end_time = b_end_time conv,
                            s_message_count = length msgs,
                            s_participant_ids = participant_ids,
                            s_message_ids = map m_id msgs,
                            s_gap_threshold = gap_threshold\<rparr>
                           # transform_conversations rest gap_threshold))"

subsection \<open>The store that the engines write\<close>

text \<open>
  The other tables of the schema, and the store as a whole. \<open>seq_\<close>\<open>t\<close> is the entry of
  \<^verbatim>\<open>sqlite_sequence\<close> for table \<open>t\<close>: the largest row id ever given out, so that an
  \<^verbatim>\<open>AUTOINCREMENT\<close> insert receives the next one. The three watermarks are the rows of
  \<^verbatim>\<open>live_sync_state\<close>, \<open>None\<close> when the row is absent.
\<close>

record contact =
  ct_id :: nat
  ct_name :: string
  ct_is_me :: bool
  ct_data_source :: "string option"

record contact_identifier =
  ci_contact_id :: nat
  ci_identifier :: string
  ci_type :: string
  ci_is_primary :: bool

record chat =
  ch_id :: nat
  ch_chat_identifier :: string
  ch_is_group :: bool
  ch_total_messages :: nat

record reaction =
  rx_original_message_guid :: "string option"
  rx_reaction_type :: "int option"
  rx_sender_id :: "nat option"
  rx_timestamp :: "instant option"
  rx_chat_id :: nat
  rx_guid :: string

record store =
  contacts :: "contact list"
  contact_identifiers :: "contact_identifier list"
  chats :: "chat list"
  messages :: "message list"
  reactions :: "reaction list"
  conversations :: "conversation list"
  seq_contacts :: nat
  seq_chats :: nat
  seq_messages :: nat
  seq_conversations :: nat
  wm_apple_epoch_ns :: "int option"
  wm_last_message_rowid :: "int option"
  wm_last_attachment_rowid :: "int option"

text \<open>
  \<^verbatim>\<open>UPDATE messages SET conversation_id = :c WHERE id IN (...)\<close>, on the rows of
  \<^verbatim>\<open>messages\<close>.
\<close>

definition attach_messages :: "nat list \<Rightarrow> nat \<Rightarrow> message list \<Rightarrow> message list" where
  "attach_messages ids c ms =
     map (\<lambda>m. if msg_id m \<in> set ids then m\<lparr>msg_conversation_id := Some c\<rparr> else m) ms"

subsection \<open>etl\_conversations.load\_conversations\<close>

text \<open>
  \<^verbatim>\<open>SELECT id, end_time, message_count FROM conversations WHERE chat_id = :chat_id
  ORDER BY end_time DESC LIMIT 1\<close>. Among rows with the same greatest \<^verbatim>\<open>end_time\<close> SQL
  leaves the choice open; the model takes the first in table order.
\<close>

record last_conv =
  lc_id :: nat
  lc_end_time :: instant
  lc_message_count :: nat

definition latest_conversation :: "conversation list \<Rightarrow> conversation option" where
  "latest_conversation cs =
     (case cs of
        [] \<Rightarrow> None
      | c # rest \<Rightarrow>
          Some (fold (\<lambda>d best. if c_end_time d > c_end_time best then d else best) rest c))"

definition fetch_last_conversation :: "store \<Rightarrow> nat \<Rightarrow> last_conv option" where
  "fetch_last_conversation db cid =
     map_option (\<lambda>c. \<lparr>lc_id = c_id c, lc_end_time = c_end_time c,
                       lc_message_count = c_message_count c\<rparr>)
       (latest_conversation (filter (\<lambda>c. c_chat_id c = cid) (conversations db)))"

text \<open>The variables of the loop over the new segments.\<close>

record load_state =
  ls_db :: store
  ls_existing_convs_by_chat :: "nat \<rightharpoonup> last_conv"
  ls_imported_count :: nat
  ls_updated_count :: nat

text \<open>
  The session runs with \<^verbatim>\<open>PRAGMA foreign_keys = ON\<close>, and the schema declares
  \<^verbatim>\<open>conversations.chat_id REFERENCES chats(id)\<close>, \<^verbatim>\<open>conversations.initiator_id
  REFERENCES contacts(id)\<close> and \<^verbatim>\<open>messages.conversation_id REFERENCES
  conversations(id)\<close>. A statement that would leave a non-NULL reference without its
  parent row raises \<^verbatim>\<open>sqlite3.IntegrityError\<close>.

  The branch \<^verbatim>\<open>if can_append:\<close>
  \<^verbatim>\<open>
  updated_count += 1
  session.execute("UPDATE conversations SET end_time = :new_end,
                   message_count = message_count + :msg_count WHERE id = :conv_id", ...)
  session.execute(f"UPDATE messages SET conversation_id = :conv_id WHERE id IN ({msg_ids_str})", ...)
  existing_convs_by_chat[cid]['end_time'] = conv['end_time']
  existing_convs_by_chat[cid]['message_count'] += conv['message_count']
  \<close>
  The second statement fails when it reaches a row of \<^verbatim>\<open>messages\<close> and no conversation
  has the id \<^verbatim>\<open>:conv_id\<close>.
\<close>

definition append_to_conversation ::
  "load_state \<Rightarrow> last_conv \<Rightarrow> segment \<Rightarrow> py_error + load_state" where
  "append_to_conversation st last_c conv =
     (if lc_id last_c \<notin> c_id ` set (conversations (ls_db st))
         \<and> set (s_message_ids conv) \<inter> msg_id ` set (messages (ls_db st)) \<noteq> {}
      then Inl IntegrityError
      else Inr (st\<lparr>ls_db := (ls_db st)
           \<lparr>conversations :=
              map (\<lambda>c. if c_id c = lc_id last_c
                        then c\<lparr>c_end_time := s_end_time conv,
                               c_message_count := c_message_count c + s_message_count conv\<rparr>
                        else c)
                  (conversations (ls_db st)),
            messages := attach_messages (s_message_ids conv) (lc_id last_c)
                          (messages (ls_db st))\<rparr>,
        ls_existing_convs_by_chat := (ls_existing_convs_by_chat st)
           (s_chat_id conv \<mapsto>
              last_c\<lparr>lc_end_time := s_end_time conv,
                     lc_message_count := lc_message_count last_c + s_message_count conv\<rparr>),
        ls_updated_count := ls_updated_count st + 1\<rparr>))"

text \<open>
  The branch \<^verbatim>\<open>else:\<close>
  \<^verbatim>\<open>
  imported_count += 1
  new_id = session.execute("INSERT INTO conversations (chat_id, initiator_id, start_time,
             end_time, message_count, gap_threshold) VALUES (...) RETURNING id", conv).scalar()
  session.execute(f"UPDATE messages SET conversation_id = :c WHERE id IN ({msg_ids_str})", ...)
  existing_convs_by_chat[cid] = {'id': new_id, 'end_time': conv['end_time'],
                                 'message_count': conv['message_count']}
  \<close>
  The \<^verbatim>\<open>INSERT\<close> fails when the chat of the segment is not a row of \<^verbatim>\<open>chats\<close>, or its
  initiator is not a row of \<^verbatim>\<open>contacts\<close>.
\<close>

definition create_conversation :: "load_state \<Rightarrow> segment \<Rightarrow> py_error + load_state" where
  "create_conversation st conv =
     (if s_chat_id conv \<notin> ch_id ` set (chats (ls_db st))
         \<or> (case s_initiator_id conv of
               None \<Rightarrow> False
             | Some i \<Rightarrow> i \<notin> ct_id ` set (contacts (ls_db st)))
      then Inl IntegrityError
      else
        let new_id = Suc (seq_conversations (ls_db st))
        in Inr (st\<lparr>ls_db := (ls_db st)
              \<lparr>conversations := conversations (ls_db st) @
                 [\<lparr>c_id = new_id, c_chat_id = s_chat_id conv,
                   c_initiator_id = s_initiator_id conv,
                   c_start_time = s_start_time conv, c_end_time = s_end_time conv,
                   c_message_count = s_message_count conv,
                   c_gap_threshold = s_gap_threshold conv\<rparr>],
               seq_conversations := new_id,
               messages := attach_messages (s_message_ids conv) new_id (messages (ls_db st))\<rparr>,
           ls_existing_convs_by_chat := (ls_existing_convs_by_chat st)
              (s_chat_id conv \<mapsto>
                 \<lparr>lc_id = new_id, lc_end_time = s_end_time conv,
                  lc_message_count = s_message_count conv\<rparr>),
           ls_imported_count := ls_imported_count st + 1\<rparr>))"

text \<open>
  \<^verbatim>\<open>
  can_append = False
  if last_conv:
      time_diff = (conv['start_time'] - last_conv['end_time']).total_seconds()
      if time_diff >= 0 and time_diff <= conv['gap_threshold']:
          can_append = True
  \<close>
\<close>

definition can_append :: "last_conv option \<Rightarrow> segment \<Rightarrow> bool" where
  "can_append last_c conv =
     (case last_c of
        None \<Rightarrow> False
      | Some l \<Rightarrow>
          let time_diff = total_seconds (s_start_time conv - lc_end_time l)
          in time_diff \<ge> 0 \<and> time_diff \<le> of_int (s_gap_threshold conv))"

definition load_step :: "load_state \<Rightarrow> segment \<Rightarrow> py_error + load_state" where
  "load_step st conv =
     (let cid = s_chat_id conv;
          last_c = ls_existing_convs_by_chat st cid
      in case last_c of
           None \<Rightarrow> create_conversation st conv
         | Some l \<Rightarrow> if can_append last_c conv then append_to_conversation st l conv
                     else create_conversation st conv)"

text \<open>
  \<^verbatim>\<open>
  def load_conversations(conversations, chat_id=None):
      if not conversations: return (0, 0)
      imported_count = 0; updated_count = 0
      with db.session_scope() as session:
          chat_ids = [chat_id] if chat_id else list({c['chat_id'] for c in conversations})
          existing_convs_by_chat = {}
          for cid in chat_ids:
              last_conv = (the query above).fetchone()
              if last_conv: existing_convs_by_chat[cid] = {...}
          for conv in conversations: ...
      return (imported_count, updated_count)
  \<close>
  \<open>fetch_existing\<close> is the loop over \<^verbatim>\<open>chat_ids\<close>, \<open>load_loop\<close> the loop over the segments.
  \<^verbatim>\<open>if chat_id\<close> is false for \<^verbatim>\<open>None\<close> and for \<open>0\<close>. The loop stops at the first
  statement that raises; \<^verbatim>\<open>session_scope\<close> then rolls the store back to what it was
  before the call and the exception leaves the function.
\<close>

definition fetch_existing :: "store \<Rightarrow> nat list \<Rightarrow> (nat \<rightharpoonup> last_conv)" where
  "fetch_existing db chat_ids =
     (\<lambda>cid. if cid \<in> set chat_ids then fetch_last_conversation db cid else None)"

definition load_loop :: "load_state \<Rightarrow> segment list \<Rightarrow> py_error + load_state" where
  "load_loop st convs =
     foldl (\<lambda>acc conv. case acc of Inl e \<Rightarrow> Inl e | Inr s \<Rightarrow> load_step s conv) (Inr st) convs"

definition load_conversations ::
  "segment list \<Rightarrow> nat option \<Rightarrow> store \<Rightarrow> (py_error + nat \<times> nat) \<times> store" where
  "load_conversations convs chat_id db =
     (if convs = [] then (Inr (0, 0), db)
      else
        let chat_ids = (case chat_id of
                          None \<Rightarrow> remdups (map s_chat_id convs)
                        | Some c \<Rightarrow> if c \<noteq> 0 then [c] else remdups (map s_chat_id convs));
            existing = fetch_existing db chat_ids
        in case load_loop \<lparr>ls_db = db, ls_existing_convs_by_chat = existing,
                            ls_imported_count = 0, ls_updated_count = 0\<rparr> convs of
             Inl e \<Rightarrow> (Inl e, db)
           | Inr st \<Rightarrow> (Inr (ls_imported_count st, ls_updated_count st), ls_db st))"

subsection \<open>etl\_conversations.\_replace\_or\_reuse\_intervals\<close>

text \<open>
  Steps 1 and 2: the existing conversations of the chat, ordered by start time, each
  with the sorted list of the ids of the messages attached to it. The dictionary
  \<^verbatim>\<open>conv_msg_map\<close> is built once, before the loop over the new blocks, and is not
  updated in the loop.
\<close>

definition conv_msg_map :: "store \<Rightarrow> nat \<Rightarrow> (nat \<times> nat list) list" where
  "conv_msg_map db chat_id =
     map (\<lambda>c. (c_id c,
                sort (map msg_id
                        (filter (\<lambda>m. msg_conversation_id m = Some (c_id c)) (messages db)))))
       (sort_key c_start_time (filter (\<lambda>c. c_chat_id c = chat_id) (conversations db)))"

text \<open>
  The condition of the two statements of step 4,
  \<^verbatim>\<open>WHERE chat_id = :c AND start_time <= :end_ AND end_time >= :start_\<close>.
\<close>

definition overlaps :: "nat \<Rightarrow> instant \<Rightarrow> instant \<Rightarrow> conversation \<Rightarrow> bool" where
  "overlaps chat_id start_t end_t c =
     (c_chat_id c = chat_id \<and> c_start_time c \<le> end_t \<and> c_end_time c \<ge> start_t)"

text \<open>
  \<^verbatim>\<open>
  for existing_cid, existing_ids in conv_msg_map.items():
      if existing_ids == block_msg_ids:
          reused_conv_id = existing_cid
          break
  \<close>
\<close>

definition find_reusable :: "(nat \<times> nat list) list \<Rightarrow> nat list \<Rightarrow> nat option" where
  "find_reusable cmap block_msg_ids =
     map_option fst (find (\<lambda>e. snd e = block_msg_ids) cmap)"

text \<open>
  Step 4 on one row of \<^verbatim>\<open>messages\<close>: the conversation id becomes NULL when it is the id
  of a conversation that is about to be deleted.
\<close>

definition detach :: "nat list \<Rightarrow> message \<Rightarrow> message" where
  "detach doomed m =
     (case msg_conversation_id m of
        None \<Rightarrow> m
      | Some k \<Rightarrow> if k \<in> set doomed then m\<lparr>msg_conversation_id := None\<rparr> else m)"

text \<open>
  The initiator of step 5, \<^verbatim>\<open>(SELECT sender_id FROM messages WHERE id=:first_msg_id
  LIMIT 1)\<close> with \<^verbatim>\<open>'first_msg_id': block_msg_ids[0] if block_msg_ids else None\<close>: NULL when
  the block is empty or no row has the id.
\<close>

definition select_sender :: "message list \<Rightarrow> nat list \<Rightarrow> nat option" where
  "select_sender ms block_msg_ids =
     (case block_msg_ids of
        [] \<Rightarrow> None
      | first_msg_id # _ \<Rightarrow>
          (case find (\<lambda>m. msg_id m = first_msg_id) ms of
             None \<Rightarrow> None
           | Some m \<Rightarrow> msg_sender_id m))"

text \<open>
  The body of the loop over the new blocks. \<^verbatim>\<open>if reused_conv_id:\<close> is false for
  \<^verbatim>\<open>None\<close> and for an id \<open>0\<close>. Otherwise: detach the messages of the overlapping
  conversations (step 4, \<^verbatim>\<open>UPDATE messages SET conversation_id = NULL WHERE
  conversation_id IN (SELECT id FROM conversations WHERE ...)\<close>), delete these
  conversations, insert the new row (step 5), attach the block's messages (step 6). The
  \<^verbatim>\<open>DELETE\<close> leaves no message behind that refers to a deleted row. The \<^verbatim>\<open>INSERT\<close>
  raises \<^verbatim>\<open>sqlite3.IntegrityError\<close> when \<^verbatim>\<open>chat_id\<close> is not a row of \<^verbatim>\<open>chats\<close> or the
  initiator is not a row of \<^verbatim>\<open>contacts\<close>.
\<close>

definition replace_step ::
  "nat \<Rightarrow> int \<Rightarrow> (nat \<times> nat list) list \<Rightarrow> store \<Rightarrow> block \<Rightarrow> py_error + store" where
  "replace_step chat_id gap_threshold cmap db blk =
     (let block_msg_ids = sort (map m_id (b_messages blk));
          start_t = b_start_time blk;
          end_t = b_end_time blk;
          reused_conv_id = find_reusable cmap block_msg_ids
      in if (case reused_conv_id of None \<Rightarrow> False | Some r \<Rightarrow> r \<noteq> 0) then Inr db
         else
           let doomed = map c_id (filter (overlaps chat_id start_t end_t) (conversations db));
               msgs1 = map (detach doomed) (messages db);
               convs1 = filter (\<lambda>c. \<not> overlaps chat_id start_t end_t c) (conversations db);
               initiator = select_sender msgs1 block_msg_ids
           in if chat_id \<notin> ch_id ` set (chats db)
                 \<or> (case initiator of
                       None \<Rightarrow> False
                     | Some i \<Rightarrow> i \<notin> ct_id ` set (contacts db))
              then Inl IntegrityError
              else
                let new_cid = Suc (seq_conversations db);
                    convs2 = convs1 @
                       [\<lparr>c_id = new_cid, c_chat_id = chat_id, c_initiator_id = initiator,
                         c_start_time = start_t, c_end_time = end_t,
                         c_message_count = length block_msg_ids,
                         c_gap_threshold = gap_threshold\<rparr>];
                    msgs2 = (if block_msg_ids \<noteq> []
                             then attach_messages block_msg_ids new_cid msgs1
                             else msgs1)
                in Inr (db\<lparr>conversations := convs2, seq_conversations := new_cid,
                           messages := msgs2\<rparr>))"

text \<open>
  \<^verbatim>\<open>_replace_or_reuse_intervals(chat_id, new_blocks, gap_threshold)\<close>: the loop over the
  blocks, against the map read before it. The result is the store the call commits, or
  the exception that leaves it, in which case \<^verbatim>\<open>session_scope\<close> has rolled back every
  write of the call.
\<close>

definition replace_loop ::
  "nat \<Rightarrow> int \<Rightarrow> (nat \<times> nat list) list \<Rightarrow> store \<Rightarrow> block list \<Rightarrow> py_error + store" where
  "replace_loop chat_id gap_threshold cmap db new_blocks =
     foldl (\<lambda>acc blk. case acc of
                         Inl e \<Rightarrow> Inl e
                       | Inr d \<Rightarrow> replace_step chat_id gap_threshold cmap d blk)
       (Inr db) new_blocks"

definition replace_or_reuse_intervals ::
  "nat \<Rightarrow> block list \<Rightarrow> int \<Rightarrow> store \<Rightarrow> py_error + store" where
  "replace_or_reuse_intervals chat_id new_blocks gap_threshold db =
     replace_loop chat_id gap_threshold (conv_msg_map db chat_id) db new_blocks"

subsection \<open>Notions for the properties of the segmentation\<close>

text \<open>
  The gap in seconds from message \<open>a\<close> to message \<open>b\<close> strictly exceeds the threshold:
  the test \<^verbatim>\<open>time_gap > gap_threshold\<close> of the split.
\<close>

definition exceeds_gap :: "int \<Rightarrow> msg \<Rightarrow> msg \<Rightarrow> bool" where
  "exceeds_gap g a b = (total_seconds (m_timestamp b - m_timestamp a) > of_int g)"

text \<open>No two neighbours in the list are separated by more than the threshold.\<close>

fun within_gap :: "int \<Rightarrow> msg list \<Rightarrow> bool" where
  "within_gap g [] = True"
| "within_gap g [a] = True"
| "within_gap g (a # b # rest) = (\<not> exceeds_gap g a b \<and> within_gap g (b # rest))"

text \<open>
  From each list of messages to the next one, the gap from the last message of the one
  to the first message of the other exceeds the threshold.
\<close>

fun gaps_between :: "int \<Rightarrow> msg list list \<Rightarrow> bool" where
  "gaps_between g [] = True"
| "gaps_between g [xs] = True"
| "gaps_between g (xs # ys # rest) =
     (exceeds_gap g (last xs) (hd ys) \<and> gaps_between g (ys # rest))"

text \<open>
  The number of the segment that holds the \<open>i\<close>-th message, when the segments are laid
  out one after the other.
\<close>

fun segment_index :: "'a list list \<Rightarrow> nat \<Rightarrow> nat" where
  "segment_index [] i = 0"
| "segment_index (xs # xss) i =
     (if i < length xs then 0 else Suc (segment_index xss (i - length xs)))"

text \<open>A segment has a message with a sender: the test of \<open>transform_conversations\<close>.\<close>

definition has_sender :: "block \<Rightarrow> bool" where
  "has_sender b = (List.map_filter m_sender_id (b_messages b) \<noteq> [])"

text \<open>
  A block as the split builds it: it has a message, its start and end are the timestamps
  of its first and last message, and no gap inside it exceeds the threshold.
\<close>

definition wf_block :: "int \<Rightarrow> block \<Rightarrow> bool" where
  "wf_block g b =
     (b_messages b \<noteq> [] \<and> b_start_time b = m_timestamp (hd (b_messages b))
      \<and> b_end_time b = m_timestamp (last (b_messages b)) \<and> within_gap g (b_messages b))"

text \<open>
  Every "last" reference of the load names a stored conversation, so that attaching
  messages to it breaks no foreign key.
\<close>

definition last_refs_stored :: "load_state \<Rightarrow> bool" where
  "last_refs_stored st =
     (\<forall>cid l. ls_existing_convs_by_chat st cid = Some l
              \<longrightarrow> lc_id l \<in> c_id ` set (conversations (ls_db st)))"

text \<open>
  A block is reused against the map of the existing conversations: the first entry of
  the map with the block's sorted message ids has a non-zero conversation id (the test
  \<^verbatim>\<open>if reused_conv_id:\<close>).
\<close>

definition reuses :: "(nat \<times> nat list) list \<Rightarrow> block \<Rightarrow> bool" where
  "reuses cmap blk =
     (case find_reusable cmap (sort (map m_id (b_messages blk))) of
        None \<Rightarrow> False
      | Some r \<Rightarrow> r \<noteq> 0)"

subsection \<open>A store for the scenarios\<close>

text \<open>
  One chat (id 1) with one contact (id 7). Its latest conversation (id 2) ends with
  message 4 at 12000 seconds; message 5 has arrived at 12500 seconds and is not yet in a
  conversation.
\<close>

definition scenario_store :: store where
  "scenario_store =
     \<lparr>contacts = [\<lparr>ct_id = 7, ct_name = ''Ada'', ct_is_me = False, ct_data_source = None\<rparr>],
      contact_identifiers = [],
      chats = [\<lparr>ch_id = 1, ch_chat_identifier = ''+14155550100'', ch_is_group = False,
                ch_total_messages = 2\<rparr>],
      messages = [\<lparr>msg_id = 4, msg_chat_id = 1, msg_sender_id = Some 7,
                   msg_conversation_id = Some 2, msg_timestamp = Some 12000,
                   msg_is_from_me = False, msg_message_type = Some 0, msg_guid = ''g4''\<rparr>,
                  \<lparr>msg_id = 5, msg_chat_id = 1, msg_sender_id = Some 7,
                   msg_conversation_id = None, msg_timestamp = Some 12500,
                   msg_is_from_me = False, msg_message_type = Some 0, msg_guid = ''g5''\<rparr>],
      reactions = [],
      conversations = [\<lparr>c_id = 2, c_chat_id = 1, c_initiator_id = Some 7,
                        c_start_time = 12000, c_end_time = 12000, c_message_count = 1,
                        c_gap_threshold = 10800\<rparr>],
      seq_contacts = 7, seq_chats = 1, seq_messages = 5, seq_conversations = 2,
      wm_apple_epoch_ns = None, wm_last_message_rowid = None,
      wm_last_attachment_rowid = None\<rparr>"

definition scenario_last :: last_conv where
  "scenario_last = \<lparr>lc_id = 2, lc_end_time = 12000, lc_message_count = 1\<rparr>"

definition scenario_state :: load_state where
  "scenario_state =
     \<lparr>ls_db = scenario_store, ls_existing_convs_by_chat = fetch_existing scenario_store [1],
      ls_imported_count = 0, ls_updated_count = 0\<rparr>"

definition scenario_segment :: segment where
  "scenario_segment =
     \<lparr>s_chat_id = 1, s_initiator_id = Some 7, s_start_time = 12500, s_end_time = 12500,
      s_message_count = 1, s_participant_ids = {7}, s_message_ids = [5],
      s_gap_threshold = 10800\<rparr>"

text \<open>
  A chat whose only message has no sender.
\<close>

definition senderless_store :: store where
  "senderless_store =
     \<lparr>contacts = [], contact_identifiers = [],
      chats = [\<lparr>ch_id = 1, ch_chat_identifier = ''+14155550100'', ch_is_group = False,
                ch_total_messages = 1\<rparr>],
      messages = [\<lparr>msg_id = 1, msg_chat_id = 1, msg_sender_id = None,
                   msg_conversation_id = None, msg_timestamp = Some 0,
                   msg_is_from_me = False, msg_message_type = Some 0, msg_guid = ''g1''\<rparr>],
      reactions = [], conversations = [],
      seq_contacts = 0, seq_chats = 1, seq_messages = 1, seq_conversations = 0,
      wm_apple_epoch_ns = None, wm_last_message_rowid = None,
      wm_last_attachment_rowid = None\<rparr>"

definition senderless_msgs :: "msg list" where
  "senderless_msgs = [\<lparr>m_id = 1, m_chat_id = 1, m_sender_id = None, m_timestamp = 0\<rparr>]"

definition senderless_block :: block where
  "senderless_block =
     \<lparr>b_messages = senderless_msgs, b_start_time = 0, b_end_time = 0, b_chat_id = 1\<rparr>"





section \<open>Sync engine\<close>

subsection \<open>String operations of the Python run time\<close>

text \<open>
  \<^verbatim>\<open>str.lower\<close>, \<^verbatim>\<open>str.strip\<close>, \<^verbatim>\<open>str.split(',')\<close> and \<^verbatim>\<open>','.join\<close> on ASCII
  strings, and the truth value that \<^verbatim>\<open>if x:\<close> gives an optional row id (false for
  \<^verbatim>\<open>None\<close> and for \<open>0\<close>) and an optional string (false for \<^verbatim>\<open>None\<close> and for the
  empty string).
\<close>

definition lower_char :: "char \<Rightarrow> char" where
  "lower_char c =
     (case map_of (zip ''ABCDEFGHIJKLMNOPQRSTUVWXYZ'' ''abcdefghijklmnopqrstuvwxyz'') c of
        None \<Rightarrow> c
      | Some l \<Rightarrow> l)"

definition str_lower :: "string \<Rightarrow> string" where
  "str_lower s = map lower_char s"

definition is_space :: "char \<Rightarrow> bool" where
  "is_space c = (c \<in> {CHR '' '', CHR 0x09, CHR 0x0A, CHR 0x0B, CHR 0x0C, CHR 0x0D})"

definition str_strip :: "string \<Rightarrow> string" where
  "str_strip s = rev (dropWhile is_space (rev (dropWhile is_space s)))"

fun str_split :: "char \<Rightarrow> string \<Rightarrow> string list" where
  "str_split sep [] = [[]]"
| "str_split sep (c # cs) =
     (if c = sep then [] # str_split sep cs
      else (case str_split sep cs of
              [] \<Rightarrow> [[c]]
            | w # ws \<Rightarrow> (c # w) # ws))"

fun str_join :: "string \<Rightarrow> string list \<Rightarrow> string" where
  "str_join sep [] = []"
| "str_join sep [x] = x"
| "str_join sep (x # y # rest) = x @ sep @ str_join sep (y # rest)"

definition truthy :: "nat option \<Rightarrow> bool" where
  "truthy x = (case x of None \<Rightarrow> False | Some n \<Rightarrow> n \<noteq> 0)"

definition str_truthy :: "string option \<Rightarrow> bool" where
  "str_truthy x = (case x of None \<Rightarrow> False | Some s \<Rightarrow> s \<noteq> [])"

subsection \<open>etl\_messages.generate\_chat\_identifier and transform\_message\<close>

text \<open>
  The expression \<^verbatim>\<open>x.lower() if '@' in x else normalize_phone_number(x)\<close>, which the
  source writes out wherever it needs the cache key of an identifier.
\<close>

definition identifier_key :: "string \<Rightarrow> string" where
  "identifier_key x = (if CHR ''@'' \<in> set x then str_lower x else normalize_phone_number x)"

text \<open>
  \<^verbatim>\<open>
  def generate_chat_identifier(participants):
      normalized = []
      for p in participants:
          p = p.strip()
          if '@' in p: normalized.append(p.lower())
          else: normalized.append(normalize_phone_number(p))
      normalized = sorted(set(normalized))
      return ','.join(normalized)
  \<close>
\<close>

definition generate_chat_identifier :: "string list \<Rightarrow> string" where
  "generate_chat_identifier participants =
     str_join '','' (sort (remdups (map (\<lambda>p. identifier_key (str_strip p)) participants)))"

record transformed =
  t_chat_identifier :: string
  t_sender_identifier :: string
  t_timestamp :: "instant option"
  t_is_from_me :: bool
  t_message_type :: "int option"
  t_guid :: "string option"
  t_associated_message_guid :: "string option"

text \<open>
  \<^verbatim>\<open>
  def transform_message(message):
      participants = message['chat_participants'].split(',') if message['chat_participants'] else []
      chat_identifier = generate_chat_identifier(participants)
      sender_identifier = message.get('sender_identifier') or ''
      sender_identifier = normalize_phone_number(sender_identifier) \
          if '@' not in sender_identifier else sender_identifier.lower()
      ...
      timestamp = _convert_apple_timestamp(message['date'])
      transformed = {'chat_identifier': chat_identifier, 'sender_identifier': sender_identifier,
          'content': content, 'timestamp': timestamp, 'is_from_me': bool(message['is_from_me']),
          'message_type': message.get('associated_message_type'),
          'service_name': message['service'], 'guid': message['guid'],
          'associated_message_guid': _clean_guid(message.get('associated_message_guid')),
          'reply_to_guid': message.get('reply_to_guid')}
      return transformed
  \<close>
\<close>

definition transform_message :: "src_row \<Rightarrow> transformed" where
  "transform_message message =
     (let participants = (case r_chat_participants message of
                            None \<Rightarrow> []
                          | Some cp \<Rightarrow> if cp = [] then [] else str_split (CHR '','') cp);
          sender_identifier = (case r_sender_identifier message of None \<Rightarrow> [] | Some s \<Rightarrow> s)
      in \<lparr>t_chat_identifier = generate_chat_identifier participants,
          t_sender_identifier = identifier_key sender_identifier,
          t_timestamp = convert_apple_timestamp (r_date message),
          t_is_from_me = r_is_from_me message,
          t_message_type = r_associated_message_type message,
          t_guid = r_guid message,
          t_associated_message_guid = clean_guid (r_associated_message_guid message)\<rparr>)"

subsection \<open>live\_sync.cache\<close>

text \<open>
  The module-level caches with their \<^verbatim>\<open>_populated\<close> flags, and the internal store:
  the state that \<^verbatim>\<open>sync_messages\<close> reads and writes.
\<close>

record world =
  CONTACT_MAP_CACHE :: "string \<rightharpoonup> nat"
  contacts_cache_populated :: bool
  MESSAGE_GUID_TO_ID_CACHE :: "string \<rightharpoonup> nat"
  message_guid_cache_populated :: bool
  CHAT_MAP_CACHE :: "string \<rightharpoonup> nat"
  chat_map_cache_populated :: bool
  REACTION_GUID_CACHE :: "string set"
  reaction_guid_cache_populated :: bool
  CHAT_DB_ROWID_TO_PARTICIPANTS_CACHE :: "int \<rightharpoonup> string"
  chat_participants_cache_populated :: bool
  internal_db :: store

text \<open>
  Each getter refills its cache from the table when the cache is empty, not yet
  populated, or a refresh is forced, as in
  \<^verbatim>\<open>
  def get_chat_map(cursor, force_refresh=False):
      global _chat_map_cache_populated
      if not CHAT_MAP_CACHE or not _chat_map_cache_populated or force_refresh:
          CHAT_MAP_CACHE.clear()
          cursor.execute("SELECT chat_identifier, id FROM chats")
          for chat_identifier, chat_id_val in cursor.fetchall():
              CHAT_MAP_CACHE[chat_identifier] = chat_id_val
          _chat_map_cache_populated = True
      return CHAT_MAP_CACHE
  \<close>
  The returned object is the module-level dictionary itself. The contact query joins
  \<^verbatim>\<open>contacts\<close> with \<^verbatim>\<open>contact_identifiers\<close> on the contact id; the foreign key makes
  this one row per identifier.
\<close>

definition load_chat_map :: "chat list \<Rightarrow> (string \<rightharpoonup> nat)" where
  "load_chat_map cs = fold (\<lambda>c m. m(ch_chat_identifier c \<mapsto> ch_id c)) cs Map.empty"

definition get_chat_map :: "bool \<Rightarrow> world \<Rightarrow> world" where
  "get_chat_map force_refresh w =
     (if CHAT_MAP_CACHE w = Map.empty \<or> \<not> chat_map_cache_populated w \<or> force_refresh
      then w\<lparr>CHAT_MAP_CACHE := load_chat_map (chats (internal_db w)), chat_map_cache_populated := True\<rparr>
      else w)"

definition load_message_map :: "message list \<Rightarrow> (string \<rightharpoonup> nat)" where
  "load_message_map ms = fold (\<lambda>m f. f(msg_guid m \<mapsto> msg_id m)) ms Map.empty"

definition get_message_guid_to_id_map :: "bool \<Rightarrow> world \<Rightarrow> world" where
  "get_message_guid_to_id_map force_refresh w =
     (if MESSAGE_GUID_TO_ID_CACHE w = Map.empty \<or> \<not> message_guid_cache_populated w
         \<or> force_refresh
      then w\<lparr>MESSAGE_GUID_TO_ID_CACHE := load_message_map (messages (internal_db w)),
             message_guid_cache_populated := True\<rparr>
      else w)"

definition get_reaction_guids :: "bool \<Rightarrow> world \<Rightarrow> world" where
  "get_reaction_guids force_refresh w =
     (if REACTION_GUID_CACHE w = {} \<or> \<not> reaction_guid_cache_populated w \<or> force_refresh
      then w\<lparr>REACTION_GUID_CACHE := set (map rx_guid (reactions (internal_db w))),
             reaction_guid_cache_populated := True\<rparr>
      else w)"

definition load_contact_map :: "contact_identifier list \<Rightarrow> (string \<rightharpoonup> nat)" where
  "load_contact_map idents =
     fold (\<lambda>ci m. m(identifier_key (ci_identifier ci) \<mapsto> ci_contact_id ci)) idents Map.empty"

definition get_contact_map :: "bool \<Rightarrow> world \<Rightarrow> world" where
  "get_contact_map force_refresh w =
     (if CONTACT_MAP_CACHE w = Map.empty \<or> \<not> contacts_cache_populated w \<or> force_refresh
      then w\<lparr>CONTACT_MAP_CACHE := load_contact_map (contact_identifiers (internal_db w)),
             contacts_cache_populated := True\<rparr>
      else w)"

text \<open>
  \<^verbatim>\<open>get_chat_participants_map\<close> reads the source database: \<open>src_chats\<close> is the answer
  to its query, one pair of chat row id and participant string (\<open>''''\<close> for NULL) per
  source chat.
\<close>

definition load_participants_map :: "(int \<times> string) list \<Rightarrow> (int \<rightharpoonup> string)" where
  "load_participants_map src_chats = fold (\<lambda>(k, p) m. m(k \<mapsto> p)) src_chats Map.empty"

definition get_chat_participants_map :: "(int \<times> string) list \<Rightarrow> bool \<Rightarrow> world \<Rightarrow> world" where
  "get_chat_participants_map src_chats force_refresh w =
     (if CHAT_DB_ROWID_TO_PARTICIPANTS_CACHE w = Map.empty
         \<or> \<not> chat_participants_cache_populated w \<or> force_refresh
      then w\<lparr>CHAT_DB_ROWID_TO_PARTICIPANTS_CACHE := load_participants_map src_chats,
             chat_participants_cache_populated := True\<rparr>
      else w)"

subsection \<open>live\_sync.sync\_messages\<close>

text \<open>
  An \<^verbatim>\<open>INSERT INTO contacts\<close>: the row receives the next id of the sequence.
\<close>

definition insert_contact :: "string \<Rightarrow> bool \<Rightarrow> string option \<Rightarrow> store \<Rightarrow> nat \<times> store" where
  "insert_contact name is_me data_source d =
     (let new_id = Suc (seq_contacts d)
      in (new_id,
          d\<lparr>contacts := contacts d @
                [\<lparr>ct_id = new_id, ct_name = name, ct_is_me = is_me,
                  ct_data_source = data_source\<rparr>],
            seq_contacts := new_id\<rparr>))"

text \<open>
  \<^verbatim>\<open>
  cursor.execute("SELECT id FROM contacts WHERE is_me = 1")
  user_id_row = cursor.fetchone()
  user_id = user_id_row[0] if user_id_row and user_id_row[0] is not None else None
  if not user_id:
      cursor.execute("INSERT INTO contacts (name, is_me, data_source) VALUES (?, ?, ?)",
                     ("Me", True, "system_user"))
      user_id = cursor.lastrowid
  \<close>
\<close>

definition ensure_user_contact :: "store \<Rightarrow> nat \<times> store" where
  "ensure_user_contact d =
     (case find ct_is_me (contacts d) of
        None \<Rightarrow> insert_contact ''Me'' True (Some ''system_user'') d
      | Some c \<Rightarrow> if ct_id c \<noteq> 0 then (ct_id c, d)
                  else insert_contact ''Me'' True (Some ''system_user'') d)"

text \<open>
  The first pass over the batch: the senders that are not in the contact cache, each
  cache key once, with the raw identifier it was first seen with. The dictionary
  \<^verbatim>\<open>unknown_sender_details_to_create\<close> is an association list in insertion order; its
  \<^verbatim>\<open>'type'\<close> and \<^verbatim>\<open>'name_for_contact'\<close> entries are functions of the raw identifier.
  \<^verbatim>\<open>
  for row in new_rows:
      is_from_me = row.get('is_from_me', False)
      original_sender_identifier_from_row = row.get('sender_identifier')
      if not is_from_me and original_sender_identifier_from_row:
          cache_key_for_sender = (the cache key of the identifier)
          if cache_key_for_sender not in CONTACT_MAP_CACHE:
              if cache_key_for_sender not in unknown_sender_details_to_create:
                  unknown_sender_details_to_create[cache_key_for_sender] = {...}
  \<close>
\<close>

definition note_unknown_sender ::
  "(string \<rightharpoonup> nat) \<Rightarrow> (string \<times> string) list \<Rightarrow> src_row \<Rightarrow> (string \<times> string) list" where
  "note_unknown_sender contact_cache unknown row =
     (case r_sender_identifier row of
        None \<Rightarrow> unknown
      | Some original \<Rightarrow>
          if \<not> r_is_from_me row \<and> original \<noteq> [] then
            (let cache_key_for_sender = identifier_key original
             in if contact_cache cache_key_for_sender = None
                   \<and> cache_key_for_sender \<notin> fst ` set unknown
                then unknown @ [(cache_key_for_sender, original)]
                else unknown)
          else unknown)"

definition identifier_type :: "string \<Rightarrow> string" where
  "identifier_type original = (if CHR ''@'' \<in> set original then ''Email'' else ''Phone'')"

text \<open>
  The batch creation of contacts: one \<^verbatim>\<open>INSERT\<close> per distinct name, the
  \<^verbatim>\<open>SELECT id, name FROM contacts WHERE name IN (...) AND data_source = ?\<close> that reads
  the ids back (a later row of the same name replaces an earlier one in
  \<^verbatim>\<open>retrieved_contact_info\<close>), the update of \<^verbatim>\<open>CONTACT_MAP_CACHE\<close> for every key whose id
  was retrieved (\<^verbatim>\<open>if new_contact_id:\<close>), and the insert of the primary identifiers
  with \<^verbatim>\<open>ON CONFLICT(contact_id, identifier, type) DO NOTHING\<close>.
\<close>

definition retrieve_contact_ids :: "string list \<Rightarrow> store \<Rightarrow> (string \<rightharpoonup> nat)" where
  "retrieve_contact_ids names d =
     fold (\<lambda>c m. m(ct_name c \<mapsto> ct_id c))
       (filter (\<lambda>c. ct_name c \<in> set names
                     \<and> ct_data_source c = Some ''live_sync_message_sender'') (contacts d))
       Map.empty"

definition insert_identifier_or_ignore :: "store \<Rightarrow> contact_identifier \<Rightarrow> store" where
  "insert_identifier_or_ignore d ci =
     (if (ci_contact_id ci, ci_identifier ci, ci_type ci)
           \<in> (\<lambda>x. (ci_contact_id x, ci_identifier x, ci_type x)) ` set (contact_identifiers d)
      then d
      else d\<lparr>contact_identifiers := contact_identifiers d @ [ci]\<rparr>)"

definition register_contact ::
  "(string \<rightharpoonup> nat) \<Rightarrow> (string \<rightharpoonup> nat) \<times> contact_identifier list \<Rightarrow> string \<times> string
   \<Rightarrow> (string \<rightharpoonup> nat) \<times> contact_identifier list" where
  "register_contact retrieved acc entry =
     (case retrieved (snd entry) of
        None \<Rightarrow> acc
      | Some new_contact_id \<Rightarrow>
          if new_contact_id \<noteq> 0
          then ((fst acc)(fst entry \<mapsto> new_contact_id),
                snd acc @ [\<lparr>ci_contact_id = new_contact_id, ci_identifier = snd entry,
                             ci_type = identifier_type (snd entry), ci_is_primary = True\<rparr>])
          else acc)"

definition create_unknown_contacts :: "(string \<times> string) list \<Rightarrow> world \<Rightarrow> world" where
  "create_unknown_contacts unknown w =
     (if unknown = [] then w
      else
        let names = remdups (map snd unknown);
            d1 = foldl (\<lambda>d n. snd (insert_contact n False (Some ''live_sync_message_sender'') d))
                   (internal_db w) names;
            retrieved = retrieve_contact_ids names d1;
            reg = foldl (register_contact retrieved) (CONTACT_MAP_CACHE w, []) unknown;
            d2 = foldl insert_identifier_or_ignore d1 (snd reg)
        in w\<lparr>CONTACT_MAP_CACHE := fst reg, internal_db := d2\<rparr>)"

text \<open>
  \<^verbatim>\<open>
  def create_chat_if_missing(cursor, chat_identifier, is_group=False):
      chat_id = CHAT_MAP_CACHE.get(chat_identifier)
      if chat_id: return chat_id
      cursor.execute("SELECT id FROM chats WHERE chat_identifier = ?", (chat_identifier,))
      result = cursor.fetchone()
      if result:
          chat_id = result[0]
          CHAT_MAP_CACHE[chat_identifier] = chat_id
          return chat_id
      try:
          cursor.execute("INSERT INTO chats (...) VALUES (?, ?, ?, ?, ?, ?)",
                         (chat_identifier, now, now, is_group, "iMessage", 0))
          chat_id = cursor.lastrowid
          CHAT_MAP_CACHE[chat_identifier] = chat_id
          return chat_id
      except Exception as e: ... return None
  \<close>
  The insert comes after a select that found no chat with this identifier, so the
  uniqueness of \<^verbatim>\<open>chat_identifier\<close> cannot fail it.
\<close>

definition create_chat_if_missing :: "string \<Rightarrow> bool \<Rightarrow> world \<Rightarrow> nat option \<times> world" where
  "create_chat_if_missing chat_identifier is_group w =
     (if truthy (CHAT_MAP_CACHE w chat_identifier) then (CHAT_MAP_CACHE w chat_identifier, w)
      else
        (case find (\<lambda>c. ch_chat_identifier c = chat_identifier) (chats (internal_db w)) of
           Some c \<Rightarrow>
             (Some (ch_id c),
              w\<lparr>CHAT_MAP_CACHE := (CHAT_MAP_CACHE w)(chat_identifier \<mapsto> ch_id c)\<rparr>)
         | None \<Rightarrow>
             let new_id = Suc (seq_chats (internal_db w))
             in (Some new_id,
                 w\<lparr>CHAT_MAP_CACHE := (CHAT_MAP_CACHE w)(chat_identifier \<mapsto> new_id),
                   internal_db := (internal_db w)
                     \<lparr>chats := chats (internal_db w) @
                        [\<lparr>ch_id = new_id, ch_chat_identifier = chat_identifier,
                          ch_is_group = is_group, ch_total_messages = 0\<rparr>],
                      seq_chats := new_id\<rparr>\<rparr>)))"

text \<open>
  The head of the loop body, which writes the participants into the row:
  \<^verbatim>\<open>
  if not row.get('chat_participants') and 'chat_id' in row:
      chat_id_from_row = row.get('chat_id')
      if chat_id_from_row in chat_participants_map:
          row['chat_participants'] = chat_participants_map[chat_id_from_row]
  if not row.get('chat_participants'):
      sender_handle_str = row.get('sender_identifier')
      row['chat_participants'] = sender_handle_str if sender_handle_str else ""
  \<close>
\<close>

definition fill_chat_participants :: "(int \<rightharpoonup> string) \<Rightarrow> src_row \<Rightarrow> src_row" where
  "fill_chat_participants chat_participants_map row =
     (let row1 = (if \<not> str_truthy (r_chat_participants row)
                  then (case r_chat_id row of
                          None \<Rightarrow> row
                        | Some k \<Rightarrow> (case chat_participants_map k of
                                       None \<Rightarrow> row
                                     | Some p \<Rightarrow> row\<lparr>r_chat_participants := Some p\<rparr>))
                  else row)
      in if \<not> str_truthy (r_chat_participants row1)
         then row1\<lparr>r_chat_participants :=
                     Some (case r_sender_identifier row1 of None \<Rightarrow> [] | Some s \<Rightarrow> s)\<rparr>
         else row1)"

text \<open>
  \<^verbatim>\<open>
  chat_id = chat_map_cache.get(transformed['chat_identifier'])
  if not chat_id and transformed['chat_identifier']:
      is_group = False
      if row.get('chat_participants'):
          participants = row['chat_participants'].split(',')
          is_group = len(participants) > 1
      chat_id = create_chat_if_missing(cursor, transformed['chat_identifier'], is_group)
  \<close>
\<close>

definition resolve_chat :: "src_row \<Rightarrow> transformed \<Rightarrow> world \<Rightarrow> nat option \<times> world" where
  "resolve_chat row tr w =
     (let chat_id = CHAT_MAP_CACHE w (t_chat_identifier tr)
      in if \<not> truthy chat_id \<and> t_chat_identifier tr \<noteq> []
         then
           (let is_group = (case r_chat_participants row of
                              None \<Rightarrow> False
                            | Some cp \<Rightarrow> cp \<noteq> [] \<and> length (str_split (CHR '','') cp) > 1)
            in create_chat_if_missing (t_chat_identifier tr) is_group w)
         else (chat_id, w))"

text \<open>
  \<^verbatim>\<open>
  sender_id = None
  if transformed['is_from_me']: sender_id = user_id
  else:
      ...
      cache_key = (the cache key of transformed['sender_identifier'])
      sender_id = CONTACT_MAP_CACHE.get(cache_key)
      if not sender_id: (skip)
  \<close>
  \<open>None\<close> is the skip.
\<close>

definition resolve_sender :: "nat \<Rightarrow> transformed \<Rightarrow> world \<Rightarrow> nat option" where
  "resolve_sender user_id tr w =
     (if t_is_from_me tr then Some user_id
      else (let sender_id = CONTACT_MAP_CACHE w (identifier_key (t_sender_identifier tr))
            in if truthy sender_id then sender_id else None))"

record staged_message =
  sm_chat_id :: nat
  sm_sender_id :: nat
  sm_timestamp :: "instant option"
  sm_is_from_me :: bool
  sm_message_type :: "int option"
  sm_guid :: string

text \<open>The variables of the loop over the rows, and the rows as the loop leaves them.\<close>

record sync_loop =
  lp_world :: world
  lp_messages_to_insert :: "staged_message list"
  lp_reactions_to_insert :: "reaction list"
  lp_chat_counts :: "nat \<rightharpoonup> nat"
  lp_imported_count :: nat
  lp_skipped_count :: nat
  lp_missing_chat_identifiers :: "string set"
  lp_created_chats_count :: nat
  lp_rows :: "src_row list"

text \<open>
  The classification and the deduplication against the caches:
  \<^verbatim>\<open>
  if transformed['message_type'] != 0 and transformed['message_type'] is not None:
      if message_guid not in reaction_guid_cache:
          reactions_to_insert.append((transformed['associated_message_guid'],
              transformed['message_type'], sender_id, transformed['timestamp'], chat_id,
              message_guid))
  else:
      if message_guid not in message_cache_map:
          messages_to_insert.append((chat_id, sender_id, transformed['content'],
              transformed['timestamp'], transformed['is_from_me'], transformed['message_type'],
              transformed['service_name'], message_guid))
          chat_counts[chat_id] = chat_counts.get(chat_id, 0) + 1
          imported_count += 1
  \<close>
\<close>

definition stage_row :: "nat \<Rightarrow> nat \<Rightarrow> string \<Rightarrow> transformed \<Rightarrow> sync_loop \<Rightarrow> sync_loop" where
  "stage_row chat_id sender_id message_guid tr lp =
     (if t_message_type tr \<noteq> Some 0 \<and> t_message_type tr \<noteq> None
      then (if message_guid \<notin> REACTION_GUID_CACHE (lp_world lp)
            then lp\<lparr>lp_reactions_to_insert := lp_reactions_to_insert lp @
                      [\<lparr>rx_original_message_guid = t_associated_message_guid tr,
                        rx_reaction_type = t_message_type tr,
                        rx_sender_id = Some sender_id,
                        rx_timestamp = t_timestamp tr,
                        rx_chat_id = chat_id,
                        rx_guid = message_guid\<rparr>]\<rparr>
            else lp)
      else (if MESSAGE_GUID_TO_ID_CACHE (lp_world lp) message_guid = None
            then lp\<lparr>lp_messages_to_insert := lp_messages_to_insert lp @
                      [\<lparr>sm_chat_id = chat_id, sm_sender_id = sender_id,
                        sm_timestamp = t_timestamp tr, sm_is_from_me = t_is_from_me tr,
                        sm_message_type = t_message_type tr, sm_guid = message_guid\<rparr>],
                    lp_chat_counts := (lp_chat_counts lp)
                       (chat_id \<mapsto> (case lp_chat_counts lp chat_id of
                                        None \<Rightarrow> 0 | Some n \<Rightarrow> n) + 1),
                    lp_imported_count := lp_imported_count lp + 1\<rparr>
            else lp))"

text \<open>
  The body of \<^verbatim>\<open>for row in new_rows:\<close>. A row is skipped (\<^verbatim>\<open>skipped_count += 1;
  continue\<close>) when no chat id is found or created, when it is not from the user and its
  sender is not in the contact cache, and when it has no GUID.
\<close>

definition sync_row :: "nat \<Rightarrow> sync_loop \<Rightarrow> src_row \<Rightarrow> sync_loop" where
  "sync_row user_id lp row0 =
     (let row = fill_chat_participants
                  (CHAT_DB_ROWID_TO_PARTICIPANTS_CACHE (lp_world lp)) row0;
          tr = transform_message row;
          resolved = resolve_chat row tr (lp_world lp);
          lp1 = lp\<lparr>lp_rows := lp_rows lp @ [row],
                   lp_world := snd resolved,
                   lp_created_chats_count := lp_created_chats_count lp +
                      (if \<not> truthy (CHAT_MAP_CACHE (lp_world lp) (t_chat_identifier tr))
                          \<and> t_chat_identifier tr \<noteq> [] \<and> truthy (fst resolved)
                       then 1 else 0)\<rparr>
      in case fst resolved of
           None \<Rightarrow> lp1\<lparr>lp_missing_chat_identifiers :=
                         insert (t_chat_identifier tr) (lp_missing_chat_identifiers lp1),
                       lp_skipped_count := lp_skipped_count lp1 + 1\<rparr>
         | Some chat_id \<Rightarrow>
             if chat_id = 0
             then lp1\<lparr>lp_missing_chat_identifiers :=
                         insert (t_chat_identifier tr) (lp_missing_chat_identifiers lp1),
                       lp_skipped_count := lp_skipped_count lp1 + 1\<rparr>
             else
               (case resolve_sender user_id tr (lp_world lp1) of
                  None \<Rightarrow> lp1\<lparr>lp_skipped_count := lp_skipped_count lp1 + 1\<rparr>
                | Some sender_id \<Rightarrow>
                    (case t_guid tr of
                       None \<Rightarrow> lp1\<lparr>lp_skipped_count := lp_skipped_count lp1 + 1\<rparr>
                     | Some message_guid \<Rightarrow>
                         if message_guid = []
                         then lp1\<lparr>lp_skipped_count := lp_skipped_count lp1 + 1\<rparr>
                         else stage_row chat_id sender_id message_guid tr lp1)))"

text \<open>
  The bulk inserts. \<^verbatim>\<open>guid\<close> is \<^verbatim>\<open>UNIQUE\<close> in \<^verbatim>\<open>messages\<close> and in \<^verbatim>\<open>reactions\<close>: a
  staged GUID that is already in the table, or staged twice, raises
  \<^verbatim>\<open>sqlite3.IntegrityError\<close>. (Foreign keys are not modelled.)
\<close>

definition insert_message_row :: "store \<Rightarrow> staged_message \<Rightarrow> store" where
  "insert_message_row d sm =
     d\<lparr>messages := messages d @
          [\<lparr>msg_id = Suc (seq_messages d), msg_chat_id = sm_chat_id sm,
            msg_sender_id = Some (sm_sender_id sm), msg_conversation_id = None,
            msg_timestamp = sm_timestamp sm, msg_is_from_me = sm_is_from_me sm,
            msg_message_type = sm_message_type sm, msg_guid = sm_guid sm\<rparr>],
       seq_messages := Suc (seq_messages d)\<rparr>"

definition insert_messages :: "staged_message list \<Rightarrow> store \<Rightarrow> py_error + store" where
  "insert_messages staged d =
     (if distinct (map sm_guid staged)
         \<and> set (map sm_guid staged) \<inter> set (map msg_guid (messages d)) = {}
      then Inr (foldl insert_message_row d staged)
      else Inl IntegrityError)"

definition insert_reactions :: "reaction list \<Rightarrow> store \<Rightarrow> py_error + store" where
  "insert_reactions staged d =
     (if distinct (map rx_guid staged)
         \<and> set (map rx_guid staged) \<inter> set (map rx_guid (reactions d)) = {}
      then Inr (d\<lparr>reactions := reactions d @ staged\<rparr>)
      else Inl IntegrityError)"

text \<open>
  \<^verbatim>\<open>SELECT guid, id FROM messages WHERE guid IN (...)\<close> over the GUIDs just inserted, and
  \<^verbatim>\<open>MESSAGE_GUID_TO_ID_CACHE[guid] = db_id\<close> for every row of the answer.
\<close>

definition cache_inserted_messages ::
  "string list \<Rightarrow> store \<Rightarrow> (string \<rightharpoonup> nat) \<Rightarrow> (string \<rightharpoonup> nat)" where
  "cache_inserted_messages guids d cache =
     fold (\<lambda>m f. f(msg_guid m \<mapsto> msg_id m))
       (filter (\<lambda>m. msg_guid m \<in> set guids) (messages d)) cache"

text \<open>
  \<^verbatim>\<open>UPDATE chats SET total_messages = total_messages + ? WHERE id = ?\<close> for every entry
  of \<^verbatim>\<open>chat_counts\<close>.
\<close>

definition update_chat_counts :: "(nat \<rightharpoonup> nat) \<Rightarrow> store \<Rightarrow> store" where
  "update_chat_counts chat_counts d =
     d\<lparr>chats := map (\<lambda>c. case chat_counts (ch_id c) of
                            None \<Rightarrow> c
                          | Some n \<Rightarrow> c\<lparr>ch_total_messages := ch_total_messages c + n\<rparr>)
                     (chats d)\<rparr>"

text \<open>
  \<^verbatim>\<open>sync_messages(new_rows)\<close>. The result is the returned pair
  \<^verbatim>\<open>(imported_count, chat_counts)\<close> or the exception that leaves the function, the state
  after the call, and the rows of the batch as the call has rewritten them. The body runs
  in \<^verbatim>\<open>db.session_scope()\<close>: an exception rolls the store back to what it was at the
  start; the caches keep what was written into them.
\<close>

definition sync_messages ::
  "(int \<times> string) list \<Rightarrow> src_row list \<Rightarrow> world
   \<Rightarrow> (py_error + nat \<times> (nat \<rightharpoonup> nat)) \<times> world \<times> src_row list" where
  "sync_messages src_chats new_rows w0 =
     (if new_rows = [] then (Inr (0, Map.empty), w0, new_rows)
      else
        let w1 = get_chat_participants_map src_chats False
                   (get_contact_map False
                      (get_reaction_guids False
                         (get_message_guid_to_id_map False (get_chat_map False w0))));
            user = ensure_user_contact (internal_db w1);
            w2 = w1\<lparr>internal_db := snd user\<rparr>;
            unknown = foldl (note_unknown_sender (CONTACT_MAP_CACHE w2)) [] new_rows;
            w3 = create_unknown_contacts unknown w2;
            lp = foldl (sync_row (fst user))
                   \<lparr>lp_world = w3, lp_messages_to_insert = [], lp_reactions_to_insert = [],
                    lp_chat_counts = Map.empty, lp_imported_count = 0, lp_skipped_count = 0,
                    lp_missing_chat_identifiers = {}, lp_created_chats_count = 0,
                    lp_rows = []\<rparr> new_rows;
            w4 = lp_world lp
        in case insert_messages (lp_messages_to_insert lp) (internal_db w4) of
             Inl e \<Rightarrow> (Inl e, w4\<lparr>internal_db := internal_db w0\<rparr>, lp_rows lp)
           | Inr d5 \<Rightarrow>
               let w5 = w4\<lparr>internal_db := d5,
                          MESSAGE_GUID_TO_ID_CACHE :=
                            cache_inserted_messages (map sm_guid (lp_messages_to_insert lp)) d5
                              (MESSAGE_GUID_TO_ID_CACHE w4)\<rparr>
               in case insert_reactions (lp_reactions_to_insert lp) (internal_db w5) of
                    Inl e \<Rightarrow> (Inl e, w5\<lparr>internal_db := internal_db w0\<rparr>, lp_rows lp)
                  | Inr d6 \<Rightarrow>
                      (Inr (lp_imported_count lp, lp_chat_counts lp),
                       w5\<lparr>internal_db := update_chat_counts (lp_chat_counts lp) d6,
                          REACTION_GUID_CACHE :=
                            REACTION_GUID_CACHE w5
                              \<union> set (map rx_guid (lp_reactions_to_insert lp))\<rparr>,
                       lp_rows lp))"

subsection \<open>A batch for the scenarios\<close>

text \<open>
  An empty store with empty caches, a source with one chat, and a batch of two rows of
  that chat from the same sender: a message (type 0) and a tapback on it (type 2000).
\<close>

definition empty_store :: store where
  "empty_store =
     \<lparr>contacts = [], contact_identifiers = [], chats = [], messages = [], reactions = [],
      conversations = [], seq_contacts = 0, seq_chats = 0, seq_messages = 0,
      seq_conversations = 0, wm_apple_epoch_ns = None, wm_last_message_rowid = None,
      wm_last_attachment_rowid = None\<rparr>"

definition empty_world :: world where
  "empty_world =
     \<lparr>CONTACT_MAP_CACHE = Map.empty, contacts_cache_populated = False,
      MESSAGE_GUID_TO_ID_CACHE = Map.empty, message_guid_cache_populated = False,
      CHAT_MAP_CACHE = Map.empty, chat_map_cache_populated = False,
      REACTION_GUID_CACHE = {}, reaction_guid_cache_populated = False,
      CHAT_DB_ROWID_TO_PARTICIPANTS_CACHE = Map.empty,
      chat_participants_cache_populated = False,
      internal_db = empty_store\<rparr>"

definition example_src_chats :: "(int \<times> string) list" where
  "example_src_chats = [(1, ''+14155550100'')]"

definition example_message_row :: src_row where
  "example_message_row =
     \<lparr>r_message_id = 10, r_guid = Some ''A'', r_date = Some 728000000,
      r_is_from_me = False, r_sender_identifier = Some ''+14155550100'',
      r_chat_id = Some 1, r_chat_participants = None,
      r_associated_message_type = Some 0, r_associated_message_guid = None\<rparr>"

definition example_reaction_row :: src_row where
  "example_reaction_row =
     \<lparr>r_message_id = 11, r_guid = Some ''B'', r_date = Some 728000060,
      r_is_from_me = False, r_sender_identifier = Some ''+14155550100'',
      r_chat_id = Some 1, r_chat_participants = None,
      r_associated_message_type = Some 2000, r_associated_message_guid = Some ''p:0/A''\<rparr>"

subsection \<open>etl\_messages.load\_messages: the classification\<close>

text \<open>
  The backup path stages four lists. The tuples are those of the source without
  \<^verbatim>\<open>content\<close> and \<^verbatim>\<open>service_name\<close>; \<^verbatim>\<open>sender_id\<close> is \<^verbatim>\<open>None\<close> for a row from the user
  when no contact is marked \<^verbatim>\<open>is_me\<close>, and the GUID of a row may be NULL.
\<close>

record message_data =
  md_chat_id :: nat
  md_sender_id :: "nat option"
  md_timestamp :: "instant option"
  md_is_from_me :: bool
  md_message_type :: "int option"
  md_guid :: "string option"

record reaction_data =
  rd_original_message_guid :: "string option"
  rd_reaction_type :: "int option"
  rd_sender_id :: "nat option"
  rd_timestamp :: "instant option"
  rd_chat_id :: nat
  rd_guid :: "string option"

record load_lists =
  ld_messages_to_insert :: "message_data list"
  ld_messages_to_update :: "message_data list"
  ld_reactions_to_insert :: "reaction_data list"
  ld_reactions_to_update :: "reaction_data list"
  ld_chat_counts :: "nat \<rightharpoonup> nat"
  ld_imported_count :: nat

text \<open>
  The end of the loop body of \<^verbatim>\<open>load_messages\<close>, after the chat and the sender of the
  row have been found:
  \<^verbatim>\<open>
  if msg['message_type'] != 0:
      reaction_data = (msg['associated_message_guid'], msg.get('message_type'), sender_id,
                       msg['timestamp'], chat_id, msg['guid'])
      if msg['guid'] in existing_reaction_guids: reactions_to_update.append(reaction_data)
      else: reactions_to_insert.append(reaction_data)
  else:
      message_data = (chat_id, sender_id, msg['content'], msg['timestamp'],
                      msg['is_from_me'], msg['message_type'], msg['service_name'], msg['guid'])
      if msg['guid'] in existing_message_guids: messages_to_update.append(message_data)
      else:
          messages_to_insert.append(message_data)
          chat_counts[chat_id] += 1
          imported_count += 1
  \<close>
  \<^verbatim>\<open>None != 0\<close> is true in Python. The lists go to \<^verbatim>\<open>INSERT INTO messages\<close>,
  \<^verbatim>\<open>UPDATE messages\<close>, \<^verbatim>\<open>INSERT INTO reactions\<close> and \<^verbatim>\<open>UPDATE reactions\<close> in this order;
  \<^verbatim>\<open>chat_counts\<close> is a \<^verbatim>\<open>defaultdict(int)\<close>.
\<close>

definition load_stage ::
  "string option set \<Rightarrow> string option set \<Rightarrow> nat \<Rightarrow> nat option \<Rightarrow> transformed
   \<Rightarrow> load_lists \<Rightarrow> load_lists" where
  "load_stage existing_message_guids existing_reaction_guids chat_id sender_id msg ld =
     (if t_message_type msg \<noteq> Some 0
      then
        let reaction_data =
              \<lparr>rd_original_message_guid = t_associated_message_guid msg,
               rd_reaction_type = t_message_type msg,
               rd_sender_id = sender_id,
               rd_timestamp = t_timestamp msg,
               rd_chat_id = chat_id,
               rd_guid = t_guid msg\<rparr>
        in if t_guid msg \<in> existing_reaction_guids
           then ld\<lparr>ld_reactions_to_update := ld_reactions_to_update ld @ [reaction_data]\<rparr>
           else ld\<lparr>ld_reactions_to_insert := ld_reactions_to_insert ld @ [reaction_data]\<rparr>
      else
        let message_data =
              \<lparr>md_chat_id = chat_id, md_sender_id = sender_id,
               md_timestamp = t_timestamp msg, md_is_from_me = t_is_from_me msg,
               md_message_type = t_message_type msg, md_guid = t_guid msg\<rparr>
        in if t_guid msg \<in> existing_message_guids
           then ld\<lparr>ld_messages_to_update := ld_messages_to_update ld @ [message_data]\<rparr>
           else ld\<lparr>ld_messages_to_insert := ld_messages_to_insert ld @ [message_data],
                   ld_chat_counts := (ld_chat_counts ld)
                      (chat_id \<mapsto> (case ld_chat_counts ld chat_id of
                                       None \<Rightarrow> 0 | Some n \<Rightarrow> n) + 1),
                   ld_imported_count := ld_imported_count ld + 1\<rparr>)"

text \<open>
  A row of the source whose \<^verbatim>\<open>associated_message_type\<close> is NULL, and the lists before
  the first row.
\<close>

definition example_null_type_row :: src_row where
  "example_null_type_row = example_message_row\<lparr>r_associated_message_type := None\<rparr>"

definition empty_load_lists :: load_lists where
  "empty_load_lists =
     \<lparr>ld_messages_to_insert = [], ld_messages_to_update = [], ld_reactions_to_insert = [],
      ld_reactions_to_update = [], ld_chat_counts = Map.empty, ld_imported_count = 0\<rparr>"

subsection \<open>Notions for the properties of the sync\<close>

text \<open>
  The caches are settled: each one is populated, and an empty cache goes with an empty
  table, so that the getters of the next call read nothing new. \<open>src_chats\<close> is the
  source behind the participants cache.
\<close>

definition caches_settled :: "(int \<times> string) list \<Rightarrow> world \<Rightarrow> bool" where
  "caches_settled src_chats w =
     (chat_map_cache_populated w
      \<and> (CHAT_MAP_CACHE w = Map.empty \<longrightarrow> chats (internal_db w) = [])
      \<and> message_guid_cache_populated w
      \<and> (MESSAGE_GUID_TO_ID_CACHE w = Map.empty \<longrightarrow> messages (internal_db w) = [])
      \<and> reaction_guid_cache_populated w
      \<and> (REACTION_GUID_CACHE w = {} \<longrightarrow> reactions (internal_db w) = [])
      \<and> contacts_cache_populated w
      \<and> (CONTACT_MAP_CACHE w = Map.empty \<longrightarrow> contact_identifiers (internal_db w) = [])
      \<and> chat_participants_cache_populated w
      \<and> (CHAT_DB_ROWID_TO_PARTICIPANTS_CACHE w = Map.empty \<longrightarrow> src_chats = []))"

text \<open>The five getters at the head of \<open>sync_messages\<close>, in the order of the source.\<close>

definition get_caches :: "(int \<times> string) list \<Rightarrow> world \<Rightarrow> world" where
  "get_caches src_chats w =
     get_chat_participants_map src_chats False
       (get_contact_map False
          (get_reaction_guids False
             (get_message_guid_to_id_map False (get_chat_map False w))))"

text \<open>
  A row is quiet in a world when the loop body has nothing to write for it: its chat
  identifier is empty or has a non-zero id in the chat cache, and, if the row gets as far
  as the classification, its GUID is in the cache of its class.
\<close>

definition is_reaction_type :: "int option \<Rightarrow> bool" where
  "is_reaction_type t = (t \<noteq> Some 0 \<and> t \<noteq> None)"

definition quiet :: "nat \<Rightarrow> world \<Rightarrow> src_row \<Rightarrow> bool" where
  "quiet user_id w row0 =
     (let tr = transform_message
                 (fill_chat_participants (CHAT_DB_ROWID_TO_PARTICIPANTS_CACHE w) row0)
      in (truthy (CHAT_MAP_CACHE w (t_chat_identifier tr)) \<or> t_chat_identifier tr = [])
         \<and> (truthy (CHAT_MAP_CACHE w (t_chat_identifier tr))
              \<and> resolve_sender user_id tr w \<noteq> None \<and> str_truthy (t_guid tr)
            \<longrightarrow> (case t_guid tr of
                   None \<Rightarrow> True
                 | Some g \<Rightarrow> if is_reaction_type (t_message_type tr)
                             then g \<in> REACTION_GUID_CACHE w
                             else g \<in> dom (MESSAGE_GUID_TO_ID_CACHE w))))"

text \<open>The row ids of contacts and chats in the store are not zero.\<close>

definition ids_nonzero :: "store \<Rightarrow> bool" where
  "ids_nonzero d = (0 \<notin> set (map ct_id (contacts d)) \<and> 0 \<notin> set (map ch_id (chats d)))"

text \<open>
  The sender of a row needs no new contact: the row is from the user, has no sender
  identifier, or the cache key of its sender is in the contact cache.
\<close>

definition sender_known :: "(string \<rightharpoonup> nat) \<Rightarrow> src_row \<Rightarrow> bool" where
  "sender_known cm row =
     (r_is_from_me row \<or> \<not> str_truthy (r_sender_identifier row)
      \<or> (\<exists>s. r_sender_identifier row = Some s \<and> identifier_key s \<in> dom cm))"

text \<open>
  A world absorbs a state of the loop when it has the caches the loop would leave if it
  stopped there and committed: the loop's entries of the chat cache that are in use, its
  contact and participants caches, and the GUIDs the loop has seen, cached or staged.
\<close>

definition absorbs :: "world \<Rightarrow> sync_loop \<Rightarrow> bool" where
  "absorbs w2 lp =
     ((\<forall>k. truthy (CHAT_MAP_CACHE (lp_world lp) k) \<or> k = []
            \<longrightarrow> CHAT_MAP_CACHE w2 k = CHAT_MAP_CACHE (lp_world lp) k)
      \<and> CONTACT_MAP_CACHE w2 = CONTACT_MAP_CACHE (lp_world lp)
      \<and> CHAT_DB_ROWID_TO_PARTICIPANTS_CACHE w2
          = CHAT_DB_ROWID_TO_PARTICIPANTS_CACHE (lp_world lp)
      \<and> REACTION_GUID_CACHE (lp_world lp) \<union> rx_guid ` set (lp_reactions_to_insert lp)
          \<subseteq> REACTION_GUID_CACHE w2
      \<and> dom (MESSAGE_GUID_TO_ID_CACHE (lp_world lp)) \<union> sm_guid ` set (lp_messages_to_insert lp)
          \<subseteq> dom (MESSAGE_GUID_TO_ID_CACHE w2))"

section \<open>Properties of the normaliser\<close>

lemma filter_is_digit_idem: "filter is_digit (filter is_digit s) = filter is_digit s"
  by simp

lemma normalize_phone_number_digits: "c \<in> set (normalize_phone_number s) \<Longrightarrow> is_digit c"
  by (auto simp: normalize_phone_number_def Let_def dest: in_set_dropD split: if_splits)

lemma filter_digits_normalize:
  "filter is_digit (normalize_phone_number s) = normalize_phone_number s"
  by (rule filter_True) (simp add: normalize_phone_number_digits)

lemma normalize_phone_number_not_11_1:
  "\<not> (length (normalize_phone_number s) = 11 \<and> take 1 (normalize_phone_number s) = ''1'')"
  by (auto simp: normalize_phone_number_def Let_def)

lemma normalize_phone_number_idem:
  "normalize_phone_number (normalize_phone_number s) = normalize_phone_number s"
proof (cases "normalize_phone_number s = []")
  case True
  then show ?thesis by (simp add: normalize_phone_number_def)
next
  case False
  have "normalize_phone_number (normalize_phone_number s) =
        (let digits = filter is_digit (normalize_phone_number s)
         in if length digits = 11 \<and> take 1 digits = ''1'' then drop 1 digits else digits)"
    using False by (subst normalize_phone_number_def) simp
  also have "\<dots> = (if length (normalize_phone_number s) = 11
                          \<and> take 1 (normalize_phone_number s) = ''1''
                        then drop 1 (normalize_phone_number s) else normalize_phone_number s)"
    by (simp only: filter_digits_normalize Let_def)
  also have "\<dots> = normalize_phone_number s"
    by (simp only: normalize_phone_number_not_11_1 if_False)
  finally show ?thesis .
qed

text \<open>
  Claim C10. \<open>normalize_phone_number\<close> is idempotent, every character of its output is a
  digit, and its output is never a string of eleven characters that begins with \<open>1\<close>.
\<close>

theorem normalize_phone_number_canonical:
  "normalize_phone_number (normalize_phone_number s) = normalize_phone_number s
   \<and> (\<forall>c \<in> set (normalize_phone_number s). is_digit c)
   \<and> \<not> (length (normalize_phone_number s) = 11 \<and> take 1 (normalize_phone_number s) = ''1'')"
  using normalize_phone_number_idem normalize_phone_number_digits
    normalize_phone_number_not_11_1 by blast

lemma normalize_phone_number_us_example:
  "normalize_phone_number ''+1 (415) 555-0100'' = ''4155550100''"
  by (simp add: normalize_phone_number_def is_digit_def)

theorem normalize_phone_number_canonical_witness:
  "normalize_phone_number ''4155550100'' = ''4155550100''
   \<and> CHR ''4'' \<in> set (normalize_phone_number ''+1 (415) 555-0100'')
   \<and> is_digit (CHR ''4'')"
  using normalize_phone_number_canonical [of "''+1 (415) 555-0100''"]
  by (simp add: normalize_phone_number_us_example)

text \<open>
  Claim C5, as the specification states it: for a string that contains \<open>/\<close> or \<open>:\<close>,
  \<open>clean_guid\<close> returns the part after the last such separator. The code cuts at the
  first \<open>/\<close> instead, and looks at \<open>:\<close> only when there is no \<open>/\<close>: on
  \<open>p:0/abc:def\<close> it returns \<open>abc:def\<close>, not \<open>def\<close>.
\<close>

theorem clean_guid_last_separator_counterexample:
  "clean_guid (Some ''p:0/abc:def'') = Some ''abc:def''
   \<and> after_last_separator ''p:0/abc:def'' = ''def''
   \<and> clean_guid (Some ''p:0/abc:def'') \<noteq> Some (after_last_separator ''p:0/abc:def'')"
  by (simp add: clean_guid_def split_once_def after_last_separator_def)

lemma split_at_first:
  "sep \<in> set s \<Longrightarrow> s = takeWhile (\<lambda>c. c \<noteq> sep) s @ sep # drop 1 (dropWhile (\<lambda>c. c \<noteq> sep) s)"
proof -
  assume "sep \<in> set s"
  then have "dropWhile (\<lambda>c. c \<noteq> sep) s \<noteq> []" by (simp add: dropWhile_eq_Nil_conv)
  then obtain r where r: "dropWhile (\<lambda>c. c \<noteq> sep) s = sep # r"
    using hd_dropWhile [of "\<lambda>c. c \<noteq> sep" s] by (cases "dropWhile (\<lambda>c. c \<noteq> sep) s") auto
  have "s = takeWhile (\<lambda>c. c \<noteq> sep) s @ dropWhile (\<lambda>c. c \<noteq> sep) s" by simp
  with r show ?thesis by simp
qed

lemma takeWhile_no_sep: "sep \<notin> set (takeWhile (\<lambda>c. c \<noteq> sep) s)"
  by (induction s) auto

text \<open>
  Claim C5, amended. When the string contains \<open>/\<close>, \<open>clean_guid\<close> returns what follows
  its first \<open>/\<close>; when it contains no \<open>/\<close> but a \<open>:\<close>, what follows its first \<open>:\<close>;
  a string with neither separator is returned unchanged. So \<open>p:0/abc\<close> gives \<open>abc\<close>,
  \<open>p:0/abc:def\<close> gives \<open>abc:def\<close>, and \<open>plain\<close> gives \<open>plain\<close>.
\<close>

theorem clean_guid_first_separator:
  "(CHR ''/'' \<in> set s \<longrightarrow>
      (\<exists>pre r. clean_guid (Some s) = Some r \<and> s = pre @ CHR ''/'' # r \<and> CHR ''/'' \<notin> set pre))
   \<and> (CHR ''/'' \<notin> set s \<and> CHR '':'' \<in> set s \<longrightarrow>
      (\<exists>pre r. clean_guid (Some s) = Some r \<and> s = pre @ CHR '':'' # r \<and> CHR '':'' \<notin> set pre))
   \<and> (CHR ''/'' \<notin> set s \<and> CHR '':'' \<notin> set s \<longrightarrow> clean_guid (Some s) = Some s)
   \<and> clean_guid (Some ''p:0/abc'') = Some ''abc''
   \<and> clean_guid (Some ''p:0/abc:def'') = Some ''abc:def''
   \<and> clean_guid (Some ''plain'') = Some ''plain''"
proof (intro conjI impI)
  assume a: "CHR ''/'' \<in> set s"
  then have "s \<noteq> []" by auto
  with a have "clean_guid (Some s) = Some (drop 1 (dropWhile (\<lambda>c. c \<noteq> CHR ''/'') s))"
    by (simp add: clean_guid_def split_once_def)
  with split_at_first [OF a] takeWhile_no_sep [of "CHR ''/''" s]
  show "\<exists>pre r. clean_guid (Some s) = Some r \<and> s = pre @ CHR ''/'' # r \<and> CHR ''/'' \<notin> set pre"
    by blast
next
  assume "CHR ''/'' \<notin> set s \<and> CHR '':'' \<in> set s"
  then have n: "CHR ''/'' \<notin> set s" and a: "CHR '':'' \<in> set s" by simp_all
  from a have "s \<noteq> []" by auto
  with a n have "clean_guid (Some s) = Some (drop 1 (dropWhile (\<lambda>c. c \<noteq> CHR '':'') s))"
    by (simp add: clean_guid_def split_once_def)
  with split_at_first [OF a] takeWhile_no_sep [of "CHR '':''" s]
  show "\<exists>pre r. clean_guid (Some s) = Some r \<and> s = pre @ CHR '':'' # r \<and> CHR '':'' \<notin> set pre"
    by blast
next
  assume "CHR ''/'' \<notin> set s \<and> CHR '':'' \<notin> set s"
  then show "clean_guid (Some s) = Some s" by (simp add: clean_guid_def)
qed (simp_all add: clean_guid_def split_once_def)

theorem clean_guid_first_separator_witness:
  "CHR ''/'' \<in> set ''a/b:c/d''
   \<and> (\<exists>pre. ''a/b:c/d'' = pre @ CHR ''/'' # ''b:c/d'' \<and> CHR ''/'' \<notin> set pre)
   \<and> clean_guid (Some ''a/b:c/d'') = Some ''b:c/d''"
proof -
  have h: "CHR ''/'' \<in> set ''a/b:c/d''" by simp
  have e: "clean_guid (Some ''a/b:c/d'') = Some ''b:c/d''"
    by (simp add: clean_guid_def split_once_def)
  from clean_guid_first_separator [of "''a/b:c/d''"] h e
  show ?thesis by auto
qed

section \<open>Properties of the timestamp decoder\<close>


















section \<open>Properties of the extractor\<close>

lemma print_exc_info_raises: "py_print [''exc_info''] = Inl TypeError"
  by (simp add: py_print_def)

text \<open>
  Claim C8 at the failing input. When the query raises \<^verbatim>\<open>sqlite3.Error\<close>, the handler
  starts with \<^verbatim>\<open>print(..., exc_info=True)\<close>, a keyword that \<^verbatim>\<open>print\<close> does not take:
  the call raises \<^verbatim>\<open>TypeError\<close>, the statements that close and reset the cached
  connection and return \<^verbatim>\<open>([], last_rowid)\<close> are not reached, and the caller receives
  the exception. The same holds when the connect fails, and for
  \<^verbatim>\<open>fetch_new_attachments\<close>.
\<close>

theorem fetch_error_propagates:
  "fetch_new_messages QueryFails (Some Connection) last_rowid = (Inl TypeError, Some Connection)
   \<and> fetch_new_messages QueryFails None last_rowid = (Inl TypeError, Some Connection)
   \<and> fetch_new_messages ConnectFails None last_rowid = (Inl TypeError, None)
   \<and> fetch_new_attachments QueryFails (Some Connection) last_rowid
       = (Inl TypeError, Some Connection)
   \<and> fetch_new_attachments ConnectFails None last_rowid = (Inl TypeError, None)"
  by (simp add: fetch_new_messages_def fetch_new_attachments_def get_chat_db_connection_def
      sqlite_error_handler_def print_exc_info_raises)

section \<open>Properties of the conversation engine\<close>

subsection \<open>Segmentation\<close>

lemma within_gap_snoc:
  "within_gap g (xs @ [m]) = (within_gap g xs \<and> (xs = [] \<or> \<not> exceeds_gap g (last xs) m))"
  by (induction g xs rule: within_gap.induct) auto

lemma gaps_between_snoc:
  "gaps_between g (xss @ [xs, ys]) = (gaps_between g (xss @ [xs]) \<and> exceeds_gap g (last xs) (hd ys))"
  by (induction g xss rule: gaps_between.induct) auto

lemma gaps_between_last_hd:
  "hd xs = hd ys \<Longrightarrow> gaps_between g (xss @ [xs]) = gaps_between g (xss @ [ys])"
  by (induction g xss rule: gaps_between.induct) auto

lemma split_loop_inv:
  "split_loop g ms convs cur st lt = (convs', cur', st', lt') \<Longrightarrow>
   cur \<noteq> [] \<Longrightarrow> st = m_timestamp (hd cur) \<Longrightarrow> lt = m_timestamp (last cur) \<Longrightarrow>
   within_gap g cur \<Longrightarrow> (\<forall>b \<in> set convs. wf_block g b) \<Longrightarrow>
   gaps_between g (map b_messages convs @ [cur]) \<Longrightarrow>
   cur' \<noteq> [] \<and> st' = m_timestamp (hd cur') \<and> lt' = m_timestamp (last cur') \<and>
   within_gap g cur' \<and> (\<forall>b \<in> set convs'. wf_block g b) \<and>
   gaps_between g (map b_messages convs' @ [cur']) \<and>
   concat (map b_messages convs') @ cur' = concat (map b_messages convs) @ cur @ ms"
proof (induction ms arbitrary: convs cur st lt)
  case Nil
  from Nil(1) have "convs' = convs" "cur' = cur" "st' = st" "lt' = lt" by simp_all
  with Nil(2-) show ?case by simp
next
  case (Cons m ms)
  show ?case
  proof (cases "total_seconds (m_timestamp m - lt) > of_int g")
    case True
    let ?b = "\<lparr>b_messages = cur, b_start_time = st, b_end_time = lt, b_chat_id = m_chat_id m\<rparr>"
    from True Cons.prems(1,2)
    have e: "split_loop g ms (convs @ [?b]) [m] (m_timestamp m) (m_timestamp m) = (convs', cur', st', lt')"
      by (simp add: Let_def)
    have ex: "exceeds_gap g (last cur) m"
      using True Cons.prems(4) by (simp add: exceeds_gap_def)
    have wb: "wf_block g ?b" using Cons.prems by (simp add: wf_block_def)
    have gb: "gaps_between g (map b_messages (convs @ [?b]) @ [[m]])"
      using Cons.prems(7) ex gaps_between_snoc [of g "map b_messages convs" cur "[m]"] by simp
    have p1: "[m] \<noteq> []" by simp
    have p2: "m_timestamp m = m_timestamp (hd [m])" by simp
    have p3: "m_timestamp m = m_timestamp (last [m])" by simp
    have p4: "within_gap g [m]" by simp
    have p5: "\<forall>b \<in> set (convs @ [?b]). wf_block g b" using wb Cons.prems(6) by simp
    have c: "concat (map b_messages (convs @ [?b])) @ [m] @ ms
             = concat (map b_messages convs) @ cur @ m # ms" by simp
    note r = Cons.IH [OF e p1 p2 p3 p4 p5 gb]
    from r c have "concat (map b_messages convs') @ cur' = concat (map b_messages convs) @ cur @ m # ms"
      by (elim conjE) (rule trans)
    with r show ?thesis by blast
  next
    case False
    from False Cons.prems(1)
    have e: "split_loop g ms convs (cur @ [m]) st (m_timestamp m) = (convs', cur', st', lt')"
      by (simp add: Let_def)
    have nex: "\<not> exceeds_gap g (last cur) m"
      using False Cons.prems(4) by (simp add: exceeds_gap_def)
    have wg: "within_gap g (cur @ [m])"
      using Cons.prems(5) nex by (simp add: within_gap_snoc)
    have gb: "gaps_between g (map b_messages convs @ [cur @ [m]])"
      using Cons.prems(7,2) gaps_between_last_hd [of "cur @ [m]" cur g "map b_messages convs"]
      by simp
    have p1: "cur @ [m] \<noteq> []" by simp
    have p2: "st = m_timestamp (hd (cur @ [m]))" using Cons.prems(2,3) by simp
    have p3: "m_timestamp m = m_timestamp (last (cur @ [m]))" by simp
    have c: "concat (map b_messages convs) @ (cur @ [m]) @ ms
             = concat (map b_messages convs) @ cur @ m # ms" by simp
    note r = Cons.IH [OF e p1 p2 p3 wg Cons.prems(6) gb]
    from r c have "concat (map b_messages convs') @ cur' = concat (map b_messages convs) @ cur @ m # ms"
      by (elim conjE) (rule trans)
    with r show ?thesis by blast
  qed
qed

lemma within_gap_nth:
  "within_gap g xs \<Longrightarrow> Suc i < length xs \<Longrightarrow> \<not> exceeds_gap g (xs ! i) (xs ! Suc i)"
proof (induction g xs arbitrary: i rule: within_gap.induct)
  case (3 g a b rest)
  then show ?case by (cases i) auto
qed simp_all

lemma segment_index_iff:
  "(\<forall>xs \<in> set xss. xs \<noteq> [] \<and> within_gap g xs) \<Longrightarrow> gaps_between g xss \<Longrightarrow>
   Suc i < length (concat xss) \<Longrightarrow>
   (segment_index xss (Suc i) \<noteq> segment_index xss i)
     = exceeds_gap g (concat xss ! i) (concat xss ! Suc i)"
proof (induction xss arbitrary: i)
  case Nil
  then show ?case by simp
next
  case (Cons xs xss)
  have xs: "xs \<noteq> []" "within_gap g xs" using Cons.prems(1) by simp_all
  consider "Suc i < length xs" | "Suc i = length xs" | "length xs \<le> i" by linarith
  then show ?case
  proof cases
    case 1
    then show ?thesis using within_gap_nth [OF xs(2) 1] by (simp add: nth_append)
  next
    case 2
    then have i: "i < length xs" "i = length xs - 1" by simp_all
    from Cons.prems(3) 2 have "concat xss \<noteq> []" by auto
    then obtain ys rest where yr: "xss = ys # rest" by (cases xss) auto
    with Cons.prems(1) have ys: "ys \<noteq> []" by simp
    have l: "(xs @ concat xss) ! i = last xs" using i xs(1) by (simp add: nth_append last_conv_nth)
    have h: "(xs @ concat xss) ! Suc i = hd ys" using 2 yr ys by (simp add: nth_append hd_conv_nth)
    from Cons.prems(2) yr have "exceeds_gap g (last xs) (hd ys)" by simp
    with l h 2 i show ?thesis by simp
  next
    case 3
    have g': "gaps_between g xss" using Cons.prems(2) by (cases xss) auto
    have a: "\<forall>xs \<in> set xss. xs \<noteq> [] \<and> within_gap g xs" using Cons.prems(1) by simp
    have s: "Suc (i - length xs) < length (concat xss)" using Cons.prems(3) 3 by simp
    from Cons.IH [OF a g' s] 3 show ?thesis by (simp add: nth_append Suc_diff_le)
  qed
qed


lemma split_into_conversations_props:
  "concat (map b_messages (split_into_conversations ms g)) = ms
   \<and> (\<forall>b \<in> set (split_into_conversations ms g). wf_block g b)
   \<and> gaps_between g (map b_messages (split_into_conversations ms g))"
proof (cases ms)
  case Nil
  then show ?thesis by (simp add: split_into_conversations_def)
next
  case (Cons first rest)
  obtain convs' cur' st' lt' where
    e: "split_loop g rest [] [first] (m_timestamp first) (m_timestamp first) = (convs', cur', st', lt')"
    by (cases "split_loop g rest [] [first] (m_timestamp first) (m_timestamp first)") auto
  have p1: "[first] \<noteq> []" by simp
  have p2: "m_timestamp first = m_timestamp (hd [first])" by simp
  have p3: "m_timestamp first = m_timestamp (last [first])" by simp
  have p4: "within_gap g [first]" by simp
  have p5: "\<forall>b \<in> set []. wf_block g b" by simp
  have p6: "gaps_between g (map b_messages [] @ [[first]])" by simp
  note r = split_loop_inv [OF e p1 p2 p3 p4 p5 p6]
  let ?b = "\<lparr>b_messages = cur', b_start_time = st', b_end_time = lt', b_chat_id = m_chat_id first\<rparr>"
  have s: "split_into_conversations ms g = convs' @ [?b]"
    using Cons e r by (simp add: split_into_conversations_def)
  have wb: "wf_block g ?b" using r by (simp add: wf_block_def)
  have c: "concat (map b_messages (convs' @ [?b])) = ms" using r Cons by simp
  have a: "\<forall>b \<in> set (convs' @ [?b]). wf_block g b" using r wb by simp
  have gb: "gaps_between g (map b_messages (convs' @ [?b]))" using r by simp
  from s c a gb show ?thesis by (simp only:)
qed

lemma hd_concat_nonempty: "xss \<noteq> [] \<Longrightarrow> hd xss \<noteq> [] \<Longrightarrow> hd (concat xss) = hd (hd xss)"
  by (cases xss) auto

lemma concat_nonempty: "xss \<noteq> [] \<Longrightarrow> last xss \<noteq> [] \<Longrightarrow> concat xss \<noteq> []"
  by (induction xss) (auto split: if_splits)

lemma last_concat_nonempty: "xss \<noteq> [] \<Longrightarrow> last xss \<noteq> [] \<Longrightarrow> last (concat xss) = last (last xss)"
proof (induction xss)
  case Nil
  then show ?case by simp
next
  case (Cons a xss)
  show ?case
  proof (cases "xss = []")
    case True
    then show ?thesis by simp
  next
    case False
    with Cons.prems have l: "last xss \<noteq> []" by simp
    from concat_nonempty [OF False l] Cons.IH [OF False l] False
    show ?thesis by (auto simp: last_append)
  qed
qed

lemma find_in_set: "find P xs = Some x \<Longrightarrow> x \<in> set xs \<and> P x"
  by (induction xs) (auto split: if_splits)

lemma find_sender_None:
  "(find (\<lambda>m. m_sender_id m \<noteq> None) msgs = None) = (List.map_filter m_sender_id msgs = [])"
  by (induction msgs) (auto simp: List.map_filter_simps split: option.splits)

lemma map_filter_sender_exists:
  "(List.map_filter m_sender_id msgs \<noteq> []) = (\<exists>m \<in> set msgs. m_sender_id m \<noteq> None)"
  by (induction msgs) (auto simp: List.map_filter_simps split: option.splits)

lemma transform_conversations_filter:
  "map s_message_ids (transform_conversations raw g)
     = map (\<lambda>b. map m_id (b_messages b)) (filter has_sender raw)"
proof (induction raw)
  case Nil
  then show ?case by simp
next
  case (Cons conv rest)
  show ?case
  proof (cases "List.map_filter m_sender_id (b_messages conv) = []")
    case True
    then have "find (\<lambda>m. m_sender_id m \<noteq> None) (b_messages conv) = None"
      by (simp only: find_sender_None)
    with True Cons show ?thesis by (simp add: has_sender_def Let_def)
  next
    case False
    then have n: "b_messages conv \<noteq> []" by (auto simp: List.map_filter_simps)
    from False obtain im where "find (\<lambda>m. m_sender_id m \<noteq> None) (b_messages conv) = Some im"
      using find_sender_None [of "b_messages conv"] by (cases "find (\<lambda>m. m_sender_id m \<noteq> None) (b_messages conv)") auto
    with False n Cons show ?thesis by (simp add: has_sender_def Let_def)
  qed
qed

subsection \<open>Live reconciliation\<close>

lemma attach_messages_ids: "map msg_id (attach_messages ids c ms) = map msg_id ms"
  by (simp add: attach_messages_def)

lemma attach_messages_attached:
  "m \<in> set (attach_messages ids c ms) \<Longrightarrow> msg_id m \<in> set ids \<Longrightarrow> msg_conversation_id m = Some c"
  by (auto simp: attach_messages_def split: if_splits)

lemma attach_messages_others:
  "m \<in> set (attach_messages ids c ms) \<Longrightarrow> msg_id m \<notin> set ids \<Longrightarrow> m \<in> set ms"
  by (auto simp: attach_messages_def split: if_splits)

lemma fold_latest_in: "fold (\<lambda>d best. if c_end_time d > c_end_time best then d else best) rest c \<in> set (c # rest)"
  by (induction rest arbitrary: c) auto

lemma fold_latest_ge:
  "c_end_time c \<le> c_end_time (fold (\<lambda>d best. if c_end_time d > c_end_time best then d else best) rest c)"
proof (induction rest arbitrary: c)
  case Nil
  then show ?case by simp
next
  case (Cons a rest)
  show ?case
  proof (cases "c_end_time a > c_end_time c")
    case True
    with Cons [of a] show ?thesis by simp
  next
    case False
    with Cons [of c] show ?thesis by simp
  qed
qed

lemma fold_latest_max:
  "x \<in> set (c # rest) \<Longrightarrow>
   c_end_time x \<le> c_end_time (fold (\<lambda>d best. if c_end_time d > c_end_time best then d else best) rest c)"
proof (induction rest arbitrary: c)
  case Nil
  then show ?case by simp
next
  case (Cons a rest)
  show ?case
  proof (cases "c_end_time a > c_end_time c")
    case True
    from Cons.prems consider "x = c" | "x \<in> set (a # rest)" by auto
    then show ?thesis
    proof cases
      case 1
      with True fold_latest_ge [of a rest] show ?thesis by simp
    next
      case 2
      with True Cons.IH [of a] show ?thesis by simp
    qed
  next
    case False
    from Cons.prems consider "x = a" | "x \<in> set (c # rest)" by auto
    then show ?thesis
    proof cases
      case 1
      with False fold_latest_ge [of c rest] show ?thesis by simp
    next
      case 2
      with False Cons.IH [of c] show ?thesis by simp
    qed
  qed
qed

lemma latest_conversation_Some:
  "latest_conversation cs = Some c \<Longrightarrow> c \<in> set cs \<and> (\<forall>x \<in> set cs. c_end_time x \<le> c_end_time c)"
proof (cases cs)
  case Nil
  assume "latest_conversation cs = Some c"
  with Nil show ?thesis by (simp add: latest_conversation_def)
next
  case (Cons a rest)
  assume "latest_conversation cs = Some c"
  with Cons have c: "c = fold (\<lambda>d best. if c_end_time d > c_end_time best then d else best) rest a"
    by (simp add: latest_conversation_def)
  have "c \<in> set cs" unfolding c Cons by (rule fold_latest_in)
  moreover have "\<forall>x \<in> set cs. c_end_time x \<le> c_end_time c"
    unfolding c Cons by (intro ballI fold_latest_max)
  ultimately show ?thesis by blast
qed

lemma latest_conversation_None: "(latest_conversation cs = None) = (cs = [])"
  by (cases cs) (auto simp: latest_conversation_def)

lemma fetch_last_conversation_most_recent:
  "fetch_last_conversation db cid = Some l \<Longrightarrow>
   \<exists>c \<in> set (conversations db). c_chat_id c = cid \<and> c_id c = lc_id l
      \<and> c_end_time c = lc_end_time l \<and> c_message_count c = lc_message_count l
      \<and> (\<forall>x \<in> set (conversations db). c_chat_id x = cid \<longrightarrow> c_end_time x \<le> c_end_time c)"
proof -
  assume a: "fetch_last_conversation db cid = Some l"
  then obtain c where c: "latest_conversation (filter (\<lambda>c. c_chat_id c = cid) (conversations db)) = Some c"
    and l: "l = \<lparr>lc_id = c_id c, lc_end_time = c_end_time c, lc_message_count = c_message_count c\<rparr>"
    by (auto simp: fetch_last_conversation_def)
  from latest_conversation_Some [OF c] l show ?thesis by auto
qed

lemma fetch_last_conversation_None:
  "(fetch_last_conversation db cid = None) = (\<forall>c \<in> set (conversations db). c_chat_id c \<noteq> cid)"
  by (auto simp: fetch_last_conversation_def latest_conversation_None filter_empty_conv)

lemma load_step_append:
  "ls_existing_convs_by_chat st (s_chat_id conv) = Some l \<Longrightarrow>
   0 \<le> total_seconds (s_start_time conv - lc_end_time l) \<Longrightarrow>
   total_seconds (s_start_time conv - lc_end_time l) \<le> of_int (s_gap_threshold conv) \<Longrightarrow>
   load_step st conv = append_to_conversation st l conv"
  by (simp add: load_step_def can_append_def Let_def)

lemma load_step_create:
  "ls_existing_convs_by_chat st (s_chat_id conv) = None
   \<or> (\<exists>l. ls_existing_convs_by_chat st (s_chat_id conv) = Some l
         \<and> \<not> (0 \<le> total_seconds (s_start_time conv - lc_end_time l)
              \<and> total_seconds (s_start_time conv - lc_end_time l) \<le> of_int (s_gap_threshold conv))) \<Longrightarrow>
   load_step st conv = create_conversation st conv"
  by (auto simp: load_step_def can_append_def Let_def)

lemma last_conv_update:
  "l\<lparr>lc_end_time := a, lc_message_count := b\<rparr>
     = \<lparr>lc_id = lc_id l, lc_end_time = a, lc_message_count = b\<rparr>"
  by (cases l) simp

lemma load_step_counts:
  "load_step st conv = Inr st' \<Longrightarrow>
   ls_imported_count st' + ls_updated_count st' = Suc (ls_imported_count st + ls_updated_count st)"
  by (auto simp: load_step_def append_to_conversation_def create_conversation_def Let_def
      split: option.splits if_splits)

lemma load_loop_Nil: "load_loop st [] = Inr st"
  by (simp add: load_loop_def)

lemma foldl_load_Inl:
  "foldl (\<lambda>acc conv. case acc of Inl e \<Rightarrow> Inl e | Inr s \<Rightarrow> load_step s conv) (Inl e) convs = Inl e"
  by (induction convs) simp_all

lemma load_loop_Cons:
  "load_loop st (conv # rest)
     = (case load_step st conv of Inl e \<Rightarrow> Inl e | Inr s \<Rightarrow> load_loop s rest)"
  by (cases "load_step st conv") (simp_all add: load_loop_def foldl_load_Inl)

lemma load_loop_counts:
  "load_loop st convs = Inr st' \<Longrightarrow>
   ls_imported_count st' + ls_updated_count st'
     = ls_imported_count st + ls_updated_count st + length convs"
proof (induction convs arbitrary: st)
  case Nil
  then show ?case by (simp add: load_loop_Nil)
next
  case (Cons conv rest)
  from Cons.prems obtain s where s: "load_step st conv = Inr s" and r: "load_loop s rest = Inr st'"
    by (cases "load_step st conv") (simp_all add: load_loop_Cons)
  from Cons.IH [OF r] load_step_counts [OF s] show ?case by simp
qed

lemma load_step_refs:
  assumes r: "last_refs_stored st" and s: "load_step st conv = Inr st'"
  shows "last_refs_stored st'"
proof (cases "\<exists>l. ls_existing_convs_by_chat st (s_chat_id conv) = Some l \<and> can_append (Some l) conv")
  case True
  then obtain l where l: "ls_existing_convs_by_chat st (s_chat_id conv) = Some l"
    and c: "can_append (Some l) conv" by blast
  from l c s have a: "append_to_conversation st l conv = Inr st'"
    by (simp add: load_step_def Let_def)
  have f: "(\<lambda>x. c_id (if c_id x = lc_id l
                        then x\<lparr>c_end_time := s_end_time conv,
                               c_message_count := c_message_count x + s_message_count conv\<rparr>
                        else x)) = c_id"
    by (rule ext) simp
  have ids: "c_id ` set (map (\<lambda>c. if c_id c = lc_id l
                        then c\<lparr>c_end_time := s_end_time conv,
                               c_message_count := c_message_count c + s_message_count conv\<rparr>
                        else c) (conversations (ls_db st)))
             = c_id ` set (conversations (ls_db st))"
    unfolding set_map image_image f ..
  from a have c': "conversations (ls_db st')
        = map (\<lambda>c. if c_id c = lc_id l
                        then c\<lparr>c_end_time := s_end_time conv,
                               c_message_count := c_message_count c + s_message_count conv\<rparr>
                        else c) (conversations (ls_db st))"
    and e': "ls_existing_convs_by_chat st'
        = (ls_existing_convs_by_chat st)
            (s_chat_id conv \<mapsto>
              l\<lparr>lc_end_time := s_end_time conv,
                lc_message_count := lc_message_count l + s_message_count conv\<rparr>)"
    by (auto simp: append_to_conversation_def split: if_splits)
  have i': "c_id ` set (conversations (ls_db st')) = c_id ` set (conversations (ls_db st))"
    unfolding c' by (rule ids)
  from r l show ?thesis
    unfolding last_refs_stored_def i' e' by auto
next
  case False
  with s have a: "create_conversation st conv = Inr st'"
    by (auto simp: load_step_def Let_def split: option.splits if_splits)
  from a r show ?thesis
    unfolding last_refs_stored_def create_conversation_def
    by (auto simp: Let_def split: if_splits)
qed

lemma initial_refs_stored:
  "last_refs_stored \<lparr>ls_db = db, ls_existing_convs_by_chat = fetch_existing db chat_ids,
                     ls_imported_count = i, ls_updated_count = u\<rparr>"
  unfolding last_refs_stored_def
proof (intro allI impI)
  fix cid l
  assume "ls_existing_convs_by_chat
            \<lparr>ls_db = db, ls_existing_convs_by_chat = fetch_existing db chat_ids,
             ls_imported_count = i, ls_updated_count = u\<rparr> cid = Some l"
  then have "fetch_last_conversation db cid = Some l"
    by (simp add: fetch_existing_def split: if_splits)
  from fetch_last_conversation_most_recent [OF this]
  show "lc_id l \<in> c_id ` set (conversations (ls_db
            \<lparr>ls_db = db, ls_existing_convs_by_chat = fetch_existing db chat_ids,
             ls_imported_count = i, ls_updated_count = u\<rparr>))"
    by force
qed

text \<open>
  Claim C2. \<open>load_conversations\<close> first reads, for each chat of the call, its most
  recent conversation: \<open>fetch_last_conversation\<close> finds one exactly when the chat has a
  stored conversation, and the one it finds has the greatest end time of the chat. It
  then processes the segments in list order (\<open>load_loop\<close>). For the segment \<open>conv\<close> and
  the in-memory "last" conversation \<open>l\<close> of its chat: the segment is appended iff \<open>l\<close>
  exists and \<open>0 \<le> start conv - end l \<le> gap_threshold\<close>, both bounds included. Appending
  sets the end time of the conversation row \<open>lc_id l\<close> to the segment's end, adds the
  segment's message count to its counter, gives the id of the conversation to every
  message of the segment, and counts one update. Otherwise a new row is inserted with the
  segment's fields and its gap threshold, the segment's messages are attached to the new
  id, and one import is counted; the insert needs the chat of the segment among the
  chats and its initiator among the contacts, and raises \<^verbatim>\<open>IntegrityError\<close> without
  them. In both cases the "last" entry of the chat advances to the conversation just
  written, which is a stored row again. Every segment of a call that returns is either
  appended or created.
\<close>

theorem load_step_append_or_create:
  "(\<forall>l. ls_existing_convs_by_chat st (s_chat_id conv) = Some l
         \<and> 0 \<le> total_seconds (s_start_time conv - lc_end_time l)
         \<and> total_seconds (s_start_time conv - lc_end_time l) \<le> of_int (s_gap_threshold conv)
         \<and> lc_id l \<in> c_id ` set (conversations (ls_db st))
       \<longrightarrow> load_step st conv =
             Inr (st\<lparr>ls_db := (ls_db st)
                   \<lparr>conversations :=
                      map (\<lambda>c. if c_id c = lc_id l
                                then c\<lparr>c_end_time := s_end_time conv,
                                       c_message_count := c_message_count c + s_message_count conv\<rparr>
                                else c)
                          (conversations (ls_db st)),
                    messages := attach_messages (s_message_ids conv) (lc_id l)
                                  (messages (ls_db st))\<rparr>,
                ls_existing_convs_by_chat := (ls_existing_convs_by_chat st)
                   (s_chat_id conv \<mapsto>
                      \<lparr>lc_id = lc_id l, lc_end_time = s_end_time conv,
                       lc_message_count = lc_message_count l + s_message_count conv\<rparr>),
                ls_updated_count := ls_updated_count st + 1\<rparr>))
   \<and> (ls_existing_convs_by_chat st (s_chat_id conv) = None
       \<or> (\<exists>l. ls_existing_convs_by_chat st (s_chat_id conv) = Some l
             \<and> \<not> (0 \<le> total_seconds (s_start_time conv - lc_end_time l)
                  \<and> total_seconds (s_start_time conv - lc_end_time l)
                      \<le> of_int (s_gap_threshold conv)))
       \<longrightarrow> load_step st conv =
             (if s_chat_id conv \<in> ch_id ` set (chats (ls_db st))
                 \<and> (\<forall>i. s_initiator_id conv = Some i \<longrightarrow> i \<in> ct_id ` set (contacts (ls_db st)))
              then Inr (st\<lparr>ls_db := (ls_db st)
                   \<lparr>conversations := conversations (ls_db st) @
                      [\<lparr>c_id = Suc (seq_conversations (ls_db st)), c_chat_id = s_chat_id conv,
                        c_initiator_id = s_initiator_id conv,
                        c_start_time = s_start_time conv, c_end_time = s_end_time conv,
                        c_message_count = s_message_count conv,
                        c_gap_threshold = s_gap_threshold conv\<rparr>],
                    seq_conversations := Suc (seq_conversations (ls_db st)),
                    messages := attach_messages (s_message_ids conv)
                                  (Suc (seq_conversations (ls_db st))) (messages (ls_db st))\<rparr>,
                ls_existing_convs_by_chat := (ls_existing_convs_by_chat st)
                   (s_chat_id conv \<mapsto>
                      \<lparr>lc_id = Suc (seq_conversations (ls_db st)), lc_end_time = s_end_time conv,
                       lc_message_count = s_message_count conv\<rparr>),
                ls_imported_count := ls_imported_count st + 1\<rparr>)
              else Inl IntegrityError))
   \<and> (\<forall>m \<in> set (attach_messages ids k rows).
         (msg_id m \<in> set ids \<longrightarrow> msg_conversation_id m = Some k)
         \<and> (msg_id m \<notin> set ids \<longrightarrow> m \<in> set rows))
   \<and> map msg_id (attach_messages ids k rows) = map msg_id rows
   \<and> (fetch_last_conversation db cid = None)
       = (\<forall>c \<in> set (conversations db). c_chat_id c \<noteq> cid)
   \<and> (\<forall>l. fetch_last_conversation db cid = Some l \<longrightarrow>
         (\<exists>c \<in> set (conversations db). c_chat_id c = cid \<and> c_id c = lc_id l
            \<and> c_end_time c = lc_end_time l \<and> c_message_count c = lc_message_count l
            \<and> (\<forall>x \<in> set (conversations db). c_chat_id x = cid \<longrightarrow> c_end_time x \<le> c_end_time c)))
   \<and> fetch_existing db chat_ids cid
       = (if cid \<in> set chat_ids then fetch_last_conversation db cid else None)
   \<and> (convs \<noteq> [] \<longrightarrow>
        load_conversations convs chat_id db
          = (case load_loop
                    \<lparr>ls_db = db,
                     ls_existing_convs_by_chat =
                       fetch_existing db
                         (if chat_id = None \<or> chat_id = Some 0 then remdups (map s_chat_id convs)
                          else [the chat_id]),
                     ls_imported_count = 0, ls_updated_count = 0\<rparr> convs of
               Inl e \<Rightarrow> (Inl e, db)
             | Inr st' \<Rightarrow> (Inr (ls_imported_count st', ls_updated_count st'), ls_db st')))
   \<and> load_loop st [] = Inr st
   \<and> load_loop st (conv # rest)
       = (case load_step st conv of Inl e \<Rightarrow> Inl e | Inr s \<Rightarrow> load_loop s rest)
   \<and> (\<forall>st'. load_loop st convs = Inr st' \<longrightarrow>
         ls_imported_count st' + ls_updated_count st'
           = ls_imported_count st + ls_updated_count st + length convs)
   \<and> last_refs_stored \<lparr>ls_db = db, ls_existing_convs_by_chat = fetch_existing db chat_ids,
                        ls_imported_count = 0, ls_updated_count = 0\<rparr>
   \<and> (\<forall>st'. last_refs_stored st \<and> load_step st conv = Inr st' \<longrightarrow> last_refs_stored st')
   \<and> last_refs_stored st
       = (\<forall>c l. ls_existing_convs_by_chat st c = Some l
                \<longrightarrow> lc_id l \<in> c_id ` set (conversations (ls_db st)))"
proof (intro conjI allI impI ballI)
  fix l
  assume a: "ls_existing_convs_by_chat st (s_chat_id conv) = Some l
         \<and> 0 \<le> total_seconds (s_start_time conv - lc_end_time l)
         \<and> total_seconds (s_start_time conv - lc_end_time l) \<le> of_int (s_gap_threshold conv)
         \<and> lc_id l \<in> c_id ` set (conversations (ls_db st))"
  then have e: "load_step st conv = append_to_conversation st l conv"
    using load_step_append [of st conv l] by blast
  from a show "load_step st conv =
             Inr (st\<lparr>ls_db := (ls_db st)
                   \<lparr>conversations :=
                      map (\<lambda>c. if c_id c = lc_id l
                                then c\<lparr>c_end_time := s_end_time conv,
                                       c_message_count := c_message_count c + s_message_count conv\<rparr>
                                else c)
                          (conversations (ls_db st)),
                    messages := attach_messages (s_message_ids conv) (lc_id l)
                                  (messages (ls_db st))\<rparr>,
                ls_existing_convs_by_chat := (ls_existing_convs_by_chat st)
                   (s_chat_id conv \<mapsto>
                      \<lparr>lc_id = lc_id l, lc_end_time = s_end_time conv,
                       lc_message_count = lc_message_count l + s_message_count conv\<rparr>),
                ls_updated_count := ls_updated_count st + 1\<rparr>)"
    unfolding e by (simp add: append_to_conversation_def last_conv_update)
next
  assume a: "ls_existing_convs_by_chat st (s_chat_id conv) = None
       \<or> (\<exists>l. ls_existing_convs_by_chat st (s_chat_id conv) = Some l
             \<and> \<not> (0 \<le> total_seconds (s_start_time conv - lc_end_time l)
                  \<and> total_seconds (s_start_time conv - lc_end_time l)
                      \<le> of_int (s_gap_threshold conv)))"
  note e = load_step_create [OF a]
  show "load_step st conv =
             (if s_chat_id conv \<in> ch_id ` set (chats (ls_db st))
                 \<and> (\<forall>i. s_initiator_id conv = Some i \<longrightarrow> i \<in> ct_id ` set (contacts (ls_db st)))
              then Inr (st\<lparr>ls_db := (ls_db st)
                   \<lparr>conversations := conversations (ls_db st) @
                      [\<lparr>c_id = Suc (seq_conversations (ls_db st)), c_chat_id = s_chat_id conv,
                        c_initiator_id = s_initiator_id conv,
                        c_start_time = s_start_time conv, c_end_time = s_end_time conv,
                        c_message_count = s_message_count conv,
                        c_gap_threshold = s_gap_threshold conv\<rparr>],
                    seq_conversations := Suc (seq_conversations (ls_db st)),
                    messages := attach_messages (s_message_ids conv)
                                  (Suc (seq_conversations (ls_db st))) (messages (ls_db st))\<rparr>,
                ls_existing_convs_by_chat := (ls_existing_convs_by_chat st)
                   (s_chat_id conv \<mapsto>
                      \<lparr>lc_id = Suc (seq_conversations (ls_db st)), lc_end_time = s_end_time conv,
                       lc_message_count = s_message_count conv\<rparr>),
                ls_imported_count := ls_imported_count st + 1\<rparr>)
              else Inl IntegrityError)"
    unfolding e by (cases "s_initiator_id conv") (simp_all add: create_conversation_def Let_def)
next
  fix m assume "m \<in> set (attach_messages ids k rows)" "msg_id m \<in> set ids"
  then show "msg_conversation_id m = Some k" by (rule attach_messages_attached)
next
  fix m assume "m \<in> set (attach_messages ids k rows)" "msg_id m \<notin> set ids"
  then show "m \<in> set rows" by (rule attach_messages_others)
next
  show "map msg_id (attach_messages ids k rows) = map msg_id rows"
    by (rule attach_messages_ids)
next
  show "(fetch_last_conversation db cid = None)
       = (\<forall>c \<in> set (conversations db). c_chat_id c \<noteq> cid)"
    by (rule fetch_last_conversation_None)
next
  fix l assume "fetch_last_conversation db cid = Some l"
  then show "\<exists>c \<in> set (conversations db). c_chat_id c = cid \<and> c_id c = lc_id l
            \<and> c_end_time c = lc_end_time l \<and> c_message_count c = lc_message_count l
            \<and> (\<forall>x \<in> set (conversations db). c_chat_id x = cid \<longrightarrow> c_end_time x \<le> c_end_time c)"
    by (rule fetch_last_conversation_most_recent)
next
  show "fetch_existing db chat_ids cid
       = (if cid \<in> set chat_ids then fetch_last_conversation db cid else None)"
    by (simp add: fetch_existing_def)
next
  assume ne: "convs \<noteq> []"
  have i: "(case chat_id of None \<Rightarrow> remdups (map s_chat_id convs)
            | Some c \<Rightarrow> if c \<noteq> 0 then [c] else remdups (map s_chat_id convs))
           = (if chat_id = None \<or> chat_id = Some 0 then remdups (map s_chat_id convs)
              else [the chat_id])"
    by (cases chat_id) simp_all
  show "load_conversations convs chat_id db
          = (case load_loop
                    \<lparr>ls_db = db,
                     ls_existing_convs_by_chat =
                       fetch_existing db
                         (if chat_id = None \<or> chat_id = Some 0 then remdups (map s_chat_id convs)
                          else [the chat_id]),
                     ls_imported_count = 0, ls_updated_count = 0\<rparr> convs of
               Inl e \<Rightarrow> (Inl e, db)
             | Inr st' \<Rightarrow> (Inr (ls_imported_count st', ls_updated_count st'), ls_db st'))"
    using ne unfolding load_conversations_def Let_def i by simp
next
  show "load_loop st [] = Inr st" by (rule load_loop_Nil)
next
  show "load_loop st (conv # rest)
       = (case load_step st conv of Inl e \<Rightarrow> Inl e | Inr s \<Rightarrow> load_loop s rest)"
    by (rule load_loop_Cons)
next
  fix st' assume "load_loop st convs = Inr st'"
  then show "ls_imported_count st' + ls_updated_count st'
           = ls_imported_count st + ls_updated_count st + length convs"
    by (rule load_loop_counts)
next
  show "last_refs_stored \<lparr>ls_db = db, ls_existing_convs_by_chat = fetch_existing db chat_ids,
                        ls_imported_count = 0, ls_updated_count = 0\<rparr>"
    by (rule initial_refs_stored)
next
  fix st' assume "last_refs_stored st \<and> load_step st conv = Inr st'"
  then show "last_refs_stored st'" using load_step_refs by blast
next
  show "last_refs_stored st
       = (\<forall>c l. ls_existing_convs_by_chat st c = Some l
                \<longrightarrow> lc_id l \<in> c_id ` set (conversations (ls_db st)))"
    by (simp add: last_refs_stored_def)
qed

lemma scenario_fetch: "fetch_last_conversation scenario_store 1 = Some scenario_last"
  by (simp add: fetch_last_conversation_def latest_conversation_def scenario_store_def
      scenario_last_def)

theorem load_step_append_or_create_witness:
  "fetch_last_conversation scenario_store 1 = Some scenario_last
   \<and> ls_existing_convs_by_chat scenario_state (s_chat_id scenario_segment) = Some scenario_last
   \<and> 0 \<le> total_seconds (s_start_time scenario_segment - lc_end_time scenario_last)
   \<and> total_seconds (s_start_time scenario_segment - lc_end_time scenario_last)
       \<le> of_int (s_gap_threshold scenario_segment)
   \<and> lc_id scenario_last \<in> c_id ` set (conversations (ls_db scenario_state))
   \<and> load_conversations [scenario_segment] None scenario_store
       = (Inr (0, 1),
          scenario_store
            \<lparr>conversations := [\<lparr>c_id = 2, c_chat_id = 1, c_initiator_id = Some 7,
                                 c_start_time = 12000, c_end_time = 12500, c_message_count = 2,
                                 c_gap_threshold = 10800\<rparr>],
             messages := map (\<lambda>m. m\<lparr>msg_conversation_id := Some 2\<rparr>) (messages scenario_store)\<rparr>)"
proof -
  note t = load_step_append_or_create [of scenario_state scenario_segment _ _ _ scenario_store _ _
              "[scenario_segment]" None "[]"]
  have s: "scenario_state = \<lparr>ls_db = scenario_store,
                     ls_existing_convs_by_chat =
                       fetch_existing scenario_store
                         (if (None :: nat option) = None \<or> (None :: nat option) = Some 0
                          then remdups (map s_chat_id [scenario_segment])
                          else [the None]),
                     ls_imported_count = 0, ls_updated_count = 0\<rparr>"
    by (simp add: scenario_state_def scenario_segment_def)
  have h: "ls_existing_convs_by_chat scenario_state (s_chat_id scenario_segment)
             = Some scenario_last
   \<and> 0 \<le> total_seconds (s_start_time scenario_segment - lc_end_time scenario_last)
   \<and> total_seconds (s_start_time scenario_segment - lc_end_time scenario_last)
       \<le> of_int (s_gap_threshold scenario_segment)
   \<and> lc_id scenario_last \<in> c_id ` set (conversations (ls_db scenario_state))"
  proof -
    have 1: "ls_existing_convs_by_chat scenario_state (s_chat_id scenario_segment)
              = fetch_last_conversation scenario_store 1"
      by (simp add: scenario_state_def scenario_segment_def fetch_existing_def)
    have 2: "0 \<le> total_seconds (s_start_time scenario_segment - lc_end_time scenario_last)
        \<and> total_seconds (s_start_time scenario_segment - lc_end_time scenario_last)
            \<le> of_int (s_gap_threshold scenario_segment)"
      by (simp add: total_seconds_def scenario_segment_def scenario_last_def)
    have 3: "lc_id scenario_last \<in> c_id ` set (conversations (ls_db scenario_state))"
      by (simp add: scenario_state_def scenario_last_def scenario_store_def)
    from 1 2 3 show ?thesis by (simp only: scenario_fetch)
  qed
  from t h have step: "load_step scenario_state scenario_segment =
             Inr (scenario_state\<lparr>ls_db := (ls_db scenario_state)
                   \<lparr>conversations :=
                      map (\<lambda>c. if c_id c = lc_id scenario_last
                                then c\<lparr>c_end_time := s_end_time scenario_segment,
                                       c_message_count := c_message_count c
                                                           + s_message_count scenario_segment\<rparr>
                                else c)
                          (conversations (ls_db scenario_state)),
                    messages := attach_messages (s_message_ids scenario_segment)
                                  (lc_id scenario_last) (messages (ls_db scenario_state))\<rparr>,
                ls_existing_convs_by_chat := (ls_existing_convs_by_chat scenario_state)
                   (s_chat_id scenario_segment \<mapsto>
                      \<lparr>lc_id = lc_id scenario_last, lc_end_time = s_end_time scenario_segment,
                       lc_message_count = lc_message_count scenario_last
                                           + s_message_count scenario_segment\<rparr>),
                ls_updated_count := ls_updated_count scenario_state + 1\<rparr>)"
    by blast
  from t have a1: "load_conversations [scenario_segment] None scenario_store
          = (case load_loop scenario_state [scenario_segment] of
               Inl e \<Rightarrow> (Inl e, scenario_store)
             | Inr st' \<Rightarrow> (Inr (ls_imported_count st', ls_updated_count st'), ls_db st'))"
    unfolding s [symmetric] by blast
  from t have a2: "load_loop scenario_state [scenario_segment]
        = (case load_step scenario_state scenario_segment of
             Inl e \<Rightarrow> Inl e | Inr s \<Rightarrow> load_loop s [])" by blast
  have r: "load_conversations [scenario_segment] None scenario_store
          = (case load_step scenario_state scenario_segment of
               Inl e \<Rightarrow> (Inl e, scenario_store)
             | Inr st' \<Rightarrow> (Inr (ls_imported_count st', ls_updated_count st'), ls_db st'))"
    unfolding a1 a2 by (simp add: load_loop_Nil split: sum.splits)
  have v: "load_conversations [scenario_segment] None scenario_store
       = (Inr (0, 1),
          scenario_store
            \<lparr>conversations := [\<lparr>c_id = 2, c_chat_id = 1, c_initiator_id = Some 7,
                                 c_start_time = 12000, c_end_time = 12500, c_message_count = 2,
                                 c_gap_threshold = 10800\<rparr>],
             messages := map (\<lambda>m. m\<lparr>msg_conversation_id := Some 2\<rparr>) (messages scenario_store)\<rparr>)"
    unfolding r step
    by (simp add: scenario_state_def scenario_segment_def scenario_last_def
        scenario_store_def attach_messages_def)
  from scenario_fetch h v show ?thesis by (simp only:)
qed

subsection \<open>Backup reconciliation\<close>





lemma detach_id: "msg_id (detach doomed m) = msg_id m"
  by (simp add: detach_def split: option.splits)

lemma detach_sender: "msg_sender_id (detach doomed m) = msg_sender_id m"
  by (simp add: detach_def split: option.splits)

lemma detach_attach: "(detach doomed m)\<lparr>msg_conversation_id := Some k\<rparr> = m\<lparr>msg_conversation_id := Some k\<rparr>"
  by (simp add: detach_def split: option.splits)

lemma sort_eq_Nil: "(sort xs = []) = (xs = [])"
  by (metis length_0_conv length_sort)

lemma find_detach:
  "find (\<lambda>m. msg_id m = i) (map (detach doomed) ms)
     = map_option (detach doomed) (find (\<lambda>m. msg_id m = i) ms)"
  by (induction ms) (simp_all add: detach_id)

lemma select_sender_detach:
  "select_sender (map (detach doomed) ms) ids = select_sender ms ids"
  by (cases ids) (simp_all add: select_sender_def find_detach detach_sender split: option.splits)

lemma replace_step_replace:
  assumes nre: "\<not> reuses cmap blk"
  shows "replace_step chat_id g cmap db blk =
     (if chat_id \<in> ch_id ` set (chats db)
         \<and> (\<forall>i. select_sender (messages db) (sort (map m_id (b_messages blk))) = Some i
                  \<longrightarrow> i \<in> ct_id ` set (contacts db))
      then Inr (db\<lparr>conversations :=
          filter (\<lambda>c. \<not> overlaps chat_id (b_start_time blk) (b_end_time blk) c) (conversations db)
          @ [\<lparr>c_id = Suc (seq_conversations db), c_chat_id = chat_id,
               c_initiator_id = select_sender (messages db) (sort (map m_id (b_messages blk))),
               c_start_time = b_start_time blk, c_end_time = b_end_time blk,
               c_message_count = length (b_messages blk), c_gap_threshold = g\<rparr>],
        seq_conversations := Suc (seq_conversations db),
        messages :=
          map (\<lambda>m. if msg_id m \<in> m_id ` set (b_messages blk)
                    then m\<lparr>msg_conversation_id := Some (Suc (seq_conversations db))\<rparr>
                    else detach (map c_id (filter (overlaps chat_id (b_start_time blk)
                                   (b_end_time blk)) (conversations db))) m)
              (messages db)\<rparr>)
      else Inl IntegrityError)"
proof -
  let ?ids = "sort (map m_id (b_messages blk))"
  let ?doomed = "map c_id (filter (overlaps chat_id (b_start_time blk) (b_end_time blk)) (conversations db))"
  let ?init = "select_sender (messages db) ?ids"
  from nre have n: "\<not> (case find_reusable cmap ?ids of None \<Rightarrow> False | Some r \<Rightarrow> r \<noteq> 0)"
    by (simp add: reuses_def)
  have m: "(if ?ids \<noteq> [] then attach_messages ?ids (Suc (seq_conversations db)) (map (detach ?doomed) (messages db))
            else map (detach ?doomed) (messages db))
         = map (\<lambda>m. if msg_id m \<in> m_id ` set (b_messages blk)
                    then m\<lparr>msg_conversation_id := Some (Suc (seq_conversations db))\<rparr>
                    else detach ?doomed m) (messages db)"
    by (auto simp: attach_messages_def detach_id detach_attach sort_eq_Nil)
  have fk: "(case ?init of None \<Rightarrow> False | Some i \<Rightarrow> i \<notin> ct_id ` set (contacts db))
            = (\<not> (\<forall>i. ?init = Some i \<longrightarrow> i \<in> ct_id ` set (contacts db)))"
    by (cases ?init) simp_all
  have e: "replace_step chat_id g cmap db blk =
     (if chat_id \<notin> ch_id ` set (chats db)
         \<or> (case ?init of None \<Rightarrow> False | Some i \<Rightarrow> i \<notin> ct_id ` set (contacts db))
      then Inl IntegrityError
      else Inr (db\<lparr>conversations :=
          filter (\<lambda>c. \<not> overlaps chat_id (b_start_time blk) (b_end_time blk) c) (conversations db)
          @ [\<lparr>c_id = Suc (seq_conversations db), c_chat_id = chat_id, c_initiator_id = ?init,
               c_start_time = b_start_time blk, c_end_time = b_end_time blk,
               c_message_count = length (b_messages blk), c_gap_threshold = g\<rparr>],
        seq_conversations := Suc (seq_conversations db),
        messages := (if ?ids \<noteq> [] then attach_messages ?ids (Suc (seq_conversations db))
                                          (map (detach ?doomed) (messages db))
            else map (detach ?doomed) (messages db))\<rparr>))"
    using n by (simp add: replace_step_def Let_def select_sender_detach
        split del: if_split cong: if_cong)
  show ?thesis
  proof (cases "chat_id \<in> ch_id ` set (chats db)
         \<and> (\<forall>i. ?init = Some i \<longrightarrow> i \<in> ct_id ` set (contacts db))")
    case True
    then show ?thesis unfolding e m fk by simp
  next
    case False
    then show ?thesis unfolding e m fk by auto
  qed
qed











lemma senderless_select:
  assumes ns: "\<forall>m \<in> set (b_messages blk). m_sender_id m = None"
    and ag: "\<forall>m \<in> set (b_messages blk). \<forall>r \<in> set (messages db).
              msg_id r = m_id m \<longrightarrow> msg_sender_id r = m_sender_id m"
  shows "select_sender (messages db) (sort (map m_id (b_messages blk))) = None"
proof (cases "sort (map m_id (b_messages blk))")
  case Nil
  then show ?thesis by (simp add: select_sender_def)
next
  case (Cons i rest)
  then have "i \<in> set (sort (map m_id (b_messages blk)))" by simp
  then obtain m where m: "m \<in> set (b_messages blk)" "m_id m = i" by auto
  show ?thesis
  proof (cases "find (\<lambda>r. msg_id r = i) (messages db)")
    case None
    with Cons show ?thesis by (simp add: select_sender_def)
  next
    case (Some r)
    from find_in_set [OF Some] have "r \<in> set (messages db)" "msg_id r = i" by blast+
    with m ag ns have "msg_sender_id r = None" by metis
    with Cons Some show ?thesis by (simp add: select_sender_def)
  qed
qed

text \<open>
  Claim C1, as the specification states it, has the reconciliation paths discard every
  segment without a sender-bearing message. \<open>transform_conversations\<close>, on the live
  path, does. The fresh-split path hands the blocks of the split to
  \<open>replace_or_reuse_intervals\<close> as they are: a chat whose only message has no sender
  gives one block, and the backup reconciliation inserts a conversation for it, with a
  NULL initiator.
\<close>

theorem senderless_segment_counterexample:
  "split_into_conversations senderless_msgs 10800 = [senderless_block]
   \<and> has_sender senderless_block = False
   \<and> transform_conversations (split_into_conversations senderless_msgs 10800) 10800 = []
   \<and> replace_or_reuse_intervals 1 (split_into_conversations senderless_msgs 10800) 10800
        senderless_store
       = Inr (senderless_store
               \<lparr>conversations := [\<lparr>c_id = 1, c_chat_id = 1, c_initiator_id = None,
                                    c_start_time = 0, c_end_time = 0, c_message_count = 1,
                                    c_gap_threshold = 10800\<rparr>],
                seq_conversations := 1,
                messages := map (\<lambda>m. m\<lparr>msg_conversation_id := Some 1\<rparr>)
                              (messages senderless_store)\<rparr>)"
  by (simp add: split_into_conversations_def has_sender_def List.map_filter_simps
      replace_or_reuse_intervals_def replace_loop_def replace_step_def conv_msg_map_def
      find_reusable_def overlaps_def attach_messages_def select_sender_def detach_def
      senderless_store_def senderless_msgs_def senderless_block_def Let_def)

text \<open>
  Claim C1, amended. For every list of messages and every gap threshold \<open>g\<close>, the
  segments of \<open>split_into_conversations\<close> laid end to end are the list itself, so the
  first message begins the first segment and the last message ends the last one (the
  open segment is flushed); every segment has a message, and its start and end are the
  timestamps of its first and last message; two consecutive messages lie in different
  segments iff the gap between their timestamps in seconds strictly exceeds \<open>g\<close>. On the
  live path, \<open>transform_conversations\<close> keeps exactly the segments that have a message
  with a non-null sender id, in order, and drops the others. The fresh-split path has no
  such discard: for a block that is not reused, whose messages have the senders the store
  has for them and none of them a sender, \<open>replace_step\<close> inserts a conversation with
  the block's interval and count and a NULL initiator, provided the chat is a row of
  \<^verbatim>\<open>chats\<close>. The list need not even be sorted.
\<close>

theorem split_segments_and_live_discard:
  "concat (map b_messages (split_into_conversations ms g)) = ms
   \<and> (ms \<noteq> [] \<longrightarrow>
        split_into_conversations ms g \<noteq> []
        \<and> hd (b_messages (hd (split_into_conversations ms g))) = hd ms
        \<and> last (b_messages (last (split_into_conversations ms g))) = last ms)
   \<and> (\<forall>b \<in> set (split_into_conversations ms g).
        b_messages b \<noteq> []
        \<and> b_start_time b = m_timestamp (hd (b_messages b))
        \<and> b_end_time b = m_timestamp (last (b_messages b)))
   \<and> (\<forall>i. Suc i < length ms \<longrightarrow>
        (segment_index (map b_messages (split_into_conversations ms g)) (Suc i)
           \<noteq> segment_index (map b_messages (split_into_conversations ms g)) i)
        = exceeds_gap g (ms ! i) (ms ! Suc i))
   \<and> map s_message_ids (transform_conversations (split_into_conversations ms g) g)
       = map (\<lambda>b. map m_id (b_messages b)) (filter has_sender (split_into_conversations ms g))
   \<and> (\<forall>b. has_sender b = (\<exists>m \<in> set (b_messages b). m_sender_id m \<noteq> None))
   \<and> (\<not> reuses cmap blk \<and> \<not> has_sender blk \<and> chat_id \<in> ch_id ` set (chats db)
        \<and> (\<forall>m \<in> set (b_messages blk). \<forall>r \<in> set (messages db).
              msg_id r = m_id m \<longrightarrow> msg_sender_id r = m_sender_id m)
      \<longrightarrow> replace_step chat_id g cmap db blk =
            Inr (db\<lparr>conversations :=
                filter (\<lambda>c. \<not> overlaps chat_id (b_start_time blk) (b_end_time blk) c)
                  (conversations db)
                @ [\<lparr>c_id = Suc (seq_conversations db), c_chat_id = chat_id,
                     c_initiator_id = None,
                     c_start_time = b_start_time blk, c_end_time = b_end_time blk,
                     c_message_count = length (b_messages blk), c_gap_threshold = g\<rparr>],
              seq_conversations := Suc (seq_conversations db),
              messages :=
                map (\<lambda>m. if msg_id m \<in> m_id ` set (b_messages blk)
                          then m\<lparr>msg_conversation_id := Some (Suc (seq_conversations db))\<rparr>
                          else detach (map c_id (filter (overlaps chat_id (b_start_time blk)
                                         (b_end_time blk)) (conversations db))) m)
                    (messages db)\<rparr>))"
proof -
  let ?segs = "split_into_conversations ms g"
  note p = split_into_conversations_props [of ms g]
  from p have c: "concat (map b_messages ?segs) = ms" by blast
  from p have w: "\<forall>b \<in> set ?segs. wf_block g b" by blast
  from p have gb: "gaps_between g (map b_messages ?segs)" by blast
  have ends: "ms \<noteq> [] \<longrightarrow> ?segs \<noteq> [] \<and> hd (b_messages (hd ?segs)) = hd ms
                \<and> last (b_messages (last ?segs)) = last ms"
  proof
    assume ne: "ms \<noteq> []"
    with c have s: "?segs \<noteq> []" by auto
    then have m: "map b_messages ?segs \<noteq> []" by simp
    from s w have "wf_block g (hd ?segs)" "wf_block g (last ?segs)" by simp_all
    then have h: "hd (map b_messages ?segs) \<noteq> []" and l: "last (map b_messages ?segs) \<noteq> []"
      using s by (simp_all add: wf_block_def hd_map last_map)
    from hd_concat_nonempty [OF m h] last_concat_nonempty [OF m l] c s
    show "?segs \<noteq> [] \<and> hd (b_messages (hd ?segs)) = hd ms
          \<and> last (b_messages (last ?segs)) = last ms"
      by (simp add: hd_map last_map)
  qed
  have blocks: "\<forall>b \<in> set ?segs. b_messages b \<noteq> []
        \<and> b_start_time b = m_timestamp (hd (b_messages b))
        \<and> b_end_time b = m_timestamp (last (b_messages b))"
    using w by (simp add: wf_block_def)
  have idx: "\<forall>i. Suc i < length ms \<longrightarrow>
        (segment_index (map b_messages ?segs) (Suc i) \<noteq> segment_index (map b_messages ?segs) i)
        = exceeds_gap g (ms ! i) (ms ! Suc i)"
  proof (intro allI impI)
    fix i assume i: "Suc i < length ms"
    have a: "\<forall>xs \<in> set (map b_messages ?segs). xs \<noteq> [] \<and> within_gap g xs"
      using w by (auto simp: wf_block_def)
    from i c have i': "Suc i < length (concat (map b_messages ?segs))" by simp
    from segment_index_iff [OF a gb i'] c
    show "(segment_index (map b_messages ?segs) (Suc i) \<noteq> segment_index (map b_messages ?segs) i)
        = exceeds_gap g (ms ! i) (ms ! Suc i)" by simp
  qed
  have hs: "\<forall>b. has_sender b = (\<exists>m \<in> set (b_messages b). m_sender_id m \<noteq> None)"
    by (simp add: has_sender_def map_filter_sender_exists)
  have fresh: "\<not> reuses cmap blk \<and> \<not> has_sender blk \<and> chat_id \<in> ch_id ` set (chats db)
        \<and> (\<forall>m \<in> set (b_messages blk). \<forall>r \<in> set (messages db).
              msg_id r = m_id m \<longrightarrow> msg_sender_id r = m_sender_id m)
      \<longrightarrow> replace_step chat_id g cmap db blk =
            Inr (db\<lparr>conversations :=
                filter (\<lambda>c. \<not> overlaps chat_id (b_start_time blk) (b_end_time blk) c)
                  (conversations db)
                @ [\<lparr>c_id = Suc (seq_conversations db), c_chat_id = chat_id,
                     c_initiator_id = None,
                     c_start_time = b_start_time blk, c_end_time = b_end_time blk,
                     c_message_count = length (b_messages blk), c_gap_threshold = g\<rparr>],
              seq_conversations := Suc (seq_conversations db),
              messages :=
                map (\<lambda>m. if msg_id m \<in> m_id ` set (b_messages blk)
                          then m\<lparr>msg_conversation_id := Some (Suc (seq_conversations db))\<rparr>
                          else detach (map c_id (filter (overlaps chat_id (b_start_time blk)
                                         (b_end_time blk)) (conversations db))) m)
                    (messages db)\<rparr>)"
  proof
    assume a: "\<not> reuses cmap blk \<and> \<not> has_sender blk \<and> chat_id \<in> ch_id ` set (chats db)
        \<and> (\<forall>m \<in> set (b_messages blk). \<forall>r \<in> set (messages db).
              msg_id r = m_id m \<longrightarrow> msg_sender_id r = m_sender_id m)"
    then have nre: "\<not> reuses cmap blk" and ch: "chat_id \<in> ch_id ` set (chats db)" by blast+
    from a hs have ns: "\<forall>m \<in> set (b_messages blk). m_sender_id m = None" by blast
    from a have ag: "\<forall>m \<in> set (b_messages blk). \<forall>r \<in> set (messages db).
              msg_id r = m_id m \<longrightarrow> msg_sender_id r = m_sender_id m" by blast
    have sel: "select_sender (messages db) (sort (map m_id (b_messages blk))) = None"
      by (rule senderless_select [OF ns ag])
    show "replace_step chat_id g cmap db blk =
            Inr (db\<lparr>conversations :=
                filter (\<lambda>c. \<not> overlaps chat_id (b_start_time blk) (b_end_time blk) c)
                  (conversations db)
                @ [\<lparr>c_id = Suc (seq_conversations db), c_chat_id = chat_id,
                     c_initiator_id = None,
                     c_start_time = b_start_time blk, c_end_time = b_end_time blk,
                     c_message_count = length (b_messages blk), c_gap_threshold = g\<rparr>],
              seq_conversations := Suc (seq_conversations db),
              messages :=
                map (\<lambda>m. if msg_id m \<in> m_id ` set (b_messages blk)
                          then m\<lparr>msg_conversation_id := Some (Suc (seq_conversations db))\<rparr>
                          else detach (map c_id (filter (overlaps chat_id (b_start_time blk)
                                         (b_end_time blk)) (conversations db))) m)
                    (messages db)\<rparr>)"
      unfolding replace_step_replace [OF nre] sel using ch by simp
  qed
  from c ends blocks idx transform_conversations_filter [of ?segs g] hs fresh
  show ?thesis by (intro conjI)
qed

lemma split_example:
  "split_into_conversations
     [\<lparr>m_id = 1, m_chat_id = 1, m_sender_id = Some 7, m_timestamp = 0\<rparr>,
      \<lparr>m_id = 2, m_chat_id = 1, m_sender_id = None, m_timestamp = 60\<rparr>,
      \<lparr>m_id = 3, m_chat_id = 1, m_sender_id = Some 7, m_timestamp = 600\<rparr>,
      \<lparr>m_id = 4, m_chat_id = 1, m_sender_id = None, m_timestamp = 12000\<rparr>] 10800
   = [\<lparr>b_messages = [\<lparr>m_id = 1, m_chat_id = 1, m_sender_id = Some 7, m_timestamp = 0\<rparr>,
         \<lparr>m_id = 2, m_chat_id = 1, m_sender_id = None, m_timestamp = 60\<rparr>,
         \<lparr>m_id = 3, m_chat_id = 1, m_sender_id = Some 7, m_timestamp = 600\<rparr>],
        b_start_time = 0, b_end_time = 600, b_chat_id = 1\<rparr>,
      \<lparr>b_messages = [\<lparr>m_id = 4, m_chat_id = 1, m_sender_id = None, m_timestamp = 12000\<rparr>],
        b_start_time = 12000, b_end_time = 12000, b_chat_id = 1\<rparr>]"
  by (simp add: split_into_conversations_def total_seconds_def Let_def)

theorem split_segments_and_live_discard_witness:
  "Suc 2 < length
     [\<lparr>m_id = 1, m_chat_id = 1, m_sender_id = Some 7, m_timestamp = 0\<rparr>,
      \<lparr>m_id = 2, m_chat_id = 1, m_sender_id = None, m_timestamp = 60\<rparr>,
      \<lparr>m_id = 3, m_chat_id = 1, m_sender_id = Some 7, m_timestamp = 600\<rparr>,
      \<lparr>m_id = 4, m_chat_id = 1, m_sender_id = None, m_timestamp = 12000\<rparr>]
   \<and> exceeds_gap 10800 \<lparr>m_id = 3, m_chat_id = 1, m_sender_id = Some 7, m_timestamp = 600\<rparr>
        \<lparr>m_id = 4, m_chat_id = 1, m_sender_id = None, m_timestamp = 12000\<rparr>
   \<and> segment_index (map b_messages (split_into_conversations
        [\<lparr>m_id = 1, m_chat_id = 1, m_sender_id = Some 7, m_timestamp = 0\<rparr>,
      \<lparr>m_id = 2, m_chat_id = 1, m_sender_id = None, m_timestamp = 60\<rparr>,
      \<lparr>m_id = 3, m_chat_id = 1, m_sender_id = Some 7, m_timestamp = 600\<rparr>,
      \<lparr>m_id = 4, m_chat_id = 1, m_sender_id = None, m_timestamp = 12000\<rparr>] 10800)) 3 = 1
   \<and> segment_index (map b_messages (split_into_conversations
        [\<lparr>m_id = 1, m_chat_id = 1, m_sender_id = Some 7, m_timestamp = 0\<rparr>,
      \<lparr>m_id = 2, m_chat_id = 1, m_sender_id = None, m_timestamp = 60\<rparr>,
      \<lparr>m_id = 3, m_chat_id = 1, m_sender_id = Some 7, m_timestamp = 600\<rparr>,
      \<lparr>m_id = 4, m_chat_id = 1, m_sender_id = None, m_timestamp = 12000\<rparr>] 10800)) 2 = 0
   \<and> map s_message_ids (transform_conversations (split_into_conversations
        [\<lparr>m_id = 1, m_chat_id = 1, m_sender_id = Some 7, m_timestamp = 0\<rparr>,
      \<lparr>m_id = 2, m_chat_id = 1, m_sender_id = None, m_timestamp = 60\<rparr>,
      \<lparr>m_id = 3, m_chat_id = 1, m_sender_id = Some 7, m_timestamp = 600\<rparr>,
      \<lparr>m_id = 4, m_chat_id = 1, m_sender_id = None, m_timestamp = 12000\<rparr>] 10800) 10800) = [[1, 2, 3]]
   \<and> reuses [] senderless_block = False
   \<and> has_sender senderless_block = False
   \<and> replace_step 1 10800 [] senderless_store senderless_block
       = Inr (senderless_store
               \<lparr>conversations := [\<lparr>c_id = 1, c_chat_id = 1, c_initiator_id = None,
                                    c_start_time = 0, c_end_time = 0, c_message_count = 1,
                                    c_gap_threshold = 10800\<rparr>],
                seq_conversations := 1,
                messages := map (\<lambda>m. m\<lparr>msg_conversation_id := Some 1\<rparr>)
                              (messages senderless_store)\<rparr>)"
proof -
  note inst = split_segments_and_live_discard [of "[\<lparr>m_id = 1, m_chat_id = 1, m_sender_id = Some 7, m_timestamp = 0\<rparr>,
      \<lparr>m_id = 2, m_chat_id = 1, m_sender_id = None, m_timestamp = 60\<rparr>,
      \<lparr>m_id = 3, m_chat_id = 1, m_sender_id = Some 7, m_timestamp = 600\<rparr>,
      \<lparr>m_id = 4, m_chat_id = 1, m_sender_id = None, m_timestamp = 12000\<rparr>]" 10800
      "[]" senderless_block 1 senderless_store]
  have h: "Suc 2 < length
     [\<lparr>m_id = 1, m_chat_id = 1, m_sender_id = Some 7, m_timestamp = 0\<rparr>,
      \<lparr>m_id = 2, m_chat_id = 1, m_sender_id = None, m_timestamp = 60\<rparr>,
      \<lparr>m_id = 3, m_chat_id = 1, m_sender_id = Some 7, m_timestamp = 600\<rparr>,
      \<lparr>m_id = 4, m_chat_id = 1, m_sender_id = None, m_timestamp = 12000\<rparr>]" by simp
  have e: "exceeds_gap 10800 \<lparr>m_id = 3, m_chat_id = 1, m_sender_id = Some 7, m_timestamp = 600\<rparr>
        \<lparr>m_id = 4, m_chat_id = 1, m_sender_id = None, m_timestamp = 12000\<rparr>"
    by (simp add: exceeds_gap_def total_seconds_def)
  have i3: "segment_index (map b_messages (split_into_conversations
        [\<lparr>m_id = 1, m_chat_id = 1, m_sender_id = Some 7, m_timestamp = 0\<rparr>,
      \<lparr>m_id = 2, m_chat_id = 1, m_sender_id = None, m_timestamp = 60\<rparr>,
      \<lparr>m_id = 3, m_chat_id = 1, m_sender_id = Some 7, m_timestamp = 600\<rparr>,
      \<lparr>m_id = 4, m_chat_id = 1, m_sender_id = None, m_timestamp = 12000\<rparr>] 10800)) 3 = 1"
    by (subst split_example) simp
  have i2: "segment_index (map b_messages (split_into_conversations
        [\<lparr>m_id = 1, m_chat_id = 1, m_sender_id = Some 7, m_timestamp = 0\<rparr>,
      \<lparr>m_id = 2, m_chat_id = 1, m_sender_id = None, m_timestamp = 60\<rparr>,
      \<lparr>m_id = 3, m_chat_id = 1, m_sender_id = Some 7, m_timestamp = 600\<rparr>,
      \<lparr>m_id = 4, m_chat_id = 1, m_sender_id = None, m_timestamp = 12000\<rparr>] 10800)) 2 = 0"
    by (subst split_example) simp
  have t: "map s_message_ids (transform_conversations (split_into_conversations
        [\<lparr>m_id = 1, m_chat_id = 1, m_sender_id = Some 7, m_timestamp = 0\<rparr>,
      \<lparr>m_id = 2, m_chat_id = 1, m_sender_id = None, m_timestamp = 60\<rparr>,
      \<lparr>m_id = 3, m_chat_id = 1, m_sender_id = Some 7, m_timestamp = 600\<rparr>,
      \<lparr>m_id = 4, m_chat_id = 1, m_sender_id = None, m_timestamp = 12000\<rparr>] 10800) 10800) = [[1, 2, 3]]"
    using inst
    by (simp only: split_example) (simp add: has_sender_def List.map_filter_simps)
  have f1: "reuses [] senderless_block = False"
    by (simp add: reuses_def find_reusable_def)
  have f2: "has_sender senderless_block = False"
    by (simp add: has_sender_def senderless_block_def senderless_msgs_def List.map_filter_simps)
  have f3: "1 \<in> ch_id ` set (chats senderless_store)
        \<and> (\<forall>m \<in> set (b_messages senderless_block). \<forall>r \<in> set (messages senderless_store).
              msg_id r = m_id m \<longrightarrow> msg_sender_id r = m_sender_id m)"
    by (simp add: senderless_block_def senderless_msgs_def senderless_store_def)
  from inst f1 f2 f3 have r: "replace_step 1 10800 [] senderless_store senderless_block =
            Inr (senderless_store\<lparr>conversations :=
                filter (\<lambda>c. \<not> overlaps 1 (b_start_time senderless_block)
                              (b_end_time senderless_block) c)
                  (conversations senderless_store)
                @ [\<lparr>c_id = Suc (seq_conversations senderless_store), c_chat_id = 1,
                     c_initiator_id = None,
                     c_start_time = b_start_time senderless_block,
                     c_end_time = b_end_time senderless_block,
                     c_message_count = length (b_messages senderless_block),
                     c_gap_threshold = 10800\<rparr>],
              seq_conversations := Suc (seq_conversations senderless_store),
              messages :=
                map (\<lambda>m. if msg_id m \<in> m_id ` set (b_messages senderless_block)
                          then m\<lparr>msg_conversation_id := Some (Suc (seq_conversations senderless_store))\<rparr>
                          else detach (map c_id (filter (overlaps 1 (b_start_time senderless_block)
                                         (b_end_time senderless_block)) (conversations senderless_store))) m)
                    (messages senderless_store)\<rparr>)"
    by blast
  have f4: "replace_step 1 10800 [] senderless_store senderless_block
       = Inr (senderless_store
               \<lparr>conversations := [\<lparr>c_id = 1, c_chat_id = 1, c_initiator_id = None,
                                    c_start_time = 0, c_end_time = 0, c_message_count = 1,
                                    c_gap_threshold = 10800\<rparr>],
                seq_conversations := 1,
                messages := map (\<lambda>m. m\<lparr>msg_conversation_id := Some 1\<rparr>)
                              (messages senderless_store)\<rparr>)"
    unfolding r by (simp add: senderless_block_def senderless_msgs_def senderless_store_def)
  from h e i3 i2 t f1 f2 f4 show ?thesis by (intro conjI)
qed







section \<open>Properties of the sync engine\<close>

subsection \<open>A second run finds nothing to do\<close>

lemma fold_upd_nonempty: "xs \<noteq> [] \<Longrightarrow> fold (\<lambda>c m. m(f c \<mapsto> g c)) xs m0 \<noteq> Map.empty"
proof (induction xs arbitrary: m0 rule: rev_induct)
  case Nil
  then show ?case by simp
next
  case (snoc x xs)
  have e: "fold (\<lambda>c m. m(f c \<mapsto> g c)) (xs @ [x]) m0
        = (fold (\<lambda>c m. m(f c \<mapsto> g c)) xs m0)(f x \<mapsto> g x)" by simp
  show ?case unfolding e by (rule map_upd_nonempty)
qed

lemma load_chat_map_empty: "(load_chat_map cs = Map.empty) = (cs = [])"
  using fold_upd_nonempty [of cs ch_chat_identifier ch_id Map.empty]
  by (auto simp: load_chat_map_def)

lemma load_message_map_empty: "(load_message_map ms = Map.empty) = (ms = [])"
  using fold_upd_nonempty [of ms msg_guid msg_id Map.empty]
  by (auto simp: load_message_map_def)

lemma load_contact_map_empty: "(load_contact_map cs = Map.empty) = (cs = [])"
  using fold_upd_nonempty [of cs "\<lambda>ci. identifier_key (ci_identifier ci)" ci_contact_id Map.empty]
  by (auto simp: load_contact_map_def)

lemma load_participants_map_empty: "(load_participants_map cs = Map.empty) = (cs = [])"
proof -
  have h: "(\<lambda>(k, p) m. m(k \<mapsto> p)) = (\<lambda>c m. m(fst c \<mapsto> snd c))" by (auto simp: fun_eq_iff)
  show ?thesis
  proof (cases "cs = []")
    case True
    then show ?thesis by (simp add: load_participants_map_def)
  next
    case False
    with fold_upd_nonempty [of cs fst snd Map.empty]
    show ?thesis unfolding load_participants_map_def h by blast
  qed
qed

lemma get_caches_settled: "caches_settled src_chats (get_caches src_chats w)"
  by (simp add: caches_settled_def get_caches_def get_chat_map_def get_message_guid_to_id_map_def
      get_reaction_guids_def get_contact_map_def get_chat_participants_map_def
      load_chat_map_empty load_message_map_empty load_contact_map_empty
      load_participants_map_empty)

lemma world_self_update [simp]:
  "w\<lparr>CHAT_MAP_CACHE := CHAT_MAP_CACHE w\<rparr> = w"
  "w\<lparr>MESSAGE_GUID_TO_ID_CACHE := MESSAGE_GUID_TO_ID_CACHE w\<rparr> = w"
  "w\<lparr>REACTION_GUID_CACHE := REACTION_GUID_CACHE w\<rparr> = w"
  "w\<lparr>CONTACT_MAP_CACHE := CONTACT_MAP_CACHE w\<rparr> = w"
  "w\<lparr>CHAT_DB_ROWID_TO_PARTICIPANTS_CACHE := CHAT_DB_ROWID_TO_PARTICIPANTS_CACHE w\<rparr> = w"
  "w\<lparr>internal_db := internal_db w\<rparr> = w"
  by simp_all

lemma settled_get_caches: "caches_settled src_chats w \<Longrightarrow> get_caches src_chats w = w"
proof -
  assume s: "caches_settled src_chats w"
  have 1: "get_chat_map False w = w"
    using s by (cases w) (auto simp: caches_settled_def get_chat_map_def load_chat_map_def)
  have 2: "get_message_guid_to_id_map False w = w"
    using s by (cases w) (auto simp: caches_settled_def get_message_guid_to_id_map_def load_message_map_def)
  have 3: "get_reaction_guids False w = w"
    using s by (cases w) (auto simp: caches_settled_def get_reaction_guids_def)
  have 4: "get_contact_map False w = w"
    using s by (cases w) (auto simp: caches_settled_def get_contact_map_def load_contact_map_def)
  have 5: "get_chat_participants_map src_chats False w = w"
    using s by (cases w) (auto simp: caches_settled_def get_chat_participants_map_def load_participants_map_def)
  show ?thesis by (simp add: get_caches_def 1 2 3 4 5)
qed


lemma ensure_user_found:
  "find ct_is_me (contacts d) = Some c \<Longrightarrow> ct_id c \<noteq> 0 \<Longrightarrow> ensure_user_contact d = (ct_id c, d)"
  by (simp add: ensure_user_contact_def)

lemma note_unknown_known:
  "(r_is_from_me row \<or> \<not> str_truthy (r_sender_identifier row)
     \<or> (\<exists>s. r_sender_identifier row = Some s \<and> identifier_key s \<in> dom cm)) \<Longrightarrow>
   note_unknown_sender cm unknown row = unknown"
  by (auto simp: note_unknown_sender_def str_truthy_def Let_def split: option.splits)

lemma foldl_note_unknown_known:
  "\<forall>r \<in> set rows. sender_known cm r \<Longrightarrow> foldl (note_unknown_sender cm) unknown rows = unknown"
  by (induction rows arbitrary: unknown) (simp_all add: note_unknown_known sender_known_def)

lemma sync_row_quiet:
  assumes q: "quiet user_id (lp_world lp) row"
  shows "\<exists>k M. sync_row user_id lp row =
           lp\<lparr>lp_rows := lp_rows lp @ [fill_chat_participants
                    (CHAT_DB_ROWID_TO_PARTICIPANTS_CACHE (lp_world lp)) row],
              lp_skipped_count := k, lp_missing_chat_identifiers := M\<rparr>"
proof -
  let ?w = "lp_world lp"
  let ?row = "fill_chat_participants (CHAT_DB_ROWID_TO_PARTICIPANTS_CACHE ?w) row"
  let ?tr = "transform_message ?row"
  from q have c: "truthy (CHAT_MAP_CACHE ?w (t_chat_identifier ?tr)) \<or> t_chat_identifier ?tr = []"
    by (simp add: quiet_def Let_def)
  then have rc: "resolve_chat ?row ?tr ?w = (CHAT_MAP_CACHE ?w (t_chat_identifier ?tr), ?w)"
    by (auto simp: resolve_chat_def Let_def)
  let ?rows = "lp_rows lp @ [?row]"
  show ?thesis
  proof (cases "truthy (CHAT_MAP_CACHE ?w (t_chat_identifier ?tr))")
    case False
    then have "sync_row user_id lp row =
           lp\<lparr>lp_rows := ?rows, lp_skipped_count := lp_skipped_count lp + 1,
              lp_missing_chat_identifiers :=
                insert (t_chat_identifier ?tr) (lp_missing_chat_identifiers lp)\<rparr>"
      using rc by (auto simp: sync_row_def Let_def truthy_def split: option.splits)
    then show ?thesis by blast
  next
    case True
    then obtain cid where cid: "CHAT_MAP_CACHE ?w (t_chat_identifier ?tr) = Some cid" "cid \<noteq> 0"
      by (auto simp: truthy_def split: option.splits)
    show ?thesis
    proof (cases "resolve_sender user_id ?tr ?w")
      case None
      then have "sync_row user_id lp row =
           lp\<lparr>lp_rows := ?rows, lp_skipped_count := lp_skipped_count lp + 1,
              lp_missing_chat_identifiers := lp_missing_chat_identifiers lp\<rparr>"
        using rc cid True by (simp add: sync_row_def Let_def)
      then show ?thesis by blast
    next
      case (Some sid)
      show ?thesis
      proof (cases "str_truthy (t_guid ?tr)")
        case False
        then have "sync_row user_id lp row =
           lp\<lparr>lp_rows := ?rows, lp_skipped_count := lp_skipped_count lp + 1,
              lp_missing_chat_identifiers := lp_missing_chat_identifiers lp\<rparr>"
          using rc cid True Some
          by (auto simp: sync_row_def Let_def str_truthy_def split: option.splits)
        then show ?thesis by blast
      next
        case t: True
        then obtain g where g: "t_guid ?tr = Some g" "g \<noteq> []"
          by (auto simp: str_truthy_def split: option.splits)
        from q True Some t g have
          k: "if is_reaction_type (t_message_type ?tr) then g \<in> REACTION_GUID_CACHE ?w
              else g \<in> dom (MESSAGE_GUID_TO_ID_CACHE ?w)"
          by (simp add: quiet_def Let_def)
        have st: "\<And>l. lp_world l = ?w \<Longrightarrow> stage_row cid sid g ?tr l = l"
          using k by (auto simp: stage_row_def is_reaction_type_def split: if_splits)
        have "sync_row user_id lp row =
           lp\<lparr>lp_rows := ?rows, lp_skipped_count := lp_skipped_count lp,
              lp_missing_chat_identifiers := lp_missing_chat_identifiers lp\<rparr>"
          using rc cid True Some g by (simp add: sync_row_def Let_def st)
        then show ?thesis by blast
      qed
    qed
  qed
qed

lemma ensure_user_frame:
  "contact_identifiers (snd (ensure_user_contact d)) = contact_identifiers d
   \<and> chats (snd (ensure_user_contact d)) = chats d
   \<and> messages (snd (ensure_user_contact d)) = messages d
   \<and> reactions (snd (ensure_user_contact d)) = reactions d"
  by (simp add: ensure_user_contact_def insert_contact_def Let_def split: option.splits)

lemma find_append_Some: "find P xs = Some x \<Longrightarrow> find P (xs @ ys) = Some x"
  by (induction xs) (auto split: if_splits)

lemma find_append_None: "find P xs = None \<Longrightarrow> find P (xs @ ys) = find P ys"
  by (induction xs) (auto split: if_splits)

lemma ensure_user_is_me:
  assumes nz: "0 \<notin> set (map ct_id (contacts d))"
  shows "\<exists>c. find ct_is_me (contacts (snd (ensure_user_contact d))) = Some c
             \<and> ct_id c = fst (ensure_user_contact d) \<and> ct_id c \<noteq> 0"
proof (cases "find ct_is_me (contacts d)")
  case None
  then show ?thesis
    by (simp add: ensure_user_contact_def insert_contact_def Let_def find_append_None)
next
  case (Some c)
  with find_in_set [OF Some] nz have "ct_id c \<noteq> 0" by auto
  with Some show ?thesis by (simp add: ensure_user_contact_def)
qed

lemma ensure_user_ids:
  "0 \<notin> set (map ct_id (contacts d)) \<Longrightarrow> 0 \<notin> set (map ct_id (contacts (snd (ensure_user_contact d))))"
  by (auto simp: ensure_user_contact_def insert_contact_def Let_def split: option.splits)

text \<open>The first pass leaves no sender of the batch without a cache key.\<close>

lemma note_unknown_mono: "fst ` set unknown \<subseteq> fst ` set (note_unknown_sender cm unknown row)"
  by (auto simp: note_unknown_sender_def Let_def split: option.splits)

lemma foldl_note_unknown_mono:
  "fst ` set unknown \<subseteq> fst ` set (foldl (note_unknown_sender cm) unknown rows)"
proof (induction rows arbitrary: unknown)
  case Nil
  then show ?case by simp
next
  case (Cons r rows)
  from note_unknown_mono [of unknown cm r] Cons [of "note_unknown_sender cm unknown r"]
  show ?case by auto
qed

lemma note_unknown_covers:
  "sender_known (\<lambda>k. if k \<in> fst ` set (note_unknown_sender cm unknown row) then Some 1 else cm k) row"
  by (auto simp: sender_known_def note_unknown_sender_def str_truthy_def Let_def dom_def
      split: option.splits)

lemma sender_known_mono:
  "sender_known cm row \<Longrightarrow> dom cm \<subseteq> dom cm' \<Longrightarrow> sender_known cm' row"
  by (auto simp: sender_known_def)

lemma foldl_note_unknown_covers:
  "r \<in> set rows \<Longrightarrow>
   sender_known (\<lambda>k. if k \<in> fst ` set (foldl (note_unknown_sender cm) unknown rows)
                      then Some 1 else cm k) r"
proof (induction rows arbitrary: unknown)
  case Nil
  then show ?case by simp
next
  case (Cons a rows)
  show ?case
  proof (cases "r = a")
    case True
    have k: "sender_known (\<lambda>k. if k \<in> fst ` set (note_unknown_sender cm unknown a) then Some 1 else cm k) a"
      by (rule note_unknown_covers)
    have sub: "dom (\<lambda>k. if k \<in> fst ` set (note_unknown_sender cm unknown a) then Some (1::nat) else cm k)
               \<subseteq> dom (\<lambda>k. if k \<in> fst ` set (foldl (note_unknown_sender cm) unknown (a # rows))
                      then Some 1 else cm k)"
      using foldl_note_unknown_mono [of "note_unknown_sender cm unknown a" cm rows]
      by (auto simp: dom_def split: if_splits)
    from sender_known_mono [OF k sub] True show ?thesis by simp
  next
    case False
    with Cons.prems have "r \<in> set rows" by simp
    from Cons.IH [OF this, of "note_unknown_sender cm unknown a"] show ?thesis by simp
  qed
qed

lemma note_unknown_snd_in:
  "e \<in> set (note_unknown_sender cm unknown row) \<Longrightarrow> e \<in> set unknown \<or> fst e = identifier_key (snd e)"
  by (auto simp: note_unknown_sender_def Let_def split: option.splits if_splits)


text \<open>Every contact that is created is read back with its new id.\<close>

lemma insert_contacts_result:
  "\<exists>news. contacts (foldl (\<lambda>d n. snd (insert_contact n False ds d)) d names) = contacts d @ news
     \<and> map ct_name news = names
     \<and> 0 \<notin> set (map ct_id news)
     \<and> find ct_is_me news = None
     \<and> set (map ct_data_source news) \<subseteq> {ds}"
proof (induction names arbitrary: d)
  case Nil
  show ?case by simp
next
  case (Cons n names)
  let ?d1 = "snd (insert_contact n False ds d)"
  let ?c = "\<lparr>ct_id = Suc (seq_contacts d), ct_name = n, ct_is_me = False, ct_data_source = ds\<rparr>"
  from Cons [of ?d1] obtain news where
    n: "contacts (foldl (\<lambda>d n. snd (insert_contact n False ds d)) ?d1 names) = contacts ?d1 @ news"
       "map ct_name news = names" "0 \<notin> set (map ct_id news)" "find ct_is_me news = None"
       "set (map ct_data_source news) \<subseteq> {ds}"
    by blast
  have c: "contacts ?d1 = contacts d @ [?c]" by (simp add: insert_contact_def Let_def)
  show ?case
    apply (rule exI [of _ "?c # news"])
    using n c by simp
qed

lemma insert_contacts_frame:
  "contact_identifiers (foldl (\<lambda>d n. snd (insert_contact n False ds d)) d names) = contact_identifiers d
   \<and> chats (foldl (\<lambda>d n. snd (insert_contact n False ds d)) d names) = chats d
   \<and> messages (foldl (\<lambda>d n. snd (insert_contact n False ds d)) d names) = messages d
   \<and> reactions (foldl (\<lambda>d n. snd (insert_contact n False ds d)) d names) = reactions d
   \<and> seq_chats (foldl (\<lambda>d n. snd (insert_contact n False ds d)) d names) = seq_chats d
   \<and> seq_messages (foldl (\<lambda>d n. snd (insert_contact n False ds d)) d names) = seq_messages d"
  by (induction names arbitrary: d) (simp_all add: insert_contact_def Let_def)

lemma insert_identifiers_frame:
  "contacts (foldl insert_identifier_or_ignore d idents) = contacts d
   \<and> chats (foldl insert_identifier_or_ignore d idents) = chats d
   \<and> messages (foldl insert_identifier_or_ignore d idents) = messages d
   \<and> reactions (foldl insert_identifier_or_ignore d idents) = reactions d
   \<and> seq_chats (foldl insert_identifier_or_ignore d idents) = seq_chats d
   \<and> seq_messages (foldl insert_identifier_or_ignore d idents) = seq_messages d"
  by (induction idents arbitrary: d) (simp_all add: insert_identifier_or_ignore_def)

lemma fold_upd_other:
  "k \<notin> f ` set xs \<Longrightarrow> fold (\<lambda>c m. m(f c \<mapsto> g c)) xs m0 k = m0 k"
  by (induction xs arbitrary: m0) auto

lemma fold_upd_distinct:
  "distinct (map f xs) \<Longrightarrow> x \<in> set xs \<Longrightarrow> fold (\<lambda>c m. m(f c \<mapsto> g c)) xs m0 (f x) = Some (g x)"
proof (induction xs arbitrary: m0)
  case Nil
  then show ?case by simp
next
  case (Cons a xs)
  show ?case
  proof (cases "x = a")
    case True
    with Cons.prems have "f a \<notin> f ` set xs" by simp
    then have 1: "fold (\<lambda>c m. m(f c \<mapsto> g c)) xs (m0(f a \<mapsto> g a)) (f a)
                  = (m0(f a \<mapsto> g a)) (f a)"
      by (rule fold_upd_other)
    show ?thesis unfolding True fold_simps comp_apply 1 by simp
  next
    case False
    with Cons show ?thesis by simp
  qed
qed

lemma retrieve_contact_ids_new:
  assumes n: "n \<in> set names" and d: "distinct names"
  shows "\<exists>i. retrieve_contact_ids names
               (foldl (\<lambda>d n. snd (insert_contact n False (Some ''live_sync_message_sender'') d)) d0 names) n
             = Some i \<and> i \<noteq> 0"
proof -
  let ?ds = "Some ''live_sync_message_sender''"
  let ?P = "\<lambda>c. ct_name c \<in> set names \<and> ct_data_source c = ?ds"
  from insert_contacts_result [of ?ds d0 names] obtain news where
    r: "contacts (foldl (\<lambda>d n. snd (insert_contact n False ?ds d)) d0 names) = contacts d0 @ news"
       "map ct_name news = names" "0 \<notin> set (map ct_id news)"
       "set (map ct_data_source news) \<subseteq> {?ds}"
    by blast
  have all: "filter ?P news = news"
  proof (rule filter_True, intro ballI)
    fix c assume c: "c \<in> set news"
    then have "ct_name c \<in> set (map ct_name news)" by simp
    moreover from c r(4) have "ct_data_source c = ?ds" by auto
    ultimately show "?P c" using r(2) by simp
  qed
  from n r(2) obtain c where c: "c \<in> set news" "ct_name c = n" by (metis in_set_conv_nth length_map nth_map nth_mem)
  have dn: "distinct (map ct_name news)" using d r(2) by simp
  have "retrieve_contact_ids names (foldl (\<lambda>d n. snd (insert_contact n False ?ds d)) d0 names) n
        = fold (\<lambda>c m. m(ct_name c \<mapsto> ct_id c)) news
            (fold (\<lambda>c m. m(ct_name c \<mapsto> ct_id c)) (filter ?P (contacts d0)) Map.empty) (ct_name c)"
    by (simp add: retrieve_contact_ids_def r(1) all c(2))
  also have "\<dots> = Some (ct_id c)" by (rule fold_upd_distinct [OF dn c(1)])
  finally show ?thesis using c(1) r(3) by auto
qed

lemma register_contact_dom:
  "dom (fst acc) \<subseteq> dom (fst (register_contact retrieved acc e))"
  by (auto simp: register_contact_def split: option.splits)

lemma foldl_register_dom_mono:
  "dom (fst acc) \<subseteq> dom (fst (foldl (register_contact retrieved) acc unknown))"
proof (induction unknown arbitrary: acc)
  case Nil
  show ?case by simp
next
  case (Cons e unknown)
  from register_contact_dom [of acc retrieved e] Cons [of "register_contact retrieved acc e"]
  show ?case by auto
qed

lemma foldl_register_covers:
  "\<forall>e \<in> set unknown. \<exists>i. retrieved (snd e) = Some i \<and> i \<noteq> 0 \<Longrightarrow>
   fst ` set unknown \<subseteq> dom (fst (foldl (register_contact retrieved) acc unknown))"
proof (induction unknown arbitrary: acc)
  case Nil
  show ?case by simp
next
  case (Cons e unknown)
  from Cons.prems obtain i where i: "retrieved (snd e) = Some i" "i \<noteq> 0" by auto
  then have "fst e \<in> dom (fst (register_contact retrieved acc e))"
    by (simp add: register_contact_def)
  with foldl_register_dom_mono [of "register_contact retrieved acc e" retrieved unknown]
  have 1: "fst e \<in> dom (fst (foldl (register_contact retrieved) (register_contact retrieved acc e) unknown))"
    by auto
  from Cons.prems have "\<forall>e \<in> set unknown. \<exists>i. retrieved (snd e) = Some i \<and> i \<noteq> 0" by simp
  from Cons.IH [OF this, of "register_contact retrieved acc e"] 1
  show ?case by auto
qed

lemma create_unknown_caches:
  "CHAT_MAP_CACHE (create_unknown_contacts unknown w) = CHAT_MAP_CACHE w
   \<and> MESSAGE_GUID_TO_ID_CACHE (create_unknown_contacts unknown w) = MESSAGE_GUID_TO_ID_CACHE w
   \<and> REACTION_GUID_CACHE (create_unknown_contacts unknown w) = REACTION_GUID_CACHE w
   \<and> CHAT_DB_ROWID_TO_PARTICIPANTS_CACHE (create_unknown_contacts unknown w)
       = CHAT_DB_ROWID_TO_PARTICIPANTS_CACHE w
   \<and> chat_map_cache_populated (create_unknown_contacts unknown w) = chat_map_cache_populated w
   \<and> message_guid_cache_populated (create_unknown_contacts unknown w)
       = message_guid_cache_populated w
   \<and> reaction_guid_cache_populated (create_unknown_contacts unknown w)
       = reaction_guid_cache_populated w
   \<and> contacts_cache_populated (create_unknown_contacts unknown w) = contacts_cache_populated w
   \<and> chat_participants_cache_populated (create_unknown_contacts unknown w)
       = chat_participants_cache_populated w"
  by (simp add: create_unknown_contacts_def Let_def)

lemma create_unknown_tables:
  "chats (internal_db (create_unknown_contacts unknown w)) = chats (internal_db w)
   \<and> messages (internal_db (create_unknown_contacts unknown w)) = messages (internal_db w)
   \<and> reactions (internal_db (create_unknown_contacts unknown w)) = reactions (internal_db w)
   \<and> seq_chats (internal_db (create_unknown_contacts unknown w)) = seq_chats (internal_db w)
   \<and> seq_messages (internal_db (create_unknown_contacts unknown w)) = seq_messages (internal_db w)"
  by (simp add: create_unknown_contacts_def Let_def insert_identifiers_frame insert_contacts_frame)

lemma create_unknown_contacts_rows:
  "\<exists>news. contacts (internal_db (create_unknown_contacts unknown w))
            = contacts (internal_db w) @ news
          \<and> 0 \<notin> set (map ct_id news) \<and> find ct_is_me news = None"
proof (cases "unknown = []")
  case True
  then show ?thesis by (simp add: create_unknown_contacts_def)
next
  case False
  from insert_contacts_result [of "Some ''live_sync_message_sender''" "internal_db w"
         "remdups (map snd unknown)"]
  show ?thesis using False
    by (auto simp: create_unknown_contacts_def Let_def insert_identifiers_frame)
qed

lemma create_unknown_covers:
  "dom (CONTACT_MAP_CACHE w) \<union> fst ` set unknown
     \<subseteq> dom (CONTACT_MAP_CACHE (create_unknown_contacts unknown w))"
proof (cases "unknown = []")
  case True
  then show ?thesis by (simp add: create_unknown_contacts_def)
next
  case False
  let ?names = "remdups (map snd unknown)"
  let ?d1 = "foldl (\<lambda>d n. snd (insert_contact n False (Some ''live_sync_message_sender'') d))
               (internal_db w) ?names"
  let ?retr = "retrieve_contact_ids ?names ?d1"
  have r: "\<forall>e \<in> set unknown. \<exists>i. ?retr (snd e) = Some i \<and> i \<noteq> 0"
  proof
    fix e assume "e \<in> set unknown"
    then have "snd e \<in> set ?names" by simp
    then show "\<exists>i. ?retr (snd e) = Some i \<and> i \<noteq> 0"
      by (rule retrieve_contact_ids_new) simp
  qed
  have c: "CONTACT_MAP_CACHE (create_unknown_contacts unknown w)
           = fst (foldl (register_contact ?retr) (CONTACT_MAP_CACHE w, []) unknown)"
    using False by (simp add: create_unknown_contacts_def Let_def)
  from foldl_register_covers [OF r, of "(CONTACT_MAP_CACHE w, [])"]
    foldl_register_dom_mono [of "(CONTACT_MAP_CACHE w, [])" ?retr unknown]
  show ?thesis unfolding c by auto
qed

lemma create_unknown_settled:
  assumes s: "caches_settled src_chats w"
  shows "caches_settled src_chats (create_unknown_contacts unknown w)"
proof (cases "unknown = []")
  case True
  with s show ?thesis by (simp add: create_unknown_contacts_def)
next
  case False
  then obtain e where "e \<in> set unknown" by (cases unknown) auto
  with create_unknown_covers [of w unknown]
  have "fst e \<in> dom (CONTACT_MAP_CACHE (create_unknown_contacts unknown w))" by auto
  then have ne: "CONTACT_MAP_CACHE (create_unknown_contacts unknown w) \<noteq> Map.empty" by auto
  from s ne show ?thesis
    unfolding caches_settled_def
    by (simp add: create_unknown_caches create_unknown_tables)
qed

lemma resolve_chat_caches:
  "CONTACT_MAP_CACHE (snd (resolve_chat row tr w)) = CONTACT_MAP_CACHE w
   \<and> MESSAGE_GUID_TO_ID_CACHE (snd (resolve_chat row tr w)) = MESSAGE_GUID_TO_ID_CACHE w
   \<and> REACTION_GUID_CACHE (snd (resolve_chat row tr w)) = REACTION_GUID_CACHE w
   \<and> CHAT_DB_ROWID_TO_PARTICIPANTS_CACHE (snd (resolve_chat row tr w))
       = CHAT_DB_ROWID_TO_PARTICIPANTS_CACHE w
   \<and> chat_map_cache_populated (snd (resolve_chat row tr w)) = chat_map_cache_populated w
   \<and> message_guid_cache_populated (snd (resolve_chat row tr w)) = message_guid_cache_populated w
   \<and> reaction_guid_cache_populated (snd (resolve_chat row tr w)) = reaction_guid_cache_populated w
   \<and> contacts_cache_populated (snd (resolve_chat row tr w)) = contacts_cache_populated w
   \<and> chat_participants_cache_populated (snd (resolve_chat row tr w))
       = chat_participants_cache_populated w"
  by (simp add: resolve_chat_def create_chat_if_missing_def Let_def split: option.splits)

lemma resolve_chat_tables:
  "contacts (internal_db (snd (resolve_chat row tr w))) = contacts (internal_db w)
   \<and> contact_identifiers (internal_db (snd (resolve_chat row tr w)))
       = contact_identifiers (internal_db w)
   \<and> messages (internal_db (snd (resolve_chat row tr w))) = messages (internal_db w)
   \<and> reactions (internal_db (snd (resolve_chat row tr w))) = reactions (internal_db w)
   \<and> seq_messages (internal_db (snd (resolve_chat row tr w))) = seq_messages (internal_db w)"
  by (simp add: resolve_chat_def create_chat_if_missing_def Let_def split: option.splits)

lemma resolve_chat_keeps:
  "truthy (CHAT_MAP_CACHE w k) \<or> k = [] \<Longrightarrow>
   CHAT_MAP_CACHE (snd (resolve_chat row tr w)) k = CHAT_MAP_CACHE w k"
  by (auto simp: resolve_chat_def create_chat_if_missing_def Let_def split: option.splits)

lemma resolve_chat_result:
  assumes nz: "0 \<notin> set (map ch_id (chats (internal_db w)))"
  shows "0 \<notin> set (map ch_id (chats (internal_db (snd (resolve_chat row tr w)))))
         \<and> (truthy (CHAT_MAP_CACHE (snd (resolve_chat row tr w)) (t_chat_identifier tr))
             \<or> t_chat_identifier tr = [])
         \<and> fst (resolve_chat row tr w)
             = CHAT_MAP_CACHE (snd (resolve_chat row tr w)) (t_chat_identifier tr)"
proof (cases "\<not> truthy (CHAT_MAP_CACHE w (t_chat_identifier tr)) \<and> t_chat_identifier tr \<noteq> []")
  case False
  with nz show ?thesis by (auto simp: resolve_chat_def Let_def)
next
  case True
  show ?thesis
  proof (cases "find (\<lambda>c. ch_chat_identifier c = t_chat_identifier tr) (chats (internal_db w))")
    case None
    with True nz show ?thesis
      by (simp add: resolve_chat_def create_chat_if_missing_def Let_def truthy_def)
  next
    case (Some c)
    from find_in_set [OF Some] nz have "ch_id c \<noteq> 0" by auto
    with True Some nz show ?thesis
      by (simp add: resolve_chat_def create_chat_if_missing_def Let_def truthy_def)
  qed
qed

lemma resolve_chat_settled:
  "caches_settled src_chats w \<Longrightarrow> caches_settled src_chats (snd (resolve_chat row tr w))"
  unfolding caches_settled_def
  by (auto simp: resolve_chat_def create_chat_if_missing_def Let_def split: option.splits)

lemma stage_row_world: "lp_world (stage_row c s g tr lp) = lp_world lp"
  by (simp add: stage_row_def)

lemma stage_row_rows: "lp_rows (stage_row c s g tr lp) = lp_rows lp"
  by (simp add: stage_row_def)

lemma sync_row_world:
  "lp_world (sync_row user_id lp row)
   = snd (resolve_chat
            (fill_chat_participants (CHAT_DB_ROWID_TO_PARTICIPANTS_CACHE (lp_world lp)) row)
            (transform_message
               (fill_chat_participants (CHAT_DB_ROWID_TO_PARTICIPANTS_CACHE (lp_world lp)) row))
            (lp_world lp))"
  by (simp add: sync_row_def Let_def stage_row_world split: option.splits)

lemma sync_row_rows:
  "lp_rows (sync_row user_id lp row)
   = lp_rows lp @ [fill_chat_participants (CHAT_DB_ROWID_TO_PARTICIPANTS_CACHE (lp_world lp)) row]"
  by (simp add: sync_row_def Let_def stage_row_rows split: option.splits)

lemma stage_row_extends:
  "(\<exists>ms. lp_messages_to_insert (stage_row c s g tr lp) = lp_messages_to_insert lp @ ms)
   \<and> (\<exists>rs. lp_reactions_to_insert (stage_row c s g tr lp) = lp_reactions_to_insert lp @ rs)"
  by (simp add: stage_row_def)

lemma sync_row_extends:
  "(\<exists>ms. lp_messages_to_insert (sync_row user_id lp row) = lp_messages_to_insert lp @ ms)
   \<and> (\<exists>rs. lp_reactions_to_insert (sync_row user_id lp row) = lp_reactions_to_insert lp @ rs)"
  by (auto simp: sync_row_def Let_def stage_row_def split: option.splits)

subsection \<open>Classification\<close>

lemma null_type_row:
  "t_message_type (transform_message example_null_type_row) = None
   \<and> t_guid (transform_message example_null_type_row) = Some ''A''"
  by (simp add: transform_message_def example_null_type_row_def example_message_row_def)

text \<open>
  Claim C4 at the failing input. The live path (\<open>stage_row\<close>, the classification of
  \<open>sync_messages\<close>) stages a row as a reaction when its message type is neither zero
  nor NULL, and as a message otherwise. The backup path (\<open>load_stage\<close>, the
  classification of \<open>load_messages\<close>) tests \<^verbatim>\<open>msg['message_type'] != 0\<close> alone: a row
  whose type is NULL is staged for the table of reactions, with a NULL reaction type, and
  not for the table of messages.
\<close>

theorem backup_null_type_is_reaction:
  "stage_row chat_id sender_id message_guid tr lp
     = (if t_message_type tr = Some 0 \<or> t_message_type tr = None
        then (if MESSAGE_GUID_TO_ID_CACHE (lp_world lp) message_guid = None
              then lp\<lparr>lp_messages_to_insert := lp_messages_to_insert lp @
                        [\<lparr>sm_chat_id = chat_id, sm_sender_id = sender_id,
                          sm_timestamp = t_timestamp tr, sm_is_from_me = t_is_from_me tr,
                          sm_message_type = t_message_type tr, sm_guid = message_guid\<rparr>],
                      lp_chat_counts := (lp_chat_counts lp)
                         (chat_id \<mapsto> (case lp_chat_counts lp chat_id of
                                          None \<Rightarrow> 0 | Some n \<Rightarrow> n) + 1),
                      lp_imported_count := lp_imported_count lp + 1\<rparr>
              else lp)
        else (if message_guid \<in> REACTION_GUID_CACHE (lp_world lp) then lp
              else lp\<lparr>lp_reactions_to_insert := lp_reactions_to_insert lp @
                        [\<lparr>rx_original_message_guid = t_associated_message_guid tr,
                          rx_reaction_type = t_message_type tr,
                          rx_sender_id = Some sender_id,
                          rx_timestamp = t_timestamp tr,
                          rx_chat_id = chat_id,
                          rx_guid = message_guid\<rparr>]\<rparr>))
   \<and> load_stage existing_message_guids existing_reaction_guids chat_id sender msg ld
     = (if t_message_type msg = Some 0
        then (if t_guid msg \<in> existing_message_guids
              then ld\<lparr>ld_messages_to_update := ld_messages_to_update ld @
                        [\<lparr>md_chat_id = chat_id, md_sender_id = sender,
                          md_timestamp = t_timestamp msg, md_is_from_me = t_is_from_me msg,
                          md_message_type = Some 0, md_guid = t_guid msg\<rparr>]\<rparr>
              else ld\<lparr>ld_messages_to_insert := ld_messages_to_insert ld @
                        [\<lparr>md_chat_id = chat_id, md_sender_id = sender,
                          md_timestamp = t_timestamp msg, md_is_from_me = t_is_from_me msg,
                          md_message_type = Some 0, md_guid = t_guid msg\<rparr>],
                      ld_chat_counts := (ld_chat_counts ld)
                         (chat_id \<mapsto> (case ld_chat_counts ld chat_id of
                                          None \<Rightarrow> 0 | Some n \<Rightarrow> n) + 1),
                      ld_imported_count := ld_imported_count ld + 1\<rparr>)
        else (if t_guid msg \<in> existing_reaction_guids
              then ld\<lparr>ld_reactions_to_update := ld_reactions_to_update ld @
                        [\<lparr>rd_original_message_guid = t_associated_message_guid msg,
                          rd_reaction_type = t_message_type msg, rd_sender_id = sender,
                          rd_timestamp = t_timestamp msg, rd_chat_id = chat_id,
                          rd_guid = t_guid msg\<rparr>]\<rparr>
              else ld\<lparr>ld_reactions_to_insert := ld_reactions_to_insert ld @
                        [\<lparr>rd_original_message_guid = t_associated_message_guid msg,
                          rd_reaction_type = t_message_type msg, rd_sender_id = sender,
                          rd_timestamp = t_timestamp msg, rd_chat_id = chat_id,
                          rd_guid = t_guid msg\<rparr>]\<rparr>))
   \<and> r_associated_message_type example_null_type_row = None
   \<and> load_stage {} {} 1 (Some 1) (transform_message example_null_type_row) empty_load_lists
     = empty_load_lists
         \<lparr>ld_reactions_to_insert :=
            [\<lparr>rd_original_message_guid
                 = t_associated_message_guid (transform_message example_null_type_row),
              rd_reaction_type = None, rd_sender_id = Some 1,
              rd_timestamp = t_timestamp (transform_message example_null_type_row),
              rd_chat_id = 1, rd_guid = Some ''A''\<rparr>]\<rparr>
   \<and> lp_messages_to_insert
       (stage_row 1 1 ''A'' (transform_message example_null_type_row)
          \<lparr>lp_world = empty_world, lp_messages_to_insert = [], lp_reactions_to_insert = [],
           lp_chat_counts = Map.empty, lp_imported_count = 0, lp_skipped_count = 0,
           lp_missing_chat_identifiers = {}, lp_created_chats_count = 0, lp_rows = []\<rparr>)
     = [\<lparr>sm_chat_id = 1, sm_sender_id = 1,
         sm_timestamp = t_timestamp (transform_message example_null_type_row),
         sm_is_from_me = False, sm_message_type = None, sm_guid = ''A''\<rparr>]"
proof (intro conjI)
  show "stage_row chat_id sender_id message_guid tr lp
     = (if t_message_type tr = Some 0 \<or> t_message_type tr = None
        then (if MESSAGE_GUID_TO_ID_CACHE (lp_world lp) message_guid = None
              then lp\<lparr>lp_messages_to_insert := lp_messages_to_insert lp @
                        [\<lparr>sm_chat_id = chat_id, sm_sender_id = sender_id,
                          sm_timestamp = t_timestamp tr, sm_is_from_me = t_is_from_me tr,
                          sm_message_type = t_message_type tr, sm_guid = message_guid\<rparr>],
                      lp_chat_counts := (lp_chat_counts lp)
                         (chat_id \<mapsto> (case lp_chat_counts lp chat_id of
                                          None \<Rightarrow> 0 | Some n \<Rightarrow> n) + 1),
                      lp_imported_count := lp_imported_count lp + 1\<rparr>
              else lp)
        else (if message_guid \<in> REACTION_GUID_CACHE (lp_world lp) then lp
              else lp\<lparr>lp_reactions_to_insert := lp_reactions_to_insert lp @
                        [\<lparr>rx_original_message_guid = t_associated_message_guid tr,
                          rx_reaction_type = t_message_type tr,
                          rx_sender_id = Some sender_id,
                          rx_timestamp = t_timestamp tr,
                          rx_chat_id = chat_id,
                          rx_guid = message_guid\<rparr>]\<rparr>))"
    by (auto simp: stage_row_def)
next
  show "load_stage existing_message_guids existing_reaction_guids chat_id sender msg ld
     = (if t_message_type msg = Some 0
        then (if t_guid msg \<in> existing_message_guids
              then ld\<lparr>ld_messages_to_update := ld_messages_to_update ld @
                        [\<lparr>md_chat_id = chat_id, md_sender_id = sender,
                          md_timestamp = t_timestamp msg, md_is_from_me = t_is_from_me msg,
                          md_message_type = Some 0, md_guid = t_guid msg\<rparr>]\<rparr>
              else ld\<lparr>ld_messages_to_insert := ld_messages_to_insert ld @
                        [\<lparr>md_chat_id = chat_id, md_sender_id = sender,
                          md_timestamp = t_timestamp msg, md_is_from_me = t_is_from_me msg,
                          md_message_type = Some 0, md_guid = t_guid msg\<rparr>],
                      ld_chat_counts := (ld_chat_counts ld)
                         (chat_id \<mapsto> (case ld_chat_counts ld chat_id of
                                          None \<Rightarrow> 0 | Some n \<Rightarrow> n) + 1),
                      ld_imported_count := ld_imported_count ld + 1\<rparr>)
        else (if t_guid msg \<in> existing_reaction_guids
              then ld\<lparr>ld_reactions_to_update := ld_reactions_to_update ld @
                        [\<lparr>rd_original_message_guid = t_associated_message_guid msg,
                          rd_reaction_type = t_message_type msg, rd_sender_id = sender,
                          rd_timestamp = t_timestamp msg, rd_chat_id = chat_id,
                          rd_guid = t_guid msg\<rparr>]\<rparr>
              else ld\<lparr>ld_reactions_to_insert := ld_reactions_to_insert ld @
                        [\<lparr>rd_original_message_guid = t_associated_message_guid msg,
                          rd_reaction_type = t_message_type msg, rd_sender_id = sender,
                          rd_timestamp = t_timestamp msg, rd_chat_id = chat_id,
                          rd_guid = t_guid msg\<rparr>]\<rparr>))"
    by (simp add: load_stage_def Let_def)
next
  show "r_associated_message_type example_null_type_row = None"
    by (simp add: example_null_type_row_def)
next
  show "load_stage {} {} 1 (Some 1) (transform_message example_null_type_row) empty_load_lists
     = empty_load_lists
         \<lparr>ld_reactions_to_insert :=
            [\<lparr>rd_original_message_guid
                 = t_associated_message_guid (transform_message example_null_type_row),
              rd_reaction_type = None, rd_sender_id = Some 1,
              rd_timestamp = t_timestamp (transform_message example_null_type_row),
              rd_chat_id = 1, rd_guid = Some ''A''\<rparr>]\<rparr>"
    by (simp add: load_stage_def Let_def null_type_row empty_load_lists_def)
next
  show "lp_messages_to_insert
       (stage_row 1 1 ''A'' (transform_message example_null_type_row)
          \<lparr>lp_world = empty_world, lp_messages_to_insert = [], lp_reactions_to_insert = [],
           lp_chat_counts = Map.empty, lp_imported_count = 0, lp_skipped_count = 0,
           lp_missing_chat_identifiers = {}, lp_created_chats_count = 0, lp_rows = []\<rparr>)
     = [\<lparr>sm_chat_id = 1, sm_sender_id = 1,
         sm_timestamp = t_timestamp (transform_message example_null_type_row),
         sm_is_from_me = False, sm_message_type = None, sm_guid = ''A''\<rparr>]"
    by (simp add: stage_row_def null_type_row empty_world_def transform_message_def
        example_null_type_row_def example_message_row_def)
qed

end
